theory Spec2Isabelle
  imports Main
begin

section \<open>Order and subscription mutations of the funding platform\<close>

text \<open>
  A shallow embedding of \<^verbatim>\<open>src/server/graphql/v1/mutations/orders.js\<close>:
  \<^verbatim>\<open>checkOrdersLimit\<close>, \<^verbatim>\<open>checkRecaptcha\<close>, \<^verbatim>\<open>createOrder\<close>, \<^verbatim>\<open>updateOrder\<close>,
  \<^verbatim>\<open>cancelSubscription\<close> and \<^verbatim>\<open>updateSubscription\<close>.

  Exceptions are values of \<open>error + 'a\<close>; the database is a record of tables that every
  operation takes and returns; a promise that is awaited is a call. Absent values
  (\<^verbatim>\<open>undefined\<close>, \<^verbatim>\<open>null\<close>) are \<open>None\<close>, and JavaScript truthiness is written out.
  Timestamps (\<^verbatim>\<open>new Date()\<close>) are a clock value \<open>now\<close> passed in by the caller.
\<close>

subsection \<open>Errors and constants\<close>

text \<open>
  \<^verbatim>\<open>Error\<close> is the plain JavaScript error with its message; \<^verbatim>\<open>ValidationFailed\<close>,
  \<^verbatim>\<open>Unauthorized\<close> and \<^verbatim>\<open>NotFound\<close> are the classes of \<^verbatim>\<open>graphql/errors\<close>;
  \<^verbatim>\<open>TypeError\<close> is what reading a property of \<^verbatim>\<open>null\<close> or \<^verbatim>\<open>undefined\<close> raises.
\<close>

datatype error =
    Error string
  | ValidationFailed string
  | Unauthorized string
  | NotFound string
  | TypeError string

text \<open>
  Modelled from the spec: the constants of \<^verbatim>\<open>constants/order_status\<close>,
  \<^verbatim>\<open>constants/collectives\<close>, \<^verbatim>\<open>constants/roles\<close> and \<^verbatim>\<open>constants/activities\<close>
  are not part of the sources at hand; the values are the ones the mutations name.
\<close>

datatype order_status = PENDING | PAID | ACTIVE | CANCELLED | ERROR

datatype collective_type = COLLECTIVE | EVENT | ORGANIZATION | USER

datatype role = ADMIN | HOST | MEMBER | ATTENDEE | FUNDRAISER | BACKER

datatype activity_type = TICKET_CONFIRMED | SUBSCRIPTION_CANCELED

subsection \<open>Rows and request payloads\<close>

record subscription =
  sub_id :: int
  sub_amount :: "int option"
  sub_currency :: "string option"
  sub_interval :: "string option"
  sub_isActive :: bool
  sub_nextChargeDate :: "nat option"
  sub_chargeRetryCount :: int
  sub_activatedAt :: "nat option"
  sub_deactivatedAt :: "nat option"
  sub_updatedAt :: "nat option"

text \<open>The \<^verbatim>\<open>paymentMethod\<close> object of a request.\<close>

record payment_ref =
  pm_service :: "string option"
  pm_uuid :: "string option"
  pm_token :: "string option"
  pm_type :: "string option"
  pm_save :: bool
  pm_CollectiveId :: "int option"

text \<open>A row of \<^verbatim>\<open>PaymentMethods\<close>.\<close>

record payment_method =
  pmr_id :: int
  pmr_uuid :: "string option"
  pmr_CollectiveId :: "int option"

record order_row =
  order_id :: int
  order_CreatedByUserId :: int
  order_FromCollectiveId :: int
  order_CollectiveId :: int
  order_TierId :: "int option"
  order_quantity :: int
  order_totalAmount :: "int option"
  order_currency :: string
  order_interval :: "string option"
  order_description :: string
  order_publicMessage :: "string option"
  order_privateMessage :: "string option"
  order_processedAt :: "nat option"
  order_MatchingPaymentMethodId :: "int option"
  order_ReferralCollectiveId :: "int option"
  order_SubscriptionId :: "int option"
  order_PaymentMethodId :: "int option"
  order_status :: order_status
  order_reqIp :: "string option"
  order_recaptchaResponse :: "string option"
  order_updatedAt :: "nat option"

record collective =
  col_id :: int
  col_type :: collective_type
  col_isActive :: bool
  col_currency :: string
  col_name :: string
  col_slug :: string
  col_website :: "string option"
  col_githubHandle :: "string option"

record tier =
  tier_id :: int
  tier_amount :: "int option"
  tier_maxQuantityPerUser :: "int option"
  tier_currency :: "string option"
  tier_presets :: bool
  tier_name :: "string option"

record user =
  user_id :: int
  user_CollectiveId :: int
  user_email :: "string option"

record member =
  mem_CollectiveId :: int
  mem_MemberCollectiveId :: int
  mem_CreatedByUserId :: int
  mem_role :: role

text \<open>
  An activity record; the fields of its \<^verbatim>\<open>data\<close> object that identify rows are kept
  (\<^verbatim>\<open>data.EventCollectiveId\<close>, \<^verbatim>\<open>data.UserId\<close>, the order and the subscription).
\<close>

record activity =
  act_type :: activity_type
  act_CollectiveId :: "int option"
  act_UserId :: "int option"
  act_EventCollectiveId :: "int option"
  act_dataUserId :: "int option"
  act_order :: "int option"
  act_subscription :: "int option"

record repo =
  stargazers_count :: int

record matching_fund =
  mf_id :: int
  mf_CollectiveId :: int

text \<open>The pieces of the \<^verbatim>\<open>order\<close> argument of \<^verbatim>\<open>createOrder\<close> and \<^verbatim>\<open>updateOrder\<close>.\<close>

record collective_ref =
  cr_id :: "int option"
  cr_website :: "string option"
  cr_githubHandle :: "string option"
  cr_name :: "string option"

record from_ref =
  fr_id :: "int option"
  fr_name :: "string option"

record user_ref =
  ur_email :: "string option"

text \<open>
  A field of the input where the code tells \<^verbatim>\<open>undefined\<close> from \<^verbatim>\<open>null\<close> (a test
  \<^verbatim>\<open>!== undefined\<close>, a template literal): left out, given as \<^verbatim>\<open>null\<close>, or given with a
  value.
\<close>

datatype 'a argument = Undefined | Null | Given 'a

text \<open>\<^verbatim>\<open>order.tier\<close>: an object whose \<open>id\<close> may be missing.\<close>

record tier_ref =
  tr_id :: "int argument"

record order_input =
  oi_id :: "int option"
  oi_paymentMethod :: "payment_ref option"
  oi_collective :: "collective_ref option"
  oi_fromCollective :: "from_ref option"
  oi_tier :: "tier_ref option"
  oi_user :: "user_ref option"
  oi_totalAmount :: "int option"
  oi_quantity :: "int option"
  oi_currency :: "string option"
  oi_interval :: "string option"
  oi_description :: "string option"
  oi_publicMessage :: "string option"
  oi_privateMessage :: "string option"
  oi_platformFeePercent :: "int option"
  oi_hostFeePercent :: "int option"
  oi_matchingFund :: "string option"
  oi_referral :: "int option"
  oi_recaptchaToken :: "string option"

record subscription_args =
  arg_id :: int
  arg_paymentMethod :: "payment_ref argument"
  arg_amount :: "int argument"

subsection \<open>The database\<close>

text \<open>
  The tables the mutations touch, the cache of the rate limiter, and a log \<open>executed\<close>
  of the orders handed to \<^verbatim>\<open>libPayments.executeOrder\<close>. The log is written by the
  mutation at each call, so that "no charge was executed" is a statement about it.
\<close>

record db =
  orders :: "order_row list"
  subscriptions :: "subscription list"
  paymentMethods :: "payment_method list"
  collectives :: "collective list"
  tiers :: "tier list"
  activities :: "activity list"
  members :: "member list"
  cache :: "string \<Rightarrow> int option"
  executed :: "int list"

text \<open>
  The collaborators that are imported from other modules, and the configuration: each
  is a parameter. A collaborator that can throw returns a sum; one that writes rows
  returns the database.
\<close>

record env =
  NODE_ENV :: string
  perAccount :: int
  perAccountForCollective :: int
  perEmail :: int
  perEmailForCollective :: int
  perIp :: int
  md5 :: "string \<Rightarrow> string"
  capitalize :: "string \<Rightarrow> string"
  pluralize :: "string \<Rightarrow> int \<Rightarrow> string"
  recaptchaVerify :: "string \<Rightarrow> string option \<Rightarrow> string option"
  getRepo :: "string \<Rightarrow> repo option"
  getOrg :: "string \<Rightarrow> bool"
  getAllOrganizationPublicRepos :: "string \<Rightarrow> repo list option"
  isRoot :: "user \<Rightarrow> bool"
  isAdmin :: "user \<Rightarrow> int option \<Rightarrow> bool"
  hasRole :: "user \<Rightarrow> role list \<Rightarrow> int \<Rightarrow> bool"
  collectiveDefaults :: "collective_ref \<Rightarrow> collective"
  getHostCollectiveId :: "collective \<Rightarrow> db \<Rightarrow> int option"
  checkAvailableQuantity :: "tier \<Rightarrow> int option \<Rightarrow> db \<Rightarrow> bool"
  findByEmailOrPaypalEmail :: "string \<Rightarrow> db \<Rightarrow> user option"
  createUserWithCollective :: "user_ref \<Rightarrow> string option \<Rightarrow> int option \<Rightarrow> db \<Rightarrow> (error + user) \<times> db"
  createOrganization :: "from_ref option \<Rightarrow> user option \<Rightarrow> user option \<Rightarrow> db \<Rightarrow> (error + collective) \<times> db"
  getMatchingFund :: "string \<Rightarrow> int \<Rightarrow> db \<Rightarrow> error + matching_fund"
  canBeUsedForOrder :: "matching_fund \<Rightarrow> order_input \<Rightarrow> user option \<Rightarrow> db \<Rightarrow> bool"
  setPaymentMethod :: "order_row \<Rightarrow> payment_ref option \<Rightarrow> db \<Rightarrow> (error + order_row) \<times> db"
  executeOrder :: "user \<Rightarrow> order_row \<Rightarrow> payment_ref option \<Rightarrow> int option \<times> int option \<Rightarrow> db \<Rightarrow> error option \<times> order_row \<times> db"
  createFromStripeSourceToken :: "payment_ref \<Rightarrow> db \<Rightarrow> error + payment_method"
  getNextChargeDate :: "string \<Rightarrow> order_row \<Rightarrow> subscription \<Rightarrow> nat option"
  getChargeRetryCount :: "string \<Rightarrow> order_row \<Rightarrow> subscription \<Rightarrow> int"

subsection \<open>Truthiness and the repository operations\<close>

definition truthy_str :: "string option \<Rightarrow> bool" where
  "truthy_str v = (case v of None \<Rightarrow> False | Some x \<Rightarrow> x \<noteq> [])"

definition truthy_int :: "int option \<Rightarrow> bool" where
  "truthy_int v = (case v of None \<Rightarrow> False | Some n \<Rightarrow> n \<noteq> 0)"

text \<open>\<^verbatim>\<open>v > 0\<close> for a number that may be absent: \<^verbatim>\<open>undefined > 0\<close> and \<^verbatim>\<open>null > 0\<close> are false.\<close>

definition gt0 :: "int option \<Rightarrow> bool" where
  "gt0 v = (case v of None \<Rightarrow> False | Some n \<Rightarrow> 0 < n)"

definition newId :: "int list \<Rightarrow> int" where
  "newId ids = fold max ids 0 + 1"

definition findOrder :: "db \<Rightarrow> int \<Rightarrow> order_row option" where
  "findOrder s i = find (\<lambda>r. order_id r = i) (orders s)"

definition findSubscription :: "db \<Rightarrow> int \<Rightarrow> subscription option" where
  "findSubscription s i = find (\<lambda>r. sub_id r = i) (subscriptions s)"

definition findCollective :: "db \<Rightarrow> int \<Rightarrow> collective option" where
  "findCollective s i = find (\<lambda>r. col_id r = i) (collectives s)"

definition findTier :: "db \<Rightarrow> int \<Rightarrow> tier option" where
  "findTier s i = find (\<lambda>r. tier_id r = i) (tiers s)"

text \<open>\<^verbatim>\<open>instance.update\<close> / \<^verbatim>\<open>instance.save\<close>: the row of the instance's id takes its values.\<close>

definition saveOrder :: "db \<Rightarrow> order_row \<Rightarrow> db" where
  "saveOrder s r = s\<lparr>orders := map (\<lambda>x. if order_id x = order_id r then r else x) (orders s)\<rparr>"

definition saveSubscription :: "db \<Rightarrow> subscription \<Rightarrow> db" where
  "saveSubscription s r =
     s\<lparr>subscriptions := map (\<lambda>x. if sub_id x = sub_id r then r else x) (subscriptions s)\<rparr>"

text \<open>
  \<^verbatim>\<open>models.Order.findOne\<close> with \<^verbatim>\<open>include: [{ model: models.Subscription }]\<close>: the order and
  the subscription its \<^verbatim>\<open>SubscriptionId\<close> names, \<^verbatim>\<open>null\<close> when there is none.
\<close>

definition findOneOrder :: "db \<Rightarrow> int \<Rightarrow> (order_row \<times> subscription option) option" where
  "findOneOrder s i =
     (case findOrder s i of
        None \<Rightarrow> None
      | Some r \<Rightarrow>
          Some (r, case order_SubscriptionId r of
                     None \<Rightarrow> None
                   | Some sid \<Rightarrow> findSubscription s sid))"

text \<open>
  Modelled from the spec: \<^verbatim>\<open>Subscription.deactivate\<close> is a method of the model, which is
  not among the sources; it makes the subscription inactive and stamps the time.
\<close>

definition deactivate :: "nat \<Rightarrow> subscription \<Rightarrow> subscription" where
  "deactivate now sub = sub\<lparr>sub_isActive := False, sub_deactivatedAt := Some now\<rparr>"

text \<open>
  The payment reference check of \<^verbatim>\<open>createOrder\<close> and \<^verbatim>\<open>updateOrder\<close>:
  \<^verbatim>\<open>!order.paymentMethod || !(pm.uuid || pm.token || pm.type === 'manual')\<close>.
\<close>

definition paymentRefMissing :: "payment_ref option \<Rightarrow> bool" where
  "paymentRefMissing p =
     (case p of
        None \<Rightarrow> True
      | Some pm \<Rightarrow> \<not> (truthy_str (pm_uuid pm) \<or> truthy_str (pm_token pm) \<or> pm_type pm = Some ''manual''))"

text \<open>
  A call of \<^verbatim>\<open>libPayments.executeOrder\<close>: the collaborator returns the error it throws,
  if any, the order instance as it left it, and the database; the call is logged.
\<close>

definition call_executeOrder ::
  "env \<Rightarrow> user \<Rightarrow> order_row \<Rightarrow> payment_ref option \<Rightarrow> int option \<times> int option \<Rightarrow> db
     \<Rightarrow> error option \<times> order_row \<times> db" where
  "call_executeOrder e u inst pm fees s =
     (case executeOrder e u inst pm fees s of
        (err, inst', s') \<Rightarrow> (err, inst', s'\<lparr>executed := executed s @ [order_id inst]\<rparr>))"

subsection \<open>cancelSubscription\<close>

definition cancelSubscription ::
  "env \<Rightarrow> nat \<Rightarrow> user option \<Rightarrow> int \<Rightarrow> db
     \<Rightarrow> (error + (order_row \<times> subscription option) option) \<times> db" where
  "cancelSubscription e now remoteUser orderId s =
     (case remoteUser of
        None \<Rightarrow> (Inl (Unauthorized ''You need to be logged in to cancel a subscription''), s)
      | Some ru \<Rightarrow>
         (case findOneOrder s orderId of
            None \<Rightarrow> (Inl (Error ''Subscription not found''), s)
          | Some (order, osub) \<Rightarrow>
             if \<not> isAdmin e ru (Some (order_FromCollectiveId order)) then
               (Inl (Unauthorized ''You don't have permission to cancel this subscription''), s)
             else
               (case osub of
                  None \<Rightarrow> (Inl (TypeError ''Cannot read property 'isActive' of null''), s)
                | Some sub \<Rightarrow>
                   if \<not> sub_isActive sub \<and> order_status order = CANCELLED then
                     (Inl (Error ''Subscription already canceled''), s)
                   else
                     let s1 = saveOrder s (order\<lparr>order_status := CANCELLED\<rparr>);
                         s2 = saveSubscription s1 (deactivate now sub);
                         s3 = s2\<lparr>activities := activities s2 @
                                [\<lparr>act_type = SUBSCRIPTION_CANCELED,
                                  act_CollectiveId = Some (order_CollectiveId order),
                                  act_UserId = Some (order_CreatedByUserId order),
                                  act_EventCollectiveId = None,
                                  act_dataUserId = Some (user_id ru),
                                  act_order = None,
                                  act_subscription = Some (sub_id sub)\<rparr>]\<rparr>
                     in (Inr (findOneOrder s3 orderId), s3))))"

subsection \<open>updateSubscription\<close>

text \<open>Lines 543-570: the requester, the order and the subscription are checked.\<close>

definition updateSubscription_load ::
  "env \<Rightarrow> user option \<Rightarrow> int \<Rightarrow> db \<Rightarrow> error + (order_row \<times> subscription)" where
  "updateSubscription_load e remoteUser i s =
     (case remoteUser of
        None \<Rightarrow> Inl (Unauthorized ''You need to be logged in to update a subscription'')
      | Some ru \<Rightarrow>
         (case findOneOrder s i of
            None \<Rightarrow> Inl (Error ''Subscription not found'')
          | Some (order, osub) \<Rightarrow>
             if \<not> isAdmin e ru (Some (order_FromCollectiveId order)) then
               Inl (Unauthorized ''You don't have permission to update this subscription'')
             else
               (case osub of
                  None \<Rightarrow> Inl (TypeError ''Cannot read property 'isActive' of null'')
                | Some sub \<Rightarrow>
                   if \<not> sub_isActive sub then
                     Inl (Error ''Subscription must be active to be updated'')
                   else Inr (order, sub))))"

text \<open>Lines 572-606: a payment method given with the call replaces the order's.\<close>

definition updateSubscription_paymentMethod ::
  "env \<Rightarrow> payment_ref \<Rightarrow> order_row \<times> subscription \<Rightarrow> db
     \<Rightarrow> (error + (order_row \<times> subscription)) \<times> db" where
  "updateSubscription_paymentMethod e paymentMethod os s =
     (case os of (order, sub) \<Rightarrow>
       (case
          (if (case pm_uuid paymentMethod of None \<Rightarrow> False | Some u \<Rightarrow> u \<noteq> [] \<and> length u = 36) then
             (case find (\<lambda>p. pmr_uuid p = pm_uuid paymentMethod) (paymentMethods s) of
                None \<Rightarrow> (Inl (Error ''Payment method not found with this uuid''), s)
              | Some newPm \<Rightarrow> (Inr newPm, s))
           else
             (case createFromStripeSourceToken e
                     (paymentMethod\<lparr>pm_CollectiveId := Some (order_FromCollectiveId order)\<rparr>) s of
                Inl err \<Rightarrow> (Inl err, s)
              | Inr newPm \<Rightarrow> (Inr newPm, s\<lparr>paymentMethods := paymentMethods s @ [newPm]\<rparr>)))
        of
          (Inl err, s1) \<Rightarrow> (Inl err, s1)
        | (Inr newPm, s1) \<Rightarrow>
           let sub1 = (if 0 < sub_chargeRetryCount sub then
                         sub\<lparr>sub_nextChargeDate := getNextChargeDate e ''updated'' order sub,
                             sub_chargeRetryCount := getChargeRetryCount e ''updated'' order sub\<rparr>
                       else sub);
               s2 = (if 0 < sub_chargeRetryCount sub then saveSubscription s1 sub1 else s1);
               order1 = order\<lparr>order_PaymentMethodId := Some (pmr_id newPm)\<rparr>
           in (Inr (order1, sub1), saveOrder s2 order1)))"

text \<open>Lines 608-638: a new amount replaces the subscription and its order by new rows.\<close>

definition updateSubscription_amount ::
  "nat \<Rightarrow> int \<Rightarrow> order_row \<times> subscription \<Rightarrow> db \<Rightarrow> (error + order_row) \<times> db" where
  "updateSubscription_amount now amount os s =
     (case os of (order, sub) \<Rightarrow>
        if Some amount = sub_amount sub then (Inl (Error ''Same amount''), s)
        else if amount < 100 \<or> amount mod 100 \<noteq> 0 then (Inl (Error ''Invalid amount''), s)
        else
          let sub1 = deactivate now sub;
              s1 = saveSubscription s sub1;
              order1 = order\<lparr>order_status := CANCELLED\<rparr>;
              s2 = saveOrder s1 order1;
              newSubscription =
                sub1\<lparr>sub_id := newId (map sub_id (subscriptions s2)),
                     sub_deactivatedAt := None,
                     sub_amount := Some amount,
                     sub_updatedAt := Some now,
                     sub_activatedAt := Some now,
                     sub_isActive := True\<rparr>;
              s3 = s2\<lparr>subscriptions := subscriptions s2 @ [newSubscription]\<rparr>;
              newOrder =
                order1\<lparr>order_id := newId (map order_id (orders s3)),
                       order_totalAmount := Some amount,
                       order_SubscriptionId := Some (sub_id newSubscription),
                       order_updatedAt := Some now,
                       order_status := PENDING\<rparr>
          in (Inr newOrder, s3\<lparr>orders := orders s3 @ [newOrder]\<rparr>))"

text \<open>
  Lines 543-638 together. Both arguments are tested with \<^verbatim>\<open>!== undefined\<close>. A payment
  method given as \<^verbatim>\<open>null\<close> fails at \<^verbatim>\<open>paymentMethod.uuid\<close> (line 579). An amount given as
  \<^verbatim>\<open>null\<close> is \<^verbatim>\<open>==\<close> to a subscription amount that is \<^verbatim>\<open>null\<close> and to no number (line
  609), and \<^verbatim>\<open>null < 100\<close> holds (line 613).
\<close>

definition updateSubscription ::
  "env \<Rightarrow> nat \<Rightarrow> user option \<Rightarrow> subscription_args \<Rightarrow> db \<Rightarrow> (error + order_row) \<times> db" where
  "updateSubscription e now remoteUser args s =
     (case updateSubscription_load e remoteUser (arg_id args) s of
        Inl err \<Rightarrow> (Inl err, s)
      | Inr os \<Rightarrow>
         (case
            (case arg_paymentMethod args of
               Undefined \<Rightarrow> (Inr os, s)
             | Null \<Rightarrow> (Inl (TypeError ''Cannot read property 'uuid' of null''), s)
             | Given paymentMethod \<Rightarrow> updateSubscription_paymentMethod e paymentMethod os s)
          of
            (Inl err, s1) \<Rightarrow> (Inl err, s1)
          | (Inr os1, s1) \<Rightarrow>
             (case arg_amount args of
                Undefined \<Rightarrow> (Inr (fst os1), s1)
              | Null \<Rightarrow>
                  if sub_amount (snd os1) = None then (Inl (Error ''Same amount''), s1)
                  else (Inl (Error ''Invalid amount''), s1)
              | Given amount \<Rightarrow> updateSubscription_amount now amount os1 s1)))"

subsection \<open>updateOrder\<close>

text \<open>
  Lines 463-465 give the payment reference the account of the stored order when it is to be
  saved; the reference is read again only where payment is required, so \<open>paymentMethod\<close>
  is bound there.
\<close>

definition updateOrder ::
  "env \<Rightarrow> user option \<Rightarrow> order_input \<Rightarrow> db \<Rightarrow> (error + order_row) \<times> db" where
  "updateOrder e remoteUser order s =
     (case remoteUser of
        None \<Rightarrow> (Inl (Unauthorized ''You need to be logged in to update an order''), s)
      | Some ru \<Rightarrow>
         (case (case oi_id order of None \<Rightarrow> None | Some i \<Rightarrow> findOrder s i) of
            None \<Rightarrow> (Inl (NotFound ''Existing order not found''), s)
          | Some existingOrder \<Rightarrow>
             (case (if gt0 (oi_totalAmount order) then
                      (case findCollective s (order_CollectiveId existingOrder) of
                         None \<Rightarrow> Inl (TypeError ''Cannot read property 'isActive' of null'')
                       | Some c \<Rightarrow> Inr (col_isActive c))
                    else Inr False) of
                Inl err \<Rightarrow> (Inl err, s)
              | Inr paymentRequired \<Rightarrow>
                 if paymentRequired \<and> paymentRefMissing (oi_paymentMethod order) then
                   (Inl (Error ''This order requires a payment method''), s)
                 else if paymentRequired then
                   (let paymentMethod =
                          (case oi_paymentMethod order of
                             None \<Rightarrow> None
                           | Some pm \<Rightarrow>
                               if pm_save pm then
                                 Some (pm\<lparr>pm_CollectiveId :=
                                            Some (order_FromCollectiveId existingOrder)\<rparr>)
                               else Some pm);
                        inst = existingOrder\<lparr>order_interval := oi_interval order\<rparr>;
                        manual = (case paymentMethod of
                                    None \<Rightarrow> False
                                  | Some pm \<Rightarrow> pm_type pm = Some ''manual'')
                    in case (if manual then (Inr inst, s)
                             else setPaymentMethod e inst paymentMethod s) of
                         (Inl err, s1) \<Rightarrow> (Inl err, s1)
                       | (Inr inst1, s1) \<Rightarrow>
                          (case call_executeOrder e ru inst1
                                  (if manual then paymentMethod else None)
                                  (oi_hostFeePercent order, oi_platformFeePercent order) s1 of
                             (Some err, inst2, s2) \<Rightarrow> (Inl err, s2)
                           | (None, inst2, s2) \<Rightarrow>
                              (case findOrder s2 (order_id existingOrder) of
                                 None \<Rightarrow> (Inl (Error ''Instance could not be reloaded''), s2)
                               | Some r \<Rightarrow> (Inr r, s2))))
                 else
                   (case findOrder s (order_id existingOrder) of
                      None \<Rightarrow> (Inl (Error ''Instance could not be reloaded''), s)
                    | Some r \<Rightarrow> (Inr r, s)))))"

subsection \<open>checkOrdersLimit\<close>

text \<open>A template literal prints a number in decimal.\<close>

fun digits :: "nat \<Rightarrow> string" where
  "digits n =
     (if n < 10 then [char_of (48 + n)] else digits (n div 10) @ [char_of (48 + n mod 10)])"

declare digits.simps [simp del]

definition num_str :: "int \<Rightarrow> string" where
  "num_str i = (if i < 0 then CHR ''-'' # digits (nat (- i)) else digits (nat i))"

record limit =
  lkey :: string
  lvalue :: int

text \<open>\<^verbatim>\<open>(await cache.get(limit.key)) || 0\<close>.\<close>

definition cache_count :: "(string \<Rightarrow> int option) \<Rightarrow> string \<Rightarrow> int" where
  "cache_count c k = (case c k of None \<Rightarrow> 0 | Some n \<Rightarrow> n)"

definition limitError :: "env \<Rightarrow> error" where
  "limitError e =
     (if NODE_ENV e = ''development'' then
        Error (''Error while processing your request, please try again or contact support@opencollective.com'' @ '' - Orders limit reached'')
      else
        Error ''Error while processing your request, please try again or contact support@opencollective.com'')"

text \<open>Lines 37-73: the keys that apply to the request, in the order they are pushed.\<close>

definition anonymousLimits :: "env \<Rightarrow> string option \<Rightarrow> int option \<Rightarrow> string option \<Rightarrow> limit list" where
  "anonymousLimits e userEmail collectiveId reqIp =
     (case userEmail of
        None \<Rightarrow> []
      | Some email \<Rightarrow>
          if email = [] then []
          else
            \<lparr>lkey = ''order_limit_on_email_'' @ md5 e email, lvalue = perEmail e\<rparr> #
            (case collectiveId of
               None \<Rightarrow> []
             | Some c \<Rightarrow>
                 if c = 0 then []
                 else [\<lparr>lkey = ''order_limit_on_email_'' @ md5 e email @ ''_and_collective_'' @ num_str c,
                        lvalue = perEmailForCollective e\<rparr>])) @
     (case reqIp of
        None \<Rightarrow> []
      | Some ip \<Rightarrow>
          if ip = [] then []
          else [\<lparr>lkey = ''order_limit_on_ip_'' @ md5 e ip, lvalue = perIp e\<rparr>])"

definition orderLimits :: "env \<Rightarrow> order_input \<Rightarrow> string option \<Rightarrow> limit list" where
  "orderLimits e order reqIp =
     (let collectiveId = (case oi_collective order of None \<Rightarrow> None | Some c \<Rightarrow> cr_id c);
          fromCollectiveId = (case oi_fromCollective order of None \<Rightarrow> None | Some f \<Rightarrow> fr_id f);
          userEmail = (case oi_user order of None \<Rightarrow> None | Some u \<Rightarrow> ur_email u)
      in case fromCollectiveId of
           None \<Rightarrow> anonymousLimits e userEmail collectiveId reqIp
         | Some f \<Rightarrow>
             if f = 0 then anonymousLimits e userEmail collectiveId reqIp
             else
               \<lparr>lkey = ''order_limit_on_account_'' @ num_str f, lvalue = perAccount e\<rparr> #
               (case collectiveId of
                  None \<Rightarrow> []
                | Some c \<Rightarrow>
                    if c = 0 then []
                    else [\<lparr>lkey = ''order_limit_on_account_'' @ num_str f @ ''_and_collective_'' @ num_str c,
                           lvalue = perAccountForCollective e\<rparr>]))"

text \<open>
  Lines 75-91, the loop: the counter is read, compared, written back incremented, and
  only then the error is thrown. The expiry of a cache entry (one hour) is not
  modelled: all the attempts considered fall in one window.
\<close>

fun checkLimits :: "env \<Rightarrow> limit list \<Rightarrow> (string \<Rightarrow> int option) \<Rightarrow> error option \<times> (string \<Rightarrow> int option)" where
  "checkLimits e [] c = (None, c)"
| "checkLimits e (l # ls) c =
     (let count = cache_count c (lkey l);
          limitReached = (lvalue l \<le> count);
          c' = c(lkey l \<mapsto> count + 1)
      in if limitReached then (Some (limitError e), c') else checkLimits e ls c')"

definition checkOrdersLimit ::
  "env \<Rightarrow> order_input \<Rightarrow> string option \<Rightarrow> (string \<Rightarrow> int option) \<Rightarrow> error option \<times> (string \<Rightarrow> int option)" where
  "checkOrdersLimit e order reqIp c =
     (if NODE_ENV e = ''circleci'' \<or> NODE_ENV e = ''test'' then (None, c)
      else checkLimits e (orderLimits e order reqIp) c)"

text \<open>
  Bookkeeping for statements about the loop: the limits an attempt reaches (up to and
  including the first one whose threshold is reached), the cache after successive
  requests, and the number of those requests that checked a key.
\<close>

fun checkedLimits :: "limit list \<Rightarrow> (string \<Rightarrow> int option) \<Rightarrow> limit list" where
  "checkedLimits [] c = []"
| "checkedLimits (l # ls) c =
     l # (if lvalue l \<le> cache_count c (lkey l) then []
          else checkedLimits ls (c(lkey l \<mapsto> cache_count c (lkey l) + 1)))"

fun attempts ::
  "env \<Rightarrow> (order_input \<times> string option) list \<Rightarrow> (string \<Rightarrow> int option) \<Rightarrow> (string \<Rightarrow> int option)" where
  "attempts e [] c = c"
| "attempts e ((order, reqIp) # rs) c = attempts e rs (snd (checkOrdersLimit e order reqIp c))"

fun checksOf ::
  "env \<Rightarrow> string \<Rightarrow> (order_input \<times> string option) list \<Rightarrow> (string \<Rightarrow> int option) \<Rightarrow> nat" where
  "checksOf e k [] c = 0"
| "checksOf e k ((order, reqIp) # rs) c =
     (if k \<in> lkey ` set (checkedLimits (orderLimits e order reqIp) c) then 1 else 0) +
     checksOf e k rs (snd (checkOrdersLimit e order reqIp c))"

subsection \<open>checkRecaptcha\<close>

definition checkRecaptcha :: "env \<Rightarrow> order_input \<Rightarrow> user option \<Rightarrow> string option \<Rightarrow> error + string option" where
  "checkRecaptcha e order remoteUser reqIp =
     (if NODE_ENV e = ''test'' \<or> NODE_ENV e = ''circleci'' then Inr None
      else
        (case oi_recaptchaToken order of
           None \<Rightarrow>
             if remoteUser = None then
               Inl (Error ''Error while processing your request (Recaptcha token missing), please try again or contact support@opencollective.com'')
             else Inr None
         | Some token \<Rightarrow>
             if token = [] then
               (if remoteUser = None then
                  Inl (Error ''Error while processing your request (Recaptcha token missing), please try again or contact support@opencollective.com'')
                else Inr None)
             else Inr (recaptchaVerify e token reqIp)))"

subsection \<open>createOrder: validation (lines 123-366)\<close>

text \<open>
  Lines 140-170. \<^verbatim>\<open>github.getRepo(h).catch(() => null)\<close> is \<open>getRepo e h\<close>, \<open>None\<close> when
  the lookup fails; likewise for the list of an organization's repositories, on which
  \<^verbatim>\<open>.find\<close> is then called without a test for \<^verbatim>\<open>null\<close>.
\<close>

definition checkGithubHandle :: "env \<Rightarrow> string \<Rightarrow> error option" where
  "checkGithubHandle e githubHandle =
     (if CHR ''/'' \<in> set githubHandle then
        (case getRepo e githubHandle of
           None \<Rightarrow> Some (ValidationFailed ''We could not verify the GitHub repository'')
         | Some repo \<Rightarrow>
             if stargazers_count repo < 100 then
               Some (ValidationFailed ''The repository need at least 100 GitHub stars to be pledged.'')
             else None)
      else if \<not> getOrg e githubHandle then
        Some (ValidationFailed ''We could not verify the GitHub organization'')
      else
        (case getAllOrganizationPublicRepos e githubHandle of
           None \<Rightarrow> Some (TypeError ''Cannot read property 'find' of null'')
         | Some allRepos \<Rightarrow>
             (case find (\<lambda>repo. 100 \<le> stargazers_count repo) allRepos of
                None \<Rightarrow>
                  Some (ValidationFailed
                    ''The organization need at least one repository with 100 GitHub stars to be pledged.'')
              | Some repoWith100stars \<Rightarrow> None)))"

text \<open>Lines 123-125: a payment method on file is for a logged-in user.\<close>

definition checkPaymentMethodOnFile :: "order_input \<Rightarrow> user option \<Rightarrow> error option" where
  "checkPaymentMethodOnFile order remoteUser =
     (if (case oi_paymentMethod order of
            None \<Rightarrow> False
          | Some pm \<Rightarrow> pm_service pm = Some ''stripe'' \<and> truthy_str (pm_uuid pm)) \<and> remoteUser = None
      then Some (Error ''You need to be logged in to be able to use a payment method on file'')
      else None)"

text \<open>Lines 127-174: the checks made on the target of the request before any row is read.\<close>

definition checkTarget :: "env \<Rightarrow> order_input \<Rightarrow> user option \<Rightarrow> error option" where
  "checkTarget e order remoteUser =
        (case oi_collective order of
           None \<Rightarrow> Some (Error ''No collective id/website/githubHandle provided'')
         | Some cr \<Rightarrow>
             if \<not> truthy_int (cr_id cr) \<and> \<not> truthy_str (cr_website cr) \<and> \<not> truthy_str (cr_githubHandle cr) then
               Some (Error ''No collective id/website/githubHandle provided'')
             else if \<not> truthy_int (cr_id cr) \<and> \<not> truthy_str (cr_githubHandle cr) then
               Some (ValidationFailed ''An Open Collective id or a GitHub handle is mandatory.'')
             else
               (case (case cr_githubHandle cr of
                        None \<Rightarrow> None
                      | Some h \<Rightarrow> if h = [] then None else checkGithubHandle e h) of
                  Some err \<Rightarrow> Some err
                | None \<Rightarrow>
                    if truthy_int (oi_platformFeePercent order) then
                      (case remoteUser of
                         None \<Rightarrow> Some (TypeError ''Cannot read property 'isRoot' of undefined'')
                       | Some ru \<Rightarrow>
                           if \<not> isRoot e ru then Some (Error ''Only a root can change the platformFeePercent'')
                           else None)
                    else None))"

text \<open>\<^verbatim>\<open>models.Collective.findOrCreate({ where, defaults })\<close>, first element of the result.\<close>

definition findOrCreateCollective ::
  "env \<Rightarrow> (collective \<Rightarrow> bool) \<Rightarrow> collective_ref \<Rightarrow> db \<Rightarrow> collective \<times> db" where
  "findOrCreateCollective e P defaults s =
     (case find P (collectives s) of
        Some c \<Rightarrow> (c, s)
      | None \<Rightarrow>
          (let c = (collectiveDefaults e defaults)\<lparr>col_id := newId (map col_id (collectives s))\<rparr>
           in (c, s\<lparr>collectives := collectives s @ [c]\<rparr>)))"

text \<open>Lines 176-207: the recipient collective.\<close>

definition resolveCollective ::
  "env \<Rightarrow> order_input \<Rightarrow> collective_ref \<Rightarrow> user option \<Rightarrow> db \<Rightarrow> (error + collective) \<times> db" where
  "resolveCollective e order cr remoteUser s =
     (case (if truthy_int (cr_id cr) then
              (case cr_id cr of None \<Rightarrow> (None, s) | Some i \<Rightarrow> (findCollective s i, s))
            else if truthy_str (cr_website cr) then
              (case findOrCreateCollective e (\<lambda>c. col_website c = cr_website cr) cr s of
                 (c, s1) \<Rightarrow> (Some c, s1))
            else if truthy_str (cr_githubHandle cr) then
              (case findOrCreateCollective e (\<lambda>c. col_githubHandle c = cr_githubHandle cr) cr s of
                 (c, s1) \<Rightarrow> (Some c, s1))
            else (None, s)) of
        (None, s1) \<Rightarrow>
          (Inl (Error (''No collective found: '' @
                  (if truthy_int (cr_id cr) then (case cr_id cr of None \<Rightarrow> [] | Some i \<Rightarrow> num_str i)
                   else (case cr_website cr of None \<Rightarrow> ''undefined'' | Some w \<Rightarrow> w)))), s1)
      | (Some collective, s1) \<Rightarrow>
          if (case oi_fromCollective order of
                None \<Rightarrow> False
              | Some f \<Rightarrow> fr_id f = Some (col_id collective)) then
            (Inl (Error ''Orders cannot be created for a collective by that same collective.''), s1)
          else if truthy_int (oi_hostFeePercent order) then
            (case remoteUser of
               None \<Rightarrow> (Inl (TypeError ''Cannot read property 'isAdmin' of undefined''), s1)
             | Some ru \<Rightarrow>
                 if \<not> isAdmin e ru (getHostCollectiveId e collective s1) then
                   (Inl (Error ''Only an admin of the host can change the hostFeePercent''), s1)
                 else (Inr collective, s1))
          else (Inr collective, s1))"

text \<open>
  Lines 209-216: the tier, when the request names one. \<^verbatim>\<open>order.tier\<close> is an object, hence
  truthy; \<^verbatim>\<open>findByPk\<close> of an id that is missing or \<^verbatim>\<open>null\<close> finds no row, and the message
  prints the id as the template literal does.
\<close>

definition resolveTier :: "order_input \<Rightarrow> collective \<Rightarrow> db \<Rightarrow> error + tier option" where
  "resolveTier order collective s =
     (case oi_tier order of
        None \<Rightarrow> Inr None
      | Some tr \<Rightarrow>
          (case (case tr_id tr of
                   Undefined \<Rightarrow> None
                 | Null \<Rightarrow> None
                 | Given tid \<Rightarrow> findTier s tid) of
             None \<Rightarrow>
               Inl (Error (''No tier found with tier id: '' @
                           (case tr_id tr of
                              Undefined \<Rightarrow> ''undefined''
                            | Null \<Rightarrow> ''null''
                            | Given tid \<Rightarrow> num_str tid) @
                           '' for collective slug '' @ col_slug collective))
           | Some t \<Rightarrow> Inr (Some t)))"

text \<open>Lines 127-216 together: the collective and the tier of the request.\<close>

definition createOrder_resolveTarget ::
  "env \<Rightarrow> order_input \<Rightarrow> user option \<Rightarrow> db \<Rightarrow> (error + (collective \<times> tier option)) \<times> db" where
  "createOrder_resolveTarget e order remoteUser s =
     (case checkTarget e order remoteUser of
        Some err \<Rightarrow> (Inl err, s)
      | None \<Rightarrow>
          (case oi_collective order of
             None \<Rightarrow> (Inl (Error ''No collective id/website/githubHandle provided''), s)
           | Some cr \<Rightarrow>
               (case resolveCollective e order cr remoteUser s of
                  (Inl err, s1) \<Rightarrow> (Inl err, s1)
                | (Inr collective, s1) \<Rightarrow>
                    (case resolveTier order collective s1 of
                       Inl err \<Rightarrow> (Inl err, s1)
                     | Inr tier \<Rightarrow> (Inr (collective, tier), s1)))))"

text \<open>Lines 123-216 together: what is decided before payment is considered.\<close>

definition createOrder_resolve ::
  "env \<Rightarrow> order_input \<Rightarrow> user option \<Rightarrow> db \<Rightarrow> (error + (collective \<times> tier option)) \<times> db" where
  "createOrder_resolve e order remoteUser s =
     (case checkPaymentMethodOnFile order remoteUser of
        Some err \<Rightarrow> (Inl err, s)
      | None \<Rightarrow> createOrder_resolveTarget e order remoteUser s)"

text \<open>
  Line 218:
  \<^verbatim>\<open>(order.totalAmount > 0 || (tier && tier.amount > 0)) && collective.isActive\<close>.
\<close>

definition paymentRequired :: "order_input \<Rightarrow> tier option \<Rightarrow> collective \<Rightarrow> bool" where
  "paymentRequired order tier collective =
     ((gt0 (oi_totalAmount order) \<or> (case tier of None \<Rightarrow> False | Some t \<Rightarrow> gt0 (tier_amount t)))
      \<and> col_isActive collective)"

text \<open>\<^verbatim>\<open>a > b\<close> on numbers that may be absent.\<close>

definition num_gt :: "int option \<Rightarrow> int option \<Rightarrow> bool" where
  "num_gt a b = (case a of None \<Rightarrow> False | Some x \<Rightarrow> (case b of None \<Rightarrow> False | Some y \<Rightarrow> y < x))"

definition quantityError :: "env \<Rightarrow> tier \<Rightarrow> error" where
  "quantityError e t =
     (case tier_maxQuantityPerUser t of
        None \<Rightarrow> Error ''You can buy up to null per person''
      | Some m \<Rightarrow> Error (''You can buy up to '' @ num_str m @ '' '' @ pluralize e ''ticket'' m @ '' per person''))"

text \<open>Lines 220-226: a payment that is required needs a payment reference.\<close>

definition checkPaymentReference :: "order_input \<Rightarrow> tier option \<Rightarrow> collective \<Rightarrow> error option" where
  "checkPaymentReference order tier collective =
     (if paymentRequired order tier collective \<and> paymentRefMissing (oi_paymentMethod order) then
        Some (Error ''This order requires a payment method'')
      else None)"

text \<open>Lines 228-239: quantity per user, remaining quantity.\<close>

definition checkQuantity :: "env \<Rightarrow> order_input \<Rightarrow> tier option \<Rightarrow> db \<Rightarrow> error option" where
  "checkQuantity e order tier s =
        (case tier of
           None \<Rightarrow> None
         | Some t \<Rightarrow>
             if gt0 (tier_maxQuantityPerUser t) \<and> num_gt (oi_quantity order) (tier_maxQuantityPerUser t) then
               Some (quantityError e t)
             else if \<not> checkAvailableQuantity e t (oi_quantity order) s then
               Some (Error (''No more tickets left for '' @
                            (case tier_name t of None \<Rightarrow> ''null'' | Some n \<Rightarrow> n)))
             else None)"

text \<open>Lines 220-239 together.\<close>

definition checkPaymentAndQuantity ::
  "env \<Rightarrow> order_input \<Rightarrow> tier option \<Rightarrow> collective \<Rightarrow> db \<Rightarrow> error option" where
  "checkPaymentAndQuantity e order tier collective s =
     (case checkPaymentReference order tier collective of
        Some err \<Rightarrow> Some err
      | None \<Rightarrow> checkQuantity e order tier s)"

text \<open>Lines 241-260: the acting user.\<close>

definition resolveUser ::
  "env \<Rightarrow> order_input \<Rightarrow> user option \<Rightarrow> db \<Rightarrow> (error + user option) \<times> db" where
  "resolveUser e order remoteUser s =
     (case (case oi_user order of
              None \<Rightarrow> None
            | Some u \<Rightarrow>
                (case ur_email u of
                   None \<Rightarrow> None
                 | Some em \<Rightarrow> if em = [] then None else Some (u, em))) of
        Some (u, em) \<Rightarrow>
          (case findByEmailOrPaypalEmail e em s of
             Some existingUser \<Rightarrow>
               (Inl (Error ''An account already exists for this email address. Please login.''), s)
           | None \<Rightarrow>
               (case createUserWithCollective e u (oi_currency order) (map_option user_id remoteUser) s of
                  (Inl err, s1) \<Rightarrow> (Inl err, s1)
                | (Inr usr, s1) \<Rightarrow> (Inr (Some usr), s1)))
      | None \<Rightarrow> (Inr remoteUser, s))"

definition type_lower :: "collective_type \<Rightarrow> string" where
  "type_lower ty =
     (case ty of
        COLLECTIVE \<Rightarrow> ''collective''
      | EVENT \<Rightarrow> ''event''
      | ORGANIZATION \<Rightarrow> ''organization''
      | USER \<Rightarrow> ''user'')"

text \<open>Lines 262-298: the collective that pays.\<close>

definition resolveFromCollective ::
  "env \<Rightarrow> order_input \<Rightarrow> collective \<Rightarrow> user option \<Rightarrow> user option \<Rightarrow> db
     \<Rightarrow> (error + collective) \<times> db" where
  "resolveFromCollective e order collective usr remoteUser s =
     (case (if (case oi_fromCollective order of
                  None \<Rightarrow> True
                | Some f \<Rightarrow> \<not> truthy_int (fr_id f) \<and> \<not> truthy_str (fr_name f)) then
              (case usr of
                 None \<Rightarrow> Inl (TypeError ''Cannot read property 'CollectiveId' of undefined'')
               | Some u \<Rightarrow> Inr (findCollective s (user_CollectiveId u)))
            else Inr None) of
        Inl err \<Rightarrow> (Inl err, s)
      | Inr loaded \<Rightarrow>
          (case (case (case oi_fromCollective order of
                         None \<Rightarrow> None
                       | Some f \<Rightarrow> if truthy_int (fr_id f) then fr_id f else None) of
                   None \<Rightarrow> Inr loaded
                 | Some i \<Rightarrow>
                     (case remoteUser of
                        None \<Rightarrow>
                          Inl (Error ''You need to be logged in to create an order for an existing open collective'')
                      | Some ru \<Rightarrow>
                          (case findCollective s i of
                             None \<Rightarrow> Inl (Error (''From collective id '' @ num_str i @ '' not found''))
                           | Some fromCollective \<Rightarrow>
                               (let possibleRoles =
                                      [ADMIN, HOST] @
                                      (if col_type fromCollective = ORGANIZATION then [MEMBER] else [])
                                in if \<not> hasRole e ru possibleRoles i \<and>
                                      \<not> isAdmin e ru (getHostCollectiveId e collective s) then
                                     Inl (Error (''You don't have sufficient permissions to create an order on behalf of the '' @
                                                 col_name fromCollective @ '' '' @
                                                 type_lower (col_type fromCollective)))
                                   else Inr (Some fromCollective))))) of
             Inl err \<Rightarrow> (Inl err, s)
           | Inr (Some fromCollective) \<Rightarrow> (Inr fromCollective, s)
           | Inr None \<Rightarrow> createOrganization e (oi_fromCollective order) usr remoteUser s))"

text \<open>Lines 300-314: the matching fund, dropped when it cannot be used for the order.\<close>

definition resolveMatchingFund ::
  "env \<Rightarrow> order_input \<Rightarrow> collective \<Rightarrow> user option \<Rightarrow> db \<Rightarrow> error + matching_fund option" where
  "resolveMatchingFund e order collective usr s =
     (case oi_matchingFund order of
        None \<Rightarrow> Inr None
      | Some m \<Rightarrow>
          if m = [] then Inr None
          else
            (case getMatchingFund e m (col_id collective) s of
               Inl err \<Rightarrow> Inl err
             | Inr mf \<Rightarrow> if canBeUsedForOrder e mf order usr s then Inr (Some mf) else Inr None))"

text \<open>Line 316: \<^verbatim>\<open>(tier && tier.currency) || collective.currency\<close>.\<close>

definition orderCurrency :: "tier option \<Rightarrow> collective \<Rightarrow> string" where
  "orderCurrency tier collective =
     (case tier of
        None \<Rightarrow> col_currency collective
      | Some t \<Rightarrow>
          (case tier_currency t of
             None \<Rightarrow> col_currency collective
           | Some c \<Rightarrow> if c = [] then col_currency collective else c))"

text \<open>
  Lines 321-366: quantity, amount, description and the values of the row
  (\<^verbatim>\<open>orderData\<close>). The id is given when the row is created; \<open>createdBy\<close> is
  \<^verbatim>\<open>remoteUser ? remoteUser.id : user.id\<close>.
\<close>

definition orderData ::
  "env \<Rightarrow> nat \<Rightarrow> order_input \<Rightarrow> string option \<Rightarrow> string option \<Rightarrow> collective \<Rightarrow>
   tier option \<Rightarrow> collective \<Rightarrow> matching_fund option \<Rightarrow> int \<Rightarrow> order_row" where
  "orderData e now order reqIp recaptchaResponse collective tier fromCollective matchingFund createdBy =
     (let quantity = (case oi_quantity order of None \<Rightarrow> 1 | Some q \<Rightarrow> if q = 0 then 1 else q);
          totalAmount =
            (case tier of
               None \<Rightarrow> oi_totalAmount order
             | Some t \<Rightarrow>
                 (case tier_amount t of
                    None \<Rightarrow> oi_totalAmount order
                  | Some a \<Rightarrow>
                      if a \<noteq> 0 \<and> \<not> tier_presets t then Some (a * quantity)
                      else oi_totalAmount order));
          tierNameInfo =
            (case tier of
               None \<Rightarrow> []
             | Some t \<Rightarrow>
                 (case tier_name t of
                    None \<Rightarrow> []
                  | Some n \<Rightarrow> if n = [] then [] else '' ('' @ n @ '')''));
          defaultDescription =
            (case (case oi_interval order of
                     None \<Rightarrow> None
                   | Some i \<Rightarrow> if i = [] then None else Some i) of
               Some i \<Rightarrow> capitalize e i @ ''ly donation to '' @ col_name collective @ tierNameInfo
             | None \<Rightarrow>
                 (if totalAmount = Some 0 \<or> col_type collective = EVENT then ''Registration''
                  else ''Donation'') @ '' to '' @ col_name collective @ tierNameInfo);
          referral =
            (case matchingFund of
               None \<Rightarrow> oi_referral order
             | Some mf \<Rightarrow> Some (mf_CollectiveId mf))
      in \<lparr>order_id = 0,
          order_CreatedByUserId = createdBy,
          order_FromCollectiveId = col_id fromCollective,
          order_CollectiveId = col_id collective,
          order_TierId = map_option tier_id tier,
          order_quantity = quantity,
          order_totalAmount = totalAmount,
          order_currency = orderCurrency tier collective,
          order_interval = oi_interval order,
          order_description =
            (case oi_description order of
               None \<Rightarrow> defaultDescription
             | Some d \<Rightarrow> if d = [] then defaultDescription else d),
          order_publicMessage = oi_publicMessage order,
          order_privateMessage = oi_privateMessage order,
          order_processedAt =
            (if paymentRequired order tier collective \<or> \<not> col_isActive collective then None
             else Some now),
          order_MatchingPaymentMethodId = map_option mf_id matchingFund,
          order_ReferralCollectiveId =
            (case referral of
               None \<Rightarrow> None
             | Some r \<Rightarrow> if r \<noteq> col_id fromCollective then Some r else None),
          order_SubscriptionId = None,
          order_PaymentMethodId = None,
          order_status = PENDING,
          order_reqIp = reqIp,
          order_recaptchaResponse = recaptchaResponse,
          order_updatedAt = Some now\<rparr>)"

text \<open>
  Lines 316-366 with their two ways to fail: a currency other than the expected one, and
  \<^verbatim>\<open>user.id\<close> read when there is neither a requester nor a user.
\<close>

definition buildOrderData ::
  "env \<Rightarrow> nat \<Rightarrow> order_input \<Rightarrow> user option \<Rightarrow> string option \<Rightarrow> string option \<Rightarrow> collective \<Rightarrow>
   tier option \<Rightarrow> user option \<Rightarrow> collective \<Rightarrow> matching_fund option \<Rightarrow> error + order_row" where
  "buildOrderData e now order remoteUser reqIp recaptchaResponse collective tier usr fromCollective matchingFund =
     (if truthy_str (oi_currency order) \<and> oi_currency order \<noteq> Some (orderCurrency tier collective) then
        Inl (Error (''Invalid currency. Expected '' @ orderCurrency tier collective @ ''.''))
      else
        (case (case remoteUser of
                 Some ru \<Rightarrow> Some (user_id ru)
               | None \<Rightarrow> map_option user_id usr) of
           None \<Rightarrow> Inl (TypeError ''Cannot read property 'id' of undefined'')
         | Some createdBy \<Rightarrow>
             Inr (orderData e now order reqIp recaptchaResponse collective tier fromCollective
                    matchingFund createdBy)))"

text \<open>What validation hands to the part that writes the order.\<close>

record draft =
  d_collective :: collective
  d_tier :: "tier option"
  d_user :: "user option"
  d_fromCollective :: collective
  d_paymentRequired :: bool
  d_orderData :: order_row

text \<open>
  Lines 241-366: the acting user, the account the order comes from, the matching fund and
  the values of the row, for a collective and a tier that passed the checks before them.
\<close>

definition createOrder_prepare ::
  "env \<Rightarrow> nat \<Rightarrow> order_input \<Rightarrow> user option \<Rightarrow> string option \<Rightarrow> string option
     \<Rightarrow> collective \<Rightarrow> tier option \<Rightarrow> db \<Rightarrow> (error + draft) \<times> db" where
  "createOrder_prepare e now order remoteUser reqIp recaptchaResponse collective tier s1 =
               (case resolveUser e order remoteUser s1 of
                  (Inl err, s2) \<Rightarrow> (Inl err, s2)
                | (Inr usr, s2) \<Rightarrow>
                    (case resolveFromCollective e order collective usr remoteUser s2 of
                       (Inl err, s3) \<Rightarrow> (Inl err, s3)
                     | (Inr fromCollective, s3) \<Rightarrow>
                         (case resolveMatchingFund e order collective usr s3 of
                            Inl err \<Rightarrow> (Inl err, s3)
                          | Inr matchingFund \<Rightarrow>
                              (case buildOrderData e now order remoteUser reqIp recaptchaResponse
                                      collective tier usr fromCollective matchingFund of
                                 Inl err \<Rightarrow> (Inl err, s3)
                               | Inr row \<Rightarrow>
                                   (Inr \<lparr>d_collective = collective,
                                         d_tier = tier,
                                         d_user = usr,
                                         d_fromCollective = fromCollective,
                                         d_paymentRequired = paymentRequired order tier collective,
                                         d_orderData = row\<rparr>, s3)))))"

text \<open>Lines 123-366 together: everything before the row is created.\<close>

definition createOrder_validate ::
  "env \<Rightarrow> nat \<Rightarrow> order_input \<Rightarrow> user option \<Rightarrow> string option \<Rightarrow> string option \<Rightarrow> db
     \<Rightarrow> (error + draft) \<times> db" where
  "createOrder_validate e now order remoteUser reqIp recaptchaResponse s =
     (case createOrder_resolve e order remoteUser s of
        (Inl err, s1) \<Rightarrow> (Inl err, s1)
      | (Inr (collective, tier), s1) \<Rightarrow>
          (case checkPaymentAndQuantity e order tier collective s1 of
             Some err \<Rightarrow> (Inl err, s1)
           | None \<Rightarrow>
               createOrder_prepare e now order remoteUser reqIp recaptchaResponse
                 collective tier s1))"

subsection \<open>createOrder: persisting and executing (lines 368-431)\<close>

text \<open>\<^verbatim>\<open>instance.update(values)\<close>: the named fields of the row of that id are written.\<close>

definition updateOrderFields :: "db \<Rightarrow> int \<Rightarrow> (order_row \<Rightarrow> order_row) \<Rightarrow> db" where
  "updateOrderFields s i f = s\<lparr>orders := map (\<lambda>x. if order_id x = i then f x else x) (orders s)\<rparr>"

text \<open>
  Modelled from the spec: \<^verbatim>\<open>collective.addUserWithRole\<close> is a method of the Collective
  model, which is not among the sources; it grants the role by adding a member row.
\<close>

definition addUserWithRole :: "collective \<Rightarrow> int \<Rightarrow> int \<Rightarrow> role \<Rightarrow> db \<Rightarrow> db" where
  "addUserWithRole collective uid ucid r s =
     s\<lparr>members := members s @
          [\<lparr>mem_CollectiveId = col_id collective,
            mem_MemberCollectiveId = ucid,
            mem_CreatedByUserId = uid,
            mem_role = r\<rparr>]\<rparr>"

text \<open>
  Lines 374-413, after the row has been created: the payment, the placeholder
  subscription of a pledge, or the free ticket. The result is the error thrown, if any,
  the instance \<^verbatim>\<open>orderCreated\<close> as the branch leaves it, and the database.
  Modelled from the spec: the defaults of a new row of the Subscription model, which is
  not among the sources (a dormant subscription: inactive, no retry, no dates).
\<close>

definition createOrder_process ::
  "env \<Rightarrow> nat \<Rightarrow> order_input \<Rightarrow> user option \<Rightarrow> draft \<Rightarrow> order_row \<Rightarrow> db
     \<Rightarrow> error option \<times> order_row \<times> db" where
  "createOrder_process e now order remoteUser d orderCreated s0 =
     (let collective = d_collective d;
          pm = (case oi_paymentMethod order of
                  None \<Rightarrow> None
                | Some p \<Rightarrow>
                    Some (if pm_save p then p\<lparr>pm_CollectiveId := Some (order_FromCollectiveId orderCreated)\<rparr>
                          else p));
          manual = (case pm of None \<Rightarrow> False | Some p \<Rightarrow> pm_type p = Some ''manual'')
      in if d_paymentRequired d then
           (case (if manual then (Inr orderCreated, s0) else setPaymentMethod e orderCreated pm s0) of
              (Inl err, s1) \<Rightarrow> (Some err, orderCreated, s1)
            | (Inr oc1, s1) \<Rightarrow>
                (case (case remoteUser of Some ru \<Rightarrow> Some ru | None \<Rightarrow> d_user d) of
                   None \<Rightarrow> (Some (TypeError ''Cannot read property 'id' of undefined''), oc1, s1)
                 | Some actor \<Rightarrow>
                     call_executeOrder e actor oc1 (if manual then pm else None)
                       (oi_hostFeePercent order, oi_platformFeePercent order) s1))
         else if truthy_str (oi_interval order) \<and> col_type collective = COLLECTIVE then
           (let subscription =
                  \<lparr>sub_id = newId (map sub_id (subscriptions s0)),
                   sub_amount = oi_totalAmount order,
                   sub_currency = oi_currency order,
                   sub_interval = oi_interval order,
                   sub_isActive = False,
                   sub_nextChargeDate = None,
                   sub_chargeRetryCount = 0,
                   sub_activatedAt = None,
                   sub_deactivatedAt = None,
                   sub_updatedAt = Some now\<rparr>;
                s1 = s0\<lparr>subscriptions := subscriptions s0 @ [subscription]\<rparr>
            in (None,
                orderCreated\<lparr>order_SubscriptionId := Some (sub_id subscription)\<rparr>,
                updateOrderFields s1 (order_id orderCreated)
                  (\<lambda>r. r\<lparr>order_SubscriptionId := Some (sub_id subscription)\<rparr>)))
         else if col_type collective = EVENT then
           (let oc1 = orderCreated\<lparr>order_status := PAID, order_processedAt := Some now\<rparr>;
                s1 = updateOrderFields s0 (order_id orderCreated)
                       (\<lambda>r. r\<lparr>order_status := PAID, order_processedAt := Some now\<rparr>)
            in case d_user d of
                 None \<Rightarrow> (Some (TypeError ''Cannot read property 'id' of undefined''), oc1, s1)
               | Some u \<Rightarrow>
                   (let s2 = addUserWithRole collective (user_id u) (user_CollectiveId u) ATTENDEE s1;
                        s3 = s2\<lparr>activities := activities s2 @
                               [\<lparr>act_type = TICKET_CONFIRMED,
                                 act_CollectiveId = None,
                                 act_UserId = None,
                                 act_EventCollectiveId = Some (col_id collective),
                                 act_dataUserId =
                                   Some (case remoteUser of Some ru \<Rightarrow> user_id ru | None \<Rightarrow> user_id u),
                                 act_order = Some (order_id oc1),
                                 act_subscription = None\<rparr>]\<rparr>
                    in (None, oc1, s3)))
         else (None, orderCreated, s0))"

text \<open>
  Lines 415-422: the row is read back and returned; a referral other than the user's own
  collective is granted the \<open>FUNDRAISER\<close> role. \<^verbatim>\<open>orderCreated\<close> stays set for the
  \<^verbatim>\<open>catch\<close> block.
\<close>

definition createOrder_finish ::
  "draft \<Rightarrow> error option \<times> order_row \<times> db \<Rightarrow> (error + order_row) \<times> order_row option \<times> db" where
  "createOrder_finish d res =
     (case res of
        (Some err, oc, s') \<Rightarrow> (Inl err, Some oc, s')
      | (None, oc, s') \<Rightarrow>
          (case findOrder s' (order_id oc) of
             None \<Rightarrow> (Inl (TypeError ''Cannot read property 'ReferralCollectiveId' of null''), Some oc, s')
           | Some found \<Rightarrow>
               (case order_ReferralCollectiveId found of
                  None \<Rightarrow> (Inr found, Some oc, s')
                | Some ref \<Rightarrow>
                    if ref = 0 then (Inr found, Some oc, s')
                    else
                      (case d_user d of
                         None \<Rightarrow> (Inl (TypeError ''Cannot read property 'CollectiveId' of undefined''), Some oc, s')
                       | Some u \<Rightarrow>
                           if ref \<noteq> user_CollectiveId u then
                             (Inr found, Some oc,
                              addUserWithRole (d_collective d) (user_id u) ref FUNDRAISER s')
                           else (Inr found, Some oc, s')))))"

text \<open>Lines 370-422: the row is created with status \<open>PENDING\<close>, then processed.\<close>

definition createOrder_execute ::
  "env \<Rightarrow> nat \<Rightarrow> order_input \<Rightarrow> user option \<Rightarrow> draft \<Rightarrow> db
     \<Rightarrow> (error + order_row) \<times> order_row option \<times> db" where
  "createOrder_execute e now order remoteUser d s =
     (let orderCreated = (d_orderData d)\<lparr>order_id := newId (map order_id (orders s))\<rparr>;
          s0 = s\<lparr>orders := orders s @ [orderCreated]\<rparr>
      in createOrder_finish d (createOrder_process e now order remoteUser d orderCreated s0))"

text \<open>The \<^verbatim>\<open>try\<close> block, lines 122-422: \<^verbatim>\<open>orderCreated\<close> is undefined until the row is created.\<close>

definition createOrder_try ::
  "env \<Rightarrow> nat \<Rightarrow> order_input \<Rightarrow> user option \<Rightarrow> string option \<Rightarrow> string option \<Rightarrow> db
     \<Rightarrow> (error + order_row) \<times> order_row option \<times> db" where
  "createOrder_try e now order remoteUser reqIp recaptchaResponse s =
     (case createOrder_validate e now order remoteUser reqIp recaptchaResponse s of
        (Inl err, s1) \<Rightarrow> (Inl err, None, s1)
      | (Inr d, s1) \<Rightarrow> createOrder_execute e now order remoteUser d s1)"

text \<open>The \<^verbatim>\<open>catch\<close> block, lines 423-430.\<close>

definition createOrder_catch ::
  "(error + order_row) \<times> order_row option \<times> db \<Rightarrow> (error + order_row) \<times> db" where
  "createOrder_catch res =
     (case res of
        (Inr order, orderCreated, s) \<Rightarrow> (Inr order, s)
      | (Inl err, None, s) \<Rightarrow> (Inl err, s)
      | (Inl err, Some oc, s) \<Rightarrow>
          if order_processedAt oc = None then
            (Inl err, updateOrderFields s (order_id oc) (\<lambda>r. r\<lparr>order_status := ERROR\<rparr>))
          else (Inl err, s))"

definition createOrder ::
  "env \<Rightarrow> nat \<Rightarrow> order_input \<Rightarrow> user option \<Rightarrow> string option \<Rightarrow> db \<Rightarrow> (error + order_row) \<times> db" where
  "createOrder e now order remoteUser reqIp s =
     (case checkOrdersLimit e order reqIp (cache s) of
        (Some err, c) \<Rightarrow> (Inl err, s\<lparr>cache := c\<rparr>)
      | (None, c) \<Rightarrow>
          (case checkRecaptcha e order remoteUser reqIp of
             Inl err \<Rightarrow> (Inl err, s\<lparr>cache := c\<rparr>)
           | Inr recaptchaResponse \<Rightarrow>
               createOrder_catch
                 (createOrder_try e now order remoteUser reqIp recaptchaResponse (s\<lparr>cache := c\<rparr>))))"

subsection \<open>A concrete installation\<close>

text \<open>
  One user, her profile, a collective, an event with two tiers, one recurring order with
  its subscription, and collaborators that behave in the simplest way. The payment
  provider declines the amount 666 and, for the amount 777, charges and then fails.
\<close>

definition alice :: user where
  "alice = \<lparr>user_id = 1, user_CollectiveId = 10, user_email = Some ''alice@example.com''\<rparr>"

definition aliceProfile :: collective where
  "aliceProfile =
     \<lparr>col_id = 10, col_type = USER, col_isActive = False, col_currency = ''USD'',
      col_name = ''Alice'', col_slug = ''alice'', col_website = None, col_githubHandle = None\<rparr>"

definition webpack :: collective where
  "webpack =
     \<lparr>col_id = 20, col_type = COLLECTIVE, col_isActive = True, col_currency = ''USD'',
      col_name = ''Webpack'', col_slug = ''webpack'', col_website = None,
      col_githubHandle = Some ''webpack/webpack''\<rparr>"

definition meetup :: collective where
  "meetup =
     \<lparr>col_id = 30, col_type = EVENT, col_isActive = True, col_currency = ''USD'',
      col_name = ''Meetup'', col_slug = ''meetup'', col_website = None, col_githubHandle = None\<rparr>"

definition freeTicket :: tier where
  "freeTicket =
     \<lparr>tier_id = 1, tier_amount = Some 0, tier_maxQuantityPerUser = Some 0, tier_currency = Some ''USD'',
      tier_presets = False, tier_name = Some ''Free ticket''\<rparr>"

definition paidTicket :: tier where
  "paidTicket =
     \<lparr>tier_id = 2, tier_amount = Some 1000, tier_maxQuantityPerUser = Some 2, tier_currency = Some ''USD'',
      tier_presets = False, tier_name = Some ''Supporter ticket''\<rparr>"

definition sub5 :: subscription where
  "sub5 =
     \<lparr>sub_id = 5, sub_amount = Some 1000, sub_currency = Some ''USD'', sub_interval = Some ''month'',
      sub_isActive = True, sub_nextChargeDate = Some 50, sub_chargeRetryCount = 0,
      sub_activatedAt = Some 3, sub_deactivatedAt = None, sub_updatedAt = Some 3\<rparr>"

definition order1 :: order_row where
  "order1 =
     \<lparr>order_id = 1, order_CreatedByUserId = 1, order_FromCollectiveId = 10, order_CollectiveId = 20,
      order_TierId = None, order_quantity = 1, order_totalAmount = Some 1000, order_currency = ''USD'',
      order_interval = Some ''month'', order_description = ''Monthly donation to Webpack'',
      order_publicMessage = None, order_privateMessage = None, order_processedAt = Some 3,
      order_MatchingPaymentMethodId = None, order_ReferralCollectiveId = None,
      order_SubscriptionId = Some 5, order_PaymentMethodId = Some 4, order_status = ACTIVE,
      order_reqIp = None, order_recaptchaResponse = None, order_updatedAt = Some 3\<rparr>"

definition db0 :: db where
  "db0 =
     \<lparr>orders = [order1],
      subscriptions = [sub5],
      paymentMethods = [\<lparr>pmr_id = 4, pmr_uuid = Some ''e1d6a0c2-4f6b-4c58-9d57-2b7c1a9f3e10'',
                         pmr_CollectiveId = Some 10\<rparr>],
      collectives = [aliceProfile, webpack, meetup],
      tiers = [freeTicket, paidTicket],
      activities = [],
      members = [],
      cache = (\<lambda>k. None),
      executed = []\<rparr>"

definition env0 :: env where
  "env0 =
     \<lparr>NODE_ENV = ''production'',
      perAccount = 2,
      perAccountForCollective = 2,
      perEmail = 2,
      perEmailForCollective = 2,
      perIp = 2,
      md5 = (\<lambda>x. x),
      capitalize = (\<lambda>x. x),
      pluralize = (\<lambda>w n. if n = 1 then w else w @ ''s''),
      recaptchaVerify = (\<lambda>token ip. Some ''verified''),
      getRepo = (\<lambda>h. if h = ''webpack/webpack'' then Some \<lparr>stargazers_count = 50000\<rparr> else None),
      getOrg = (\<lambda>h. h = ''webpack'' \<or> h = ''flaky''),
      getAllOrganizationPublicRepos =
        (\<lambda>h. if h = ''webpack'' then Some [\<lparr>stargazers_count = 12\<rparr>, \<lparr>stargazers_count = 50000\<rparr>]
             else None),
      isRoot = (\<lambda>u. False),
      isAdmin = (\<lambda>u c. user_id u = 1 \<and> c = Some 10),
      hasRole = (\<lambda>u rs c. user_id u = 1 \<and> c = 10),
      collectiveDefaults =
        (\<lambda>cr. \<lparr>col_id = 0, col_type = COLLECTIVE, col_isActive = False, col_currency = ''USD'',
               col_name = (case cr_name cr of None \<Rightarrow> [] | Some n \<Rightarrow> n), col_slug = [],
               col_website = cr_website cr, col_githubHandle = cr_githubHandle cr\<rparr>),
      getHostCollectiveId = (\<lambda>c s. None),
      checkAvailableQuantity = (\<lambda>t q s. True),
      findByEmailOrPaypalEmail = (\<lambda>em s. None),
      createUserWithCollective = (\<lambda>u cur by s. (Inl (Error ''Sign up is closed''), s)),
      createOrganization = (\<lambda>f u ru s. (Inl (Error ''Organizations cannot be created''), s)),
      getMatchingFund = (\<lambda>m c s. Inl (Error ''No matching fund'')),
      canBeUsedForOrder = (\<lambda>mf order u s. False),
      setPaymentMethod = (\<lambda>r pm s. (Inr r, s)),
      executeOrder =
        (\<lambda>u r pm fees s.
           if order_totalAmount r = Some 666 then (Some (Error ''Your card was declined.''), r, s)
           else
             (let r' = r\<lparr>order_status := PAID, order_processedAt := Some 1\<rparr>;
                  s' = updateOrderFields s (order_id r)
                         (\<lambda>x. x\<lparr>order_status := PAID, order_processedAt := Some 1\<rparr>)
              in if order_totalAmount r = Some 777 then
                   (Some (Error ''The confirmation could not be sent''), r', s')
                 else (None, r', s'))),
      createFromStripeSourceToken =
        (\<lambda>pm s. Inr \<lparr>pmr_id = newId (map pmr_id (paymentMethods s)), pmr_uuid = None,
                     pmr_CollectiveId = pm_CollectiveId pm\<rparr>),
      getNextChargeDate = (\<lambda>c r sub. sub_nextChargeDate sub),
      getChargeRetryCount = (\<lambda>c r sub. 0)\<rparr>"

text \<open>Requests of the concrete installation.\<close>

definition emptyOrder :: order_input where
  "emptyOrder =
     \<lparr>oi_id = None, oi_paymentMethod = None, oi_collective = None, oi_fromCollective = None,
      oi_tier = None, oi_user = None, oi_totalAmount = None, oi_quantity = None, oi_currency = None,
      oi_interval = None, oi_description = None, oi_publicMessage = None, oi_privateMessage = None,
      oi_platformFeePercent = None, oi_hostFeePercent = None, oi_matchingFund = None,
      oi_referral = None, oi_recaptchaToken = None\<rparr>"

definition toCollective :: "int \<Rightarrow> collective_ref" where
  "toCollective i = \<lparr>cr_id = Some i, cr_website = None, cr_githubHandle = None, cr_name = None\<rparr>"

definition tokenRef :: payment_ref where
  "tokenRef =
     \<lparr>pm_service = Some ''stripe'', pm_uuid = None, pm_token = Some ''tok_visa'',
      pm_type = Some ''creditcard'', pm_save = False, pm_CollectiveId = None\<rparr>"

text \<open>A request on behalf of Alice's profile, which the limiter counts under one key.\<close>

definition accountRequest :: order_input where
  "accountRequest = emptyOrder\<lparr>oi_fromCollective := Some \<lparr>fr_id = Some 10, fr_name = None\<rparr>\<rparr>"

definition accountLimit :: limit where
  "accountLimit = \<lparr>lkey = ''order_limit_on_account_'' @ num_str 10, lvalue = 2\<rparr>"

text \<open>
  Alice registers for the meetup with three free tickets; the tier has no limit per user
  (\<open>maxQuantityPerUser = 0\<close>). \<open>freeOrderData\<close> is the row validation prepares.
\<close>

definition freeRequest :: order_input where
  "freeRequest =
     emptyOrder\<lparr>oi_collective := Some (toCollective 30), oi_tier := Some \<lparr>tr_id = Given 1\<rparr>,
                oi_totalAmount := Some 0, oi_quantity := Some 3\<rparr>"

definition freeOrderData :: order_row where
  "freeOrderData =
     \<lparr>order_id = 0, order_CreatedByUserId = 1, order_FromCollectiveId = 10, order_CollectiveId = 30,
      order_TierId = Some 1, order_quantity = 3, order_totalAmount = Some 0, order_currency = ''USD'',
      order_interval = None, order_description = ''Registration to Meetup (Free ticket)'',
      order_publicMessage = None, order_privateMessage = None, order_processedAt = Some 7,
      order_MatchingPaymentMethodId = None, order_ReferralCollectiveId = None,
      order_SubscriptionId = None, order_PaymentMethodId = None, order_status = PENDING,
      order_reqIp = None, order_recaptchaResponse = None, order_updatedAt = Some 7\<rparr>"

definition freeDraft :: draft where
  "freeDraft =
     \<lparr>d_collective = meetup, d_tier = Some freeTicket, d_user = Some alice,
      d_fromCollective = aliceProfile, d_paymentRequired = False, d_orderData = freeOrderData\<rparr>"

text \<open>Requests for the paid tier, which allows two tickets per user, and donations.\<close>

definition paidRequest :: order_input where
  "paidRequest =
     emptyOrder\<lparr>oi_collective := Some (toCollective 30), oi_tier := Some \<lparr>tr_id = Given 2\<rparr>, oi_quantity := Some 3\<rparr>"

definition donation :: "int \<Rightarrow> order_input" where
  "donation amount =
     emptyOrder\<lparr>oi_collective := Some (toCollective 20), oi_totalAmount := Some amount,
                oi_paymentMethod := Some tokenRef\<rparr>"

definition pledgeRequest :: "string \<Rightarrow> order_input" where
  "pledgeRequest handle =
     emptyOrder\<lparr>oi_collective :=
                  Some \<lparr>cr_id = None, cr_website = None, cr_githubHandle = Some handle, cr_name = None\<rparr>\<rparr>"

text \<open>The row a donation of \<open>amount\<close> to the collective leaves when it is created.\<close>

definition donationRow :: "int \<Rightarrow> order_row" where
  "donationRow amount =
     \<lparr>order_id = 2, order_CreatedByUserId = 1, order_FromCollectiveId = 10, order_CollectiveId = 20,
      order_TierId = None, order_quantity = 1, order_totalAmount = Some amount, order_currency = ''USD'',
      order_interval = None, order_description = ''Donation to Webpack'',
      order_publicMessage = None, order_privateMessage = None, order_processedAt = None,
      order_MatchingPaymentMethodId = None, order_ReferralCollectiveId = None,
      order_SubscriptionId = None, order_PaymentMethodId = None, order_status = PENDING,
      order_reqIp = None, order_recaptchaResponse = None, order_updatedAt = Some 7\<rparr>"

text \<open>The installation after the recurring order has been cancelled.\<close>

definition dbCancelled :: db where
  "dbCancelled =
     db0\<lparr>orders := [order1\<lparr>order_status := CANCELLED\<rparr>],
         subscriptions := [sub5\<lparr>sub_isActive := False, sub_deactivatedAt := Some 8\<rparr>]\<rparr>"

section \<open>Properties\<close>

subsection \<open>Rows found and written back\<close>

lemma find_replace:
  "find (\<lambda>r. f r = i) xs = Some r \<Longrightarrow> f r' = i \<Longrightarrow>
   find (\<lambda>x. f x = i) (map (\<lambda>x. if f x = i then r' else x) xs) = Some r'"
  by (induction xs) (auto split: if_splits)

lemma find_key: "find (\<lambda>r. f r = i) xs = Some r \<Longrightarrow> f r = i"
  by (induction xs) (auto split: if_splits)

lemma find_Some_mem: "find P xs = Some x \<Longrightarrow> x \<in> set xs \<and> P x"
  by (induction xs) (auto split: if_splits)

lemma find_fresh: "i \<notin> f ` set xs \<Longrightarrow> find (\<lambda>r. f r = i) xs = None"
  by (induction xs) auto

lemma find_snoc_old: "find P xs = Some r \<Longrightarrow> find P (xs @ [n]) = Some r"
  by (induction xs) auto

lemma find_snoc_new: "find P xs = None \<Longrightarrow> P n \<Longrightarrow> find P (xs @ [n]) = Some n"
  by (induction xs) (auto split: if_splits)

lemma map_replace_ids:
  "f r = i \<Longrightarrow> map f (map (\<lambda>x. if f x = i then r else x) xs) = map f xs"
  by (induction xs) auto

lemma map_update_other:
  "\<forall>x\<in>set xs. f x \<noteq> i \<Longrightarrow> map (\<lambda>x. if f x = i then g x else x) xs = xs"
  by (induction xs) simp_all

lemma distinct_map_Cons_neq: "distinct (map f (x # xs)) \<Longrightarrow> l \<in> set xs \<Longrightarrow> f l \<noteq> f x"
  by (force simp: image_iff)

lemma fold_max_ge: "(a::int) \<le> fold max xs a"
  by (induction xs arbitrary: a) (auto intro: order_trans[OF max.cobounded2])

lemma fold_max_mem: "x \<in> set xs \<Longrightarrow> (x::int) \<le> fold max xs a"
proof (induction xs arbitrary: a)
  case Nil
  then show ?case by simp
next
  case (Cons y ys)
  show ?case
  proof (cases "x = y")
    case True
    have "y \<le> max y a" by simp
    also have "\<dots> \<le> fold max ys (max y a)" by (rule fold_max_ge)
    finally show ?thesis using True by simp
  next
    case False
    with Cons show ?thesis by simp
  qed
qed

lemma newId_fresh: "x \<in> set ids \<Longrightarrow> x < newId ids"
  unfolding newId_def using fold_max_mem[of x ids 0] by simp

lemma newId_not_in: "newId (map f xs) \<notin> f ` set xs"
  using newId_fresh[of "newId (map f xs)" "map f xs"] by auto

lemma findOrder_id: "findOrder s i = Some r \<Longrightarrow> order_id r = i"
  unfolding findOrder_def by (rule find_key)

lemma findSubscription_id: "findSubscription s i = Some r \<Longrightarrow> sub_id r = i"
  unfolding findSubscription_def by (rule find_key)

lemma findOrder_saveOrder:
  "findOrder s i = Some r \<Longrightarrow> order_id r' = i \<Longrightarrow> findOrder (saveOrder s r') i = Some r'"
  unfolding findOrder_def saveOrder_def by (simp add: find_replace)

lemma findSubscription_saveSubscription:
  "findSubscription s i = Some r \<Longrightarrow> sub_id r' = i \<Longrightarrow>
   findSubscription (saveSubscription s r') i = Some r'"
  unfolding findSubscription_def saveSubscription_def by (simp add: find_replace)

lemma findOneOrder_sub:
  "findOneOrder s i = Some (r, Some sub) \<Longrightarrow>
   findOrder s i = Some r \<and> order_SubscriptionId r = Some (sub_id sub) \<and>
   findSubscription s (sub_id sub) = Some sub"
  unfolding findOneOrder_def by (auto split: option.splits dest: findSubscription_id)

lemma findSubscription_saveOrder [simp]:
  "findSubscription (saveOrder t x) i = findSubscription t i"
  by (simp add: findSubscription_def saveOrder_def)

lemma findOrder_saveSubscription [simp]:
  "findOrder (saveSubscription t x) i = findOrder t i"
  by (simp add: findOrder_def saveSubscription_def)

lemma findOrder_paymentMethods [simp]:
  "findOrder (s\<lparr>paymentMethods := pms\<rparr>) i = findOrder s i"
  by (simp add: findOrder_def)

lemma findSubscription_paymentMethods [simp]:
  "findSubscription (s\<lparr>paymentMethods := pms\<rparr>) i = findSubscription s i"
  by (simp add: findSubscription_def)

subsection \<open>The rate limiter\<close>

lemma checkLimits_Cons:
  "checkLimits e (l # ls) c =
     (if lvalue l \<le> cache_count c (lkey l) then
        (Some (limitError e), c(lkey l \<mapsto> cache_count c (lkey l) + 1))
      else checkLimits e ls (c(lkey l \<mapsto> cache_count c (lkey l) + 1)))"
  by (simp add: Let_def)

lemma checkedLimits_subset: "set (checkedLimits ls c) \<subseteq> set ls"
  by (induction ls arbitrary: c) auto

lemma cache_count_upd:
  "cache_count (c(k \<mapsto> v)) k' = (if k' = k then v else cache_count c k')"
  by (simp add: cache_count_def)

lemma cache_count_cong: "c k = c' k \<Longrightarrow> cache_count c k = cache_count c' k"
  by (simp add: cache_count_def)

lemma checkLimits_untouched:
  "\<forall>c. k \<notin> lkey ` set (checkedLimits ls c) \<longrightarrow> snd (checkLimits e ls c) k = c k"
proof (induction ls)
  case Nil
  show ?case by simp
next
  case (Cons x xs)
  show ?case
  proof (intro allI impI)
    fix c
    assume a: "k \<notin> lkey ` set (checkedLimits (x # xs) c)"
    then have kx: "k \<noteq> lkey x" by auto
    show "snd (checkLimits e (x # xs) c) k = c k"
    proof (cases "lvalue x \<le> cache_count c (lkey x)")
      case True
      with kx show ?thesis by (simp add: checkLimits_Cons)
    next
      case False
      with a have "k \<notin> lkey ` set (checkedLimits xs (c(lkey x \<mapsto> cache_count c (lkey x) + 1)))"
        by simp
      with Cons.IH
      have "snd (checkLimits e xs (c(lkey x \<mapsto> cache_count c (lkey x) + 1))) k =
            (c(lkey x \<mapsto> cache_count c (lkey x) + 1)) k"
        by blast
      with False kx show ?thesis by (simp add: checkLimits_Cons)
    qed
  qed
qed

lemma checkLimits_counted:
  "\<forall>c. distinct (map lkey ls) \<longrightarrow> l \<in> set (checkedLimits ls c) \<longrightarrow>
     cache_count (snd (checkLimits e ls c)) (lkey l) = cache_count c (lkey l) + 1"
proof (induction ls)
  case Nil
  show ?case by simp
next
  case (Cons x xs)
  show ?case
  proof (intro allI impI)
    fix c
    assume d: "distinct (map lkey (x # xs))" and m: "l \<in> set (checkedLimits (x # xs) c)"
    show "cache_count (snd (checkLimits e (x # xs) c)) (lkey l) = cache_count c (lkey l) + 1"
    proof (cases "lvalue x \<le> cache_count c (lkey x)")
      case True
      with m have "l = x" by simp
      with True show ?thesis by (simp add: checkLimits_Cons cache_count_upd)
    next
      case False
      show ?thesis
      proof (cases "l = x")
        case True
        have "lkey x \<notin> lkey ` set (checkedLimits xs (c(lkey x \<mapsto> cache_count c (lkey x) + 1)))"
          using d checkedLimits_subset[of xs "c(lkey x \<mapsto> cache_count c (lkey x) + 1)"] by auto
        with checkLimits_untouched[of "lkey x" xs e]
        have "snd (checkLimits e xs (c(lkey x \<mapsto> cache_count c (lkey x) + 1))) (lkey x) =
              (c(lkey x \<mapsto> cache_count c (lkey x) + 1)) (lkey x)"
          by blast
        then have "cache_count (snd (checkLimits e xs (c(lkey x \<mapsto> cache_count c (lkey x) + 1)))) (lkey x) =
                   cache_count c (lkey x) + 1"
          by (simp add: cache_count_def)
        with False True show ?thesis by (simp add: checkLimits_Cons)
      next
        case neq: False
        with m False have mem: "l \<in> set (checkedLimits xs (c(lkey x \<mapsto> cache_count c (lkey x) + 1)))"
          by simp
        then have "l \<in> set xs" using checkedLimits_subset by blast
        with d have k: "lkey l \<noteq> lkey x" by (rule distinct_map_Cons_neq)
        from d have "distinct (map lkey xs)" by simp
        with Cons.IH mem
        have "cache_count (snd (checkLimits e xs (c(lkey x \<mapsto> cache_count c (lkey x) + 1)))) (lkey l) =
              cache_count (c(lkey x \<mapsto> cache_count c (lkey x) + 1)) (lkey l) + 1"
          by blast
        with False k show ?thesis by (simp add: checkLimits_Cons cache_count_upd)
      qed
    qed
  qed
qed

lemma checkLimits_rejects:
  "\<forall>c. distinct (map lkey ls) \<longrightarrow> l \<in> set ls \<longrightarrow> lvalue l \<le> cache_count c (lkey l) \<longrightarrow>
     fst (checkLimits e ls c) = Some (limitError e)"
proof (induction ls)
  case Nil
  show ?case by simp
next
  case (Cons x xs)
  show ?case
  proof (intro allI impI)
    fix c
    assume d: "distinct (map lkey (x # xs))" and m: "l \<in> set (x # xs)"
      and r: "lvalue l \<le> cache_count c (lkey l)"
    show "fst (checkLimits e (x # xs) c) = Some (limitError e)"
    proof (cases "lvalue x \<le> cache_count c (lkey x)")
      case True
      then show ?thesis by (simp add: checkLimits_Cons)
    next
      case False
      with m r have mem: "l \<in> set xs" by auto
      with d have "lkey l \<noteq> lkey x" by (rule distinct_map_Cons_neq)
      with r have "lvalue l \<le> cache_count (c(lkey x \<mapsto> cache_count c (lkey x) + 1)) (lkey l)"
        by (simp add: cache_count_upd)
      moreover from d have "distinct (map lkey xs)" by simp
      ultimately have "fst (checkLimits e xs (c(lkey x \<mapsto> cache_count c (lkey x) + 1))) =
                       Some (limitError e)"
        using Cons.IH mem by blast
      with False show ?thesis by (simp add: checkLimits_Cons)
    qed
  qed
qed

lemma checkLimits_passes:
  "\<forall>c. distinct (map lkey ls) \<longrightarrow> fst (checkLimits e ls c) = None \<longrightarrow>
     checkedLimits ls c = ls \<and> (\<forall>l\<in>set ls. cache_count c (lkey l) < lvalue l)"
proof (induction ls)
  case Nil
  show ?case by simp
next
  case (Cons x xs)
  show ?case
  proof (intro allI impI)
    fix c
    assume d: "distinct (map lkey (x # xs))" and p: "fst (checkLimits e (x # xs) c) = None"
    from p have nr: "\<not> lvalue x \<le> cache_count c (lkey x)"
      by (auto simp: checkLimits_Cons split: if_splits)
    with p have "fst (checkLimits e xs (c(lkey x \<mapsto> cache_count c (lkey x) + 1))) = None"
      by (simp add: checkLimits_Cons)
    moreover from d have "distinct (map lkey xs)" by simp
    ultimately have ih:
      "checkedLimits xs (c(lkey x \<mapsto> cache_count c (lkey x) + 1)) = xs \<and>
       (\<forall>l\<in>set xs. cache_count (c(lkey x \<mapsto> cache_count c (lkey x) + 1)) (lkey l) < lvalue l)"
      using Cons.IH by blast
    have "\<forall>l\<in>set xs. cache_count c (lkey l) < lvalue l"
    proof
      fix l assume lx: "l \<in> set xs"
      with d have "lkey l \<noteq> lkey x" by (rule distinct_map_Cons_neq)
      with ih lx show "cache_count c (lkey l) < lvalue l"
        by (auto simp: cache_count_upd)
    qed
    with nr ih show "checkedLimits (x # xs) c = x # xs \<and>
                     (\<forall>l\<in>set (x # xs). cache_count c (lkey l) < lvalue l)"
      by simp
  qed
qed

lemma anonymousLimits_distinct: "distinct (map lkey (anonymousLimits e userEmail collectiveId reqIp))"
  by (auto simp: anonymousLimits_def split: option.splits)

lemma orderLimits_distinct: "distinct (map lkey (orderLimits e order reqIp))"
  by (auto simp: orderLimits_def Let_def anonymousLimits_distinct split: option.splits)

lemma checkOrdersLimit_step:
  assumes "NODE_ENV e \<noteq> ''circleci''" "NODE_ENV e \<noteq> ''test''"
  shows "cache_count (snd (checkOrdersLimit e order reqIp c)) k =
         cache_count c k + (if k \<in> lkey ` set (checkedLimits (orderLimits e order reqIp) c) then 1 else 0)"
proof -
  let ?ls = "orderLimits e order reqIp"
  have c': "snd (checkOrdersLimit e order reqIp c) = snd (checkLimits e ?ls c)"
    using assms by (simp add: checkOrdersLimit_def)
  show ?thesis
  proof (cases "k \<in> lkey ` set (checkedLimits ?ls c)")
    case True
    then obtain l where l: "l \<in> set (checkedLimits ?ls c)" "lkey l = k" by auto
    from checkLimits_counted[of ?ls l e] orderLimits_distinct[of e order reqIp] l(1)
    have "cache_count (snd (checkLimits e ?ls c)) (lkey l) = cache_count c (lkey l) + 1"
      by blast
    with True l(2) c' show ?thesis by simp
  next
    case False
    with checkLimits_untouched[of k ?ls e]
    have "snd (checkLimits e ?ls c) k = c k" by blast
    with False c' show ?thesis by (simp add: cache_count_def)
  qed
qed

lemma attempts_count:
  assumes "NODE_ENV e \<noteq> ''circleci''" "NODE_ENV e \<noteq> ''test''"
  shows "\<forall>c. cache_count (attempts e rs c) k = cache_count c k + int (checksOf e k rs c)"
proof (induction rs)
  case Nil
  show ?case by simp
next
  case (Cons r rs)
  obtain order reqIp where r: "r = (order, reqIp)" by (cases r)
  show ?case
  proof
    fix c
    from Cons.IH
    have "cache_count (attempts e rs (snd (checkOrdersLimit e order reqIp c))) k =
          cache_count (snd (checkOrdersLimit e order reqIp c)) k +
          int (checksOf e k rs (snd (checkOrdersLimit e order reqIp c)))"
      by blast
    with checkOrdersLimit_step[OF assms, of order reqIp c k]
    show "cache_count (attempts e (r # rs) c) k = cache_count c k + int (checksOf e k (r # rs) c)"
      by (simp add: r)
  qed
qed

lemma checkLimits_all_below:
  "\<forall>c. distinct (map lkey ls) \<longrightarrow> (\<forall>l\<in>set ls. cache_count c (lkey l) < lvalue l) \<longrightarrow>
     fst (checkLimits e ls c) = None"
proof (induction ls)
  case Nil
  show ?case by simp
next
  case (Cons x xs)
  show ?case
  proof (intro allI impI)
    fix c
    assume d: "distinct (map lkey (x # xs))"
      and b: "\<forall>l\<in>set (x # xs). cache_count c (lkey l) < lvalue l"
    from b have nx: "\<not> lvalue x \<le> cache_count c (lkey x)" by simp
    have "\<forall>l\<in>set xs. cache_count (c(lkey x \<mapsto> cache_count c (lkey x) + 1)) (lkey l) < lvalue l"
    proof
      fix l assume lx: "l \<in> set xs"
      with d have "lkey l \<noteq> lkey x" by (rule distinct_map_Cons_neq)
      with b lx show "cache_count (c(lkey x \<mapsto> cache_count c (lkey x) + 1)) (lkey l) < lvalue l"
        by (simp add: cache_count_upd)
    qed
    moreover from d have "distinct (map lkey xs)" by simp
    ultimately have "fst (checkLimits e xs (c(lkey x \<mapsto> cache_count c (lkey x) + 1))) = None"
      using Cons.IH by blast
    with nx show "fst (checkLimits e (x # xs) c) = None" by (simp add: checkLimits_Cons)
  qed
qed

lemma checkLimits_error:
  "\<forall>c. fst (checkLimits e ls c) \<noteq> None \<longrightarrow> fst (checkLimits e ls c) = Some (limitError e)"
proof (induction ls)
  case Nil
  show ?case by simp
next
  case (Cons x xs)
  show ?case
  proof (intro allI impI)
    fix c
    assume a: "fst (checkLimits e (x # xs) c) \<noteq> None"
    show "fst (checkLimits e (x # xs) c) = Some (limitError e)"
    proof (cases "lvalue x \<le> cache_count c (lkey x)")
      case True
      then show ?thesis by (simp add: checkLimits_Cons)
    next
      case False
      with a have "fst (checkLimits e xs (c(lkey x \<mapsto> cache_count c (lkey x) + 1))) \<noteq> None"
        by (simp add: checkLimits_Cons)
      with Cons.IH have "fst (checkLimits e xs (c(lkey x \<mapsto> cache_count c (lkey x) + 1))) =
                         Some (limitError e)"
        by blast
      with False show ?thesis by (simp add: checkLimits_Cons)
    qed
  qed
qed

lemma checkOrdersLimit_passes_iff:
  assumes "NODE_ENV e \<noteq> ''circleci''" "NODE_ENV e \<noteq> ''test''"
  shows "(fst (checkOrdersLimit e order reqIp c) = None) =
         (\<forall>l\<in>set (orderLimits e order reqIp). cache_count c (lkey l) < lvalue l)"
proof -
  let ?ls = "orderLimits e order reqIp"
  have run: "checkOrdersLimit e order reqIp c = checkLimits e ?ls c"
    using assms by (simp add: checkOrdersLimit_def)
  have d: "distinct (map lkey ?ls)" by (rule orderLimits_distinct)
  show ?thesis
    unfolding run
    using checkLimits_passes[of ?ls e] checkLimits_all_below[of ?ls e] d by blast
qed

lemma checkOrdersLimit_passes_all_checked:
  assumes "NODE_ENV e \<noteq> ''circleci''" "NODE_ENV e \<noteq> ''test''"
    and "fst (checkOrdersLimit e order reqIp c) = None"
  shows "checkedLimits (orderLimits e order reqIp) c = orderLimits e order reqIp"
proof -
  let ?ls = "orderLimits e order reqIp"
  have run: "checkOrdersLimit e order reqIp c = checkLimits e ?ls c"
    using assms by (simp add: checkOrdersLimit_def)
  have d: "distinct (map lkey ?ls)" by (rule orderLimits_distinct)
  from assms(3) show ?thesis
    unfolding run
    using checkLimits_passes[of ?ls e] d by blast
qed

lemma attempts_snoc:
  "\<forall>c. attempts e (rs @ [(order, reqIp)]) c = snd (checkOrdersLimit e order reqIp (attempts e rs c))"
  by (induction rs) auto

lemma attempts_replicate_Suc:
  "attempts e (replicate (Suc n) (order, reqIp)) c =
   snd (checkOrdersLimit e order reqIp (attempts e (replicate n (order, reqIp)) c))"
proof -
  have "replicate (Suc n) (order, reqIp) = replicate n (order, reqIp) @ [(order, reqIp)]"
    by (simp add: replicate_append_same)
  then show ?thesis using attempts_snoc[of e "replicate n (order, reqIp)" order reqIp] by simp
qed

lemma attempts_repeated:
  assumes env: "NODE_ENV e \<noteq> ''circleci''" "NODE_ENV e \<noteq> ''test''"
    and z: "\<forall>l\<in>set (orderLimits e order reqIp). cache_count c (lkey l) = 0"
  shows "((fst (checkOrdersLimit e order reqIp (attempts e (replicate n (order, reqIp)) c)) = None) =
          (\<forall>l\<in>set (orderLimits e order reqIp). int n < lvalue l)) \<and>
         (fst (checkOrdersLimit e order reqIp (attempts e (replicate n (order, reqIp)) c)) = None \<longrightarrow>
          (\<forall>l\<in>set (orderLimits e order reqIp).
             cache_count (attempts e (replicate n (order, reqIp)) c) (lkey l) = int n))"
proof (induction n)
  case 0
  from z show ?case by (simp add: checkOrdersLimit_passes_iff[OF env])
next
  case (Suc n)
  let ?ls = "orderLimits e order reqIp"
  let ?a = "attempts e (replicate n (order, reqIp)) c"
  let ?a' = "attempts e (replicate (Suc n) (order, reqIp)) c"
  have a': "?a' = snd (checkOrdersLimit e order reqIp ?a)" by (rule attempts_replicate_Suc)
  have step: "\<And>k. cache_count ?a' k =
                cache_count ?a k + (if k \<in> lkey ` set (checkedLimits ?ls ?a) then 1 else 0)"
    unfolding a' by (rule checkOrdersLimit_step[OF env])
  have mono: "\<And>k. cache_count ?a k \<le> cache_count ?a' k" using step by simp
  have all: "\<forall>l\<in>set ?ls. cache_count ?a' (lkey l) = int (Suc n)"
    if p: "fst (checkOrdersLimit e order reqIp ?a) = None"
  proof
    fix l assume l: "l \<in> set ?ls"
    from checkOrdersLimit_passes_all_checked[OF env p] l
    have "lkey l \<in> lkey ` set (checkedLimits ?ls ?a)" by simp
    with step[of "lkey l"] have "cache_count ?a' (lkey l) = cache_count ?a (lkey l) + 1" by simp
    moreover from Suc.IH p l have "cache_count ?a (lkey l) = int n" by blast
    ultimately show "cache_count ?a' (lkey l) = int (Suc n)" by simp
  qed
  have fwd: "(\<forall>l\<in>set ?ls. int (Suc n) < lvalue l) \<and>
             (\<forall>l\<in>set ?ls. cache_count ?a' (lkey l) = int (Suc n))"
    if p': "fst (checkOrdersLimit e order reqIp ?a') = None"
  proof -
    from p' have b': "\<forall>l\<in>set ?ls. cache_count ?a' (lkey l) < lvalue l"
      by (simp add: checkOrdersLimit_passes_iff[OF env])
    have "\<forall>l\<in>set ?ls. cache_count ?a (lkey l) < lvalue l"
    proof
      fix l assume "l \<in> set ?ls"
      with b' have "cache_count ?a' (lkey l) < lvalue l" by blast
      with mono[of "lkey l"] show "cache_count ?a (lkey l) < lvalue l" by simp
    qed
    then have p: "fst (checkOrdersLimit e order reqIp ?a) = None"
      by (simp add: checkOrdersLimit_passes_iff[OF env])
    note c = all[OF p]
    have "\<forall>l\<in>set ?ls. int (Suc n) < lvalue l"
    proof
      fix l assume l: "l \<in> set ?ls"
      with b' have "cache_count ?a' (lkey l) < lvalue l" by blast
      with c l show "int (Suc n) < lvalue l" by simp
    qed
    with c show ?thesis by blast
  qed
  have bwd: "fst (checkOrdersLimit e order reqIp ?a') = None"
    if b: "\<forall>l\<in>set ?ls. int (Suc n) < lvalue l"
  proof -
    have "\<forall>l\<in>set ?ls. int n < lvalue l"
    proof
      fix l assume "l \<in> set ?ls"
      with b have "int (Suc n) < lvalue l" by blast
      then show "int n < lvalue l" by simp
    qed
    with Suc.IH have p: "fst (checkOrdersLimit e order reqIp ?a) = None" by blast
    note c = all[OF p]
    have "\<forall>l\<in>set ?ls. cache_count ?a' (lkey l) < lvalue l"
    proof
      fix l assume l: "l \<in> set ?ls"
      with b have "int (Suc n) < lvalue l" by blast
      with c l show "cache_count ?a' (lkey l) < lvalue l" by simp
    qed
    then show ?thesis by (simp add: checkOrdersLimit_passes_iff[OF env])
  qed
  from fwd bwd show ?case by blast
qed

lemma attempts_sequence:
  assumes env: "NODE_ENV e \<noteq> ''circleci''" "NODE_ENV e \<noteq> ''test''"
    and z: "\<forall>l\<in>set (orderLimits e order reqIp). cache_count c (lkey l) = 0"
  shows "(fst (checkOrdersLimit e order reqIp (attempts e rs c)) = None) =
         (\<forall>l\<in>set (orderLimits e order reqIp). int (checksOf e (lkey l) rs c) < lvalue l)"
proof -
  have "\<forall>l\<in>set (orderLimits e order reqIp).
          cache_count (attempts e rs c) (lkey l) = int (checksOf e (lkey l) rs c)"
  proof
    fix l assume "l \<in> set (orderLimits e order reqIp)"
    with z have "cache_count c (lkey l) = 0" by blast
    with attempts_count[OF env, of rs "lkey l"]
    show "cache_count (attempts e rs c) (lkey l) = int (checksOf e (lkey l) rs c)" by simp
  qed
  then show ?thesis by (simp add: checkOrdersLimit_passes_iff[OF env])
qed

text \<open>
  C2. Outside the test environments, for the keys that apply to a request: if the
  counter of any of them has already reached its threshold, the request fails with the
  limiter's error; every key the loop reaches, the rejecting one included, has its
  counter incremented by one, whatever the outcome, so the counter is neither capped nor
  reset; the request passes the limiter exactly when every key is below its threshold,
  all its keys are then counted, and a request that does not pass fails with the
  limiter's error. Hence, from a window in which the counters of the keys start at zero:
  after any sequence of requests the counter of a key equals the number of requests that
  checked it, and a further request passes exactly when, for each of its keys, fewer
  than threshold-many checks precede it; when the same request is repeated, the attempt
  that follows \<open>n\<close> earlier ones passes exactly when \<open>n\<close> is below every threshold, so with
  one key of threshold N the first N attempts pass and the (N+1)-th and all later ones
  are rejected, each of them counted.
\<close>

theorem checkOrdersLimit_thresholds:
  assumes env: "NODE_ENV e \<noteq> ''circleci''" "NODE_ENV e \<noteq> ''test''"
  shows "(\<forall>l\<in>set (orderLimits e order reqIp).
            lvalue l \<le> cache_count c (lkey l) \<longrightarrow>
            fst (checkOrdersLimit e order reqIp c) = Some (limitError e))
       \<and> (\<forall>l\<in>set (checkedLimits (orderLimits e order reqIp) c).
            cache_count (snd (checkOrdersLimit e order reqIp c)) (lkey l) = cache_count c (lkey l) + 1)
       \<and> ((fst (checkOrdersLimit e order reqIp c) = None) =
            (\<forall>l\<in>set (orderLimits e order reqIp). cache_count c (lkey l) < lvalue l))
       \<and> (fst (checkOrdersLimit e order reqIp c) = None \<longrightarrow>
            checkedLimits (orderLimits e order reqIp) c = orderLimits e order reqIp)
       \<and> (fst (checkOrdersLimit e order reqIp c) \<noteq> None \<longrightarrow>
            fst (checkOrdersLimit e order reqIp c) = Some (limitError e))
       \<and> (\<forall>rs. \<forall>l\<in>set (checkedLimits (orderLimits e order reqIp) (attempts e rs c)).
            cache_count c (lkey l) = 0 \<longrightarrow>
            cache_count (attempts e rs c) (lkey l) = int (checksOf e (lkey l) rs c) \<and>
            (lvalue l \<le> int (checksOf e (lkey l) rs c) \<longrightarrow>
               fst (checkOrdersLimit e order reqIp (attempts e rs c)) = Some (limitError e)) \<and>
            cache_count (attempts e (rs @ [(order, reqIp)]) c) (lkey l) =
              int (checksOf e (lkey l) rs c) + 1)
       \<and> (\<forall>rs. (\<forall>l\<in>set (orderLimits e order reqIp). cache_count c (lkey l) = 0) \<longrightarrow>
            (fst (checkOrdersLimit e order reqIp (attempts e rs c)) = None) =
            (\<forall>l\<in>set (orderLimits e order reqIp). int (checksOf e (lkey l) rs c) < lvalue l))
       \<and> (\<forall>n. (\<forall>l\<in>set (orderLimits e order reqIp). cache_count c (lkey l) = 0) \<longrightarrow>
            (fst (checkOrdersLimit e order reqIp (attempts e (replicate n (order, reqIp)) c)) = None) =
            (\<forall>l\<in>set (orderLimits e order reqIp). int n < lvalue l))"
proof -
  let ?ls = "orderLimits e order reqIp"
  have run: "\<And>c. checkOrdersLimit e order reqIp c = checkLimits e ?ls c"
    using env by (simp add: checkOrdersLimit_def)
  have d: "distinct (map lkey ?ls)" by (rule orderLimits_distinct)
  have rej: "\<And>c l. l \<in> set ?ls \<Longrightarrow> lvalue l \<le> cache_count c (lkey l) \<Longrightarrow>
                fst (checkOrdersLimit e order reqIp c) = Some (limitError e)"
    unfolding run using checkLimits_rejects[of ?ls _ e] d by blast
  have cnt: "\<And>c l. l \<in> set (checkedLimits ?ls c) \<Longrightarrow>
                cache_count (snd (checkOrdersLimit e order reqIp c)) (lkey l) = cache_count c (lkey l) + 1"
    unfolding run using checkLimits_counted[of ?ls _ e] d by blast
  have c1: "\<forall>l\<in>set ?ls. lvalue l \<le> cache_count c (lkey l) \<longrightarrow>
            fst (checkOrdersLimit e order reqIp c) = Some (limitError e)"
    using rej by blast
  have c2: "\<forall>l\<in>set (checkedLimits ?ls c).
            cache_count (snd (checkOrdersLimit e order reqIp c)) (lkey l) = cache_count c (lkey l) + 1"
    using cnt by blast
  have c3: "(fst (checkOrdersLimit e order reqIp c) = None) =
            (\<forall>l\<in>set ?ls. cache_count c (lkey l) < lvalue l)"
    by (rule checkOrdersLimit_passes_iff[OF env])
  have c4: "fst (checkOrdersLimit e order reqIp c) = None \<longrightarrow> checkedLimits ?ls c = ?ls"
    using checkOrdersLimit_passes_all_checked[OF env] by blast
  have c5: "fst (checkOrdersLimit e order reqIp c) \<noteq> None \<longrightarrow>
            fst (checkOrdersLimit e order reqIp c) = Some (limitError e)"
    unfolding run using checkLimits_error[of e ?ls] by blast
  have c6: "\<forall>rs. \<forall>l\<in>set (checkedLimits ?ls (attempts e rs c)).
            cache_count c (lkey l) = 0 \<longrightarrow>
            cache_count (attempts e rs c) (lkey l) = int (checksOf e (lkey l) rs c) \<and>
            (lvalue l \<le> int (checksOf e (lkey l) rs c) \<longrightarrow>
               fst (checkOrdersLimit e order reqIp (attempts e rs c)) = Some (limitError e)) \<and>
            cache_count (attempts e (rs @ [(order, reqIp)]) c) (lkey l) =
              int (checksOf e (lkey l) rs c) + 1"
  proof (intro allI ballI impI)
    fix rs l
    assume m: "l \<in> set (checkedLimits ?ls (attempts e rs c))" and z: "cache_count c (lkey l) = 0"
    from attempts_count[OF env, of rs "lkey l"] z
    have n: "cache_count (attempts e rs c) (lkey l) = int (checksOf e (lkey l) rs c)" by simp
    from m have ml: "l \<in> set ?ls" using checkedLimits_subset by blast
    have r: "lvalue l \<le> int (checksOf e (lkey l) rs c) \<longrightarrow>
               fst (checkOrdersLimit e order reqIp (attempts e rs c)) = Some (limitError e)"
      using rej[OF ml, of "attempts e rs c"] n by simp
    have a: "cache_count (attempts e (rs @ [(order, reqIp)]) c) (lkey l) =
              int (checksOf e (lkey l) rs c) + 1"
      using cnt[OF m] n attempts_snoc[of e rs order reqIp] by simp
    from n r a
    show "cache_count (attempts e rs c) (lkey l) = int (checksOf e (lkey l) rs c) \<and>
            (lvalue l \<le> int (checksOf e (lkey l) rs c) \<longrightarrow>
               fst (checkOrdersLimit e order reqIp (attempts e rs c)) = Some (limitError e)) \<and>
            cache_count (attempts e (rs @ [(order, reqIp)]) c) (lkey l) =
              int (checksOf e (lkey l) rs c) + 1"
      by simp
  qed
  have c7: "\<forall>rs. (\<forall>l\<in>set ?ls. cache_count c (lkey l) = 0) \<longrightarrow>
            (fst (checkOrdersLimit e order reqIp (attempts e rs c)) = None) =
            (\<forall>l\<in>set ?ls. int (checksOf e (lkey l) rs c) < lvalue l)"
    using attempts_sequence[OF env] by blast
  have c8: "\<forall>n. (\<forall>l\<in>set ?ls. cache_count c (lkey l) = 0) \<longrightarrow>
            (fst (checkOrdersLimit e order reqIp (attempts e (replicate n (order, reqIp)) c)) = None) =
            (\<forall>l\<in>set ?ls. int n < lvalue l)"
    using attempts_repeated[OF env] by blast
  show ?thesis
    apply (rule conjI, rule c1)
    apply (rule conjI, rule c2)
    apply (rule conjI, rule c3)
    apply (rule conjI, rule c4)
    apply (rule conjI, rule c5)
    apply (rule conjI, rule c6)
    apply (rule conjI, rule c7)
    apply (rule c8)
    done
qed

lemma env0_NODE_ENV: "NODE_ENV env0 = ''production''"
  by (simp add: env0_def)

lemma env0_perAccount: "perAccount env0 = 2"
  by (simp add: env0_def)

lemma accountRequest_limits: "orderLimits env0 accountRequest None = [accountLimit]"
  by (simp add: orderLimits_def accountRequest_def emptyOrder_def accountLimit_def env0_perAccount)

theorem checkOrdersLimit_thresholds_witness:
  "NODE_ENV env0 \<noteq> ''circleci'' \<and> NODE_ENV env0 \<noteq> ''test''
   \<and> orderLimits env0 accountRequest None = [accountLimit] \<and> lvalue accountLimit = 2
   \<and> fst (checkOrdersLimit env0 accountRequest None
            (attempts env0 (replicate 0 (accountRequest, None)) (\<lambda>k. None))) = None
   \<and> fst (checkOrdersLimit env0 accountRequest None
            (attempts env0 (replicate 1 (accountRequest, None)) (\<lambda>k. None))) = None
   \<and> fst (checkOrdersLimit env0 accountRequest None
            (attempts env0 (replicate 2 (accountRequest, None)) (\<lambda>k. None))) = Some (limitError env0)
   \<and> fst (checkOrdersLimit env0 accountRequest None
            (attempts env0 (replicate 7 (accountRequest, None)) (\<lambda>k. None))) = Some (limitError env0)
   \<and> checksOf env0 (lkey accountLimit) [(accountRequest, None), (accountRequest, None)] (\<lambda>k. None) = 2
   \<and> fst (checkOrdersLimit env0 accountRequest None
            (attempts env0 [(accountRequest, None), (accountRequest, None)] (\<lambda>k. None))) =
       Some (limitError env0)
   \<and> cache_count
        (attempts env0 [(accountRequest, None), (accountRequest, None), (accountRequest, None)] (\<lambda>k. None))
        (lkey accountLimit) = 3"
proof -
  have e1: "NODE_ENV env0 \<noteq> ''circleci''" and e2: "NODE_ENV env0 \<noteq> ''test''"
    by (simp_all add: env0_NODE_ENV)
  have v: "lvalue accountLimit = 2" by (simp add: accountLimit_def)
  have run: "\<And>c. checkOrdersLimit env0 accountRequest None c = checkLimits env0 [accountLimit] c"
    by (simp add: checkOrdersLimit_def env0_NODE_ENV accountRequest_limits)
  have n2: "checksOf env0 (lkey accountLimit) [(accountRequest, None), (accountRequest, None)] (\<lambda>k. None) = 2"
    by (simp add: run checkLimits_Cons cache_count_def v accountRequest_limits)
  have m2: "accountLimit \<in> set (checkedLimits (orderLimits env0 accountRequest None)
              (attempts env0 [(accountRequest, None), (accountRequest, None)] (\<lambda>k. None)))"
    by (simp add: accountRequest_limits)
  have z: "cache_count (\<lambda>k. None) (lkey accountLimit) = 0" by (simp add: cache_count_def)
  have zs: "cache_count (\<lambda>k. None) (lkey l) = 0" if "l \<in> set (orderLimits env0 accountRequest None)" for l
    by (simp add: cache_count_def)
  note inst = checkOrdersLimit_thresholds[OF e1 e2, of accountRequest None "\<lambda>k. None"]
  note seq = inst[THEN conjunct2, THEN conjunct2, THEN conjunct2, THEN conjunct2, THEN conjunct2,
                 THEN conjunct1, rule_format, OF m2 z]
  note rep = inst[THEN conjunct2, THEN conjunct2, THEN conjunct2, THEN conjunct2, THEN conjunct2,
                 THEN conjunct2, THEN conjunct2, rule_format, OF zs]
  have p0: "fst (checkOrdersLimit env0 accountRequest None
            (attempts env0 (replicate 0 (accountRequest, None)) (\<lambda>k. None))) = None"
    using rep[of 0] by (simp add: accountRequest_limits v)
  have p1: "fst (checkOrdersLimit env0 accountRequest None
            (attempts env0 (replicate 1 (accountRequest, None)) (\<lambda>k. None))) = None"
    using rep[of 1] by (simp add: accountRequest_limits v)
  have q2: "fst (checkOrdersLimit env0 accountRequest None
            (attempts env0 (replicate 2 (accountRequest, None)) (\<lambda>k. None))) \<noteq> None"
    using rep[of 2] by (simp add: accountRequest_limits v)
  have q7: "fst (checkOrdersLimit env0 accountRequest None
            (attempts env0 (replicate 7 (accountRequest, None)) (\<lambda>k. None))) \<noteq> None"
    using rep[of 7] by (simp add: accountRequest_limits v)
  have run': "\<And>c. fst (checkOrdersLimit env0 accountRequest None c) \<noteq> None \<Longrightarrow>
                  fst (checkOrdersLimit env0 accountRequest None c) = Some (limitError env0)"
    using checkOrdersLimit_thresholds[OF e1 e2, of accountRequest None,
            THEN conjunct2, THEN conjunct2, THEN conjunct2, THEN conjunct2, THEN conjunct1]
    by blast
  note p2 = run'[OF q2] and p7 = run'[OF q7]
  from seq n2 v
  have r: "fst (checkOrdersLimit env0 accountRequest None
            (attempts env0 [(accountRequest, None), (accountRequest, None)] (\<lambda>k. None))) =
       Some (limitError env0)"
    by simp
  from seq n2
  have c3: "cache_count
        (attempts env0 ([(accountRequest, None), (accountRequest, None)] @ [(accountRequest, None)]) (\<lambda>k. None))
        (lkey accountLimit) = 3"
    by simp
  from e1 e2 accountRequest_limits v p0 p1 p2 p7 n2 r c3 show ?thesis by simp
qed

subsection \<open>createOrder: the phases\<close>

lemma createOrder_run:
  assumes "checkOrdersLimit e order reqIp (cache s) = (None, c)"
    and "checkRecaptcha e order remoteUser reqIp = Inr recaptchaResponse"
  shows "createOrder e now order remoteUser reqIp s =
         createOrder_catch (createOrder_try e now order remoteUser reqIp recaptchaResponse (s\<lparr>cache := c\<rparr>))"
  using assms by (simp add: createOrder_def)

lemma findOrCreateCollective_frame:
  "findOrCreateCollective e P d s = (col, s1) \<Longrightarrow>
   orders s1 = orders s \<and> executed s1 = executed s \<and> subscriptions s1 = subscriptions s \<and>
   activities s1 = activities s \<and> members s1 = members s \<and> cache s1 = cache s"
  by (auto simp: findOrCreateCollective_def Let_def split: option.splits)

lemma resolveCollective_frame:
  assumes "resolveCollective e order cr remoteUser s = (r, s1)"
  shows "orders s1 = orders s \<and> executed s1 = executed s \<and> subscriptions s1 = subscriptions s \<and>
         activities s1 = activities s \<and> members s1 = members s \<and> cache s1 = cache s"
proof -
  obtain oc sa where a: "(if truthy_int (cr_id cr) then
              (case cr_id cr of None \<Rightarrow> (None, s) | Some i \<Rightarrow> (findCollective s i, s))
            else if truthy_str (cr_website cr) then
              (case findOrCreateCollective e (\<lambda>c. col_website c = cr_website cr) cr s of
                 (c, s1) \<Rightarrow> (Some c, s1))
            else if truthy_str (cr_githubHandle cr) then
              (case findOrCreateCollective e (\<lambda>c. col_githubHandle c = cr_githubHandle cr) cr s of
                 (c, s1) \<Rightarrow> (Some c, s1))
            else (None, s)) = (oc, sa)"
    by (metis surj_pair)
  have fr: "orders sa = orders s \<and> executed sa = executed s \<and> subscriptions sa = subscriptions s \<and>
         activities sa = activities s \<and> members sa = members s \<and> cache sa = cache s"
    using a by (auto split: if_splits option.splits prod.splits dest: findOrCreateCollective_frame)
  have "s1 = sa"
    using assms unfolding resolveCollective_def a
    by (auto split: option.splits if_splits)
  with fr show ?thesis by simp
qed

lemma resolve_frame:
  assumes "createOrder_resolve e order remoteUser s = (r, s1)"
  shows "orders s1 = orders s \<and> executed s1 = executed s \<and> subscriptions s1 = subscriptions s \<and>
         activities s1 = activities s \<and> members s1 = members s \<and> cache s1 = cache s"
  using assms
  by (auto simp: createOrder_resolve_def createOrder_resolveTarget_def split: option.splits sum.splits prod.splits
           dest: resolveCollective_frame)

lemma validate_rejected:
  assumes "createOrder_resolve e order remoteUser s = (Inr (collective, tier), s1)"
    and "checkPaymentAndQuantity e order tier collective s1 = Some err"
  shows "createOrder_validate e now order remoteUser reqIp rr s = (Inl err, s1)"
  using assms by (simp add: createOrder_validate_def)

lemma createOrder_rejected:
  assumes limit: "checkOrdersLimit e order reqIp (cache s) = (None, c)"
    and captcha: "checkRecaptcha e order remoteUser reqIp = Inr rr"
    and resolve: "createOrder_resolve e order remoteUser (s\<lparr>cache := c\<rparr>) = (Inr (collective, tier), s1)"
    and chk: "checkPaymentAndQuantity e order tier collective s1 = Some err"
  shows "createOrder e now order remoteUser reqIp s = (Inl err, s1) \<and>
         orders s1 = orders s \<and> executed s1 = executed s"
proof -
  from resolve_frame[OF resolve] have "orders s1 = orders s \<and> executed s1 = executed s" by simp
  moreover have "createOrder e now order remoteUser reqIp s = (Inl err, s1)"
    unfolding createOrder_run[OF limit captcha]
    by (simp add: createOrder_try_def validate_rejected[OF resolve chk] createOrder_catch_def)
  ultimately show ?thesis by simp
qed

lemma orderData_fields:
  "order_status (orderData e now order reqIp rr collective tier fromCollective mf cb) = PENDING"
  "order_processedAt (orderData e now order reqIp rr collective tier fromCollective mf cb) =
     (if paymentRequired order tier collective \<or> \<not> col_isActive collective then None else Some now)"
  "order_id (orderData e now order reqIp rr collective tier fromCollective mf cb) = 0"
  by (simp_all add: orderData_def Let_def)

lemma resolveUser_some:
  assumes "resolveUser e order remoteUser s = (Inr usr, s1)" and "usr = None"
  shows "remoteUser = None"
proof (cases "(case oi_user order of
              None \<Rightarrow> None
            | Some u \<Rightarrow>
                (case ur_email u of
                   None \<Rightarrow> None
                 | Some em \<Rightarrow> if em = [] then None else Some (u, em)))")
  case None
  with assms show ?thesis by (simp add: resolveUser_def)
next
  case (Some p)
  obtain u em where p: "p = (u, em)" by (cases p)
  show ?thesis
  proof (cases "findByEmailOrPaypalEmail e em s")
    case None
    obtain r sx where c: "createUserWithCollective e u (oi_currency order) (map_option user_id remoteUser) s = (r, sx)"
      by (cases "createUserWithCollective e u (oi_currency order) (map_option user_id remoteUser) s")
    from assms Some p None c show ?thesis
      by (cases r) (simp_all add: resolveUser_def)
  next
    case (Some existing)
    with assms \<open>_ = Some p\<close> p show ?thesis by (simp add: resolveUser_def)
  qed
qed

lemma buildOrderData_ok:
  assumes "buildOrderData e now order remoteUser reqIp rr collective tier usr fromCollective mf = Inr row"
  shows "(remoteUser \<noteq> None \<or> usr \<noteq> None) \<and> order_status row = PENDING \<and>
         order_processedAt row =
           (if paymentRequired order tier collective \<or> \<not> col_isActive collective then None else Some now)"
proof -
  from assms obtain cb where
    cb: "(case remoteUser of Some ru \<Rightarrow> Some (user_id ru) | None \<Rightarrow> map_option user_id usr) = Some cb"
    and row: "row = orderData e now order reqIp rr collective tier fromCollective mf cb"
    unfolding buildOrderData_def
    by (cases "truthy_str (oi_currency order) \<and> oi_currency order \<noteq> Some (orderCurrency tier collective)";
        cases "case remoteUser of Some ru \<Rightarrow> Some (user_id ru) | None \<Rightarrow> map_option user_id usr")
       simp_all
  from cb have "remoteUser \<noteq> None \<or> usr \<noteq> None"
    by (cases remoteUser; cases usr) simp_all
  with row show ?thesis by (simp add: orderData_fields)
qed

lemma validate_draft:
  assumes "createOrder_validate e now order remoteUser reqIp rr s = (Inr d, s1)"
  shows "d_paymentRequired d = paymentRequired order (d_tier d) (d_collective d) \<and>
         d_user d \<noteq> None \<and> order_status (d_orderData d) = PENDING \<and>
         order_processedAt (d_orderData d) =
           (if d_paymentRequired d \<or> \<not> col_isActive (d_collective d) then None else Some now)"
proof -
  from assms obtain collective tier usr fromCollective mf row sA sB where
    d: "d = \<lparr>d_collective = collective, d_tier = tier, d_user = usr, d_fromCollective = fromCollective,
             d_paymentRequired = paymentRequired order tier collective, d_orderData = row\<rparr>"
    and ru: "resolveUser e order remoteUser sA = (Inr usr, sB)"
    and bd: "buildOrderData e now order remoteUser reqIp rr collective tier usr fromCollective mf = Inr row"
    unfolding createOrder_validate_def createOrder_prepare_def
    by (simp split: sum.splits prod.splits option.splits) blast
  from buildOrderData_ok[OF bd] resolveUser_some[OF ru] d show ?thesis by auto
qed

lemma execute_free_event:
  assumes np: "\<not> d_paymentRequired d"
    and ev: "col_type (d_collective d) = EVENT"
    and u: "d_user d = Some u"
  shows "\<exists>s2. createOrder_execute e now order remoteUser d s =
           (Inr ((d_orderData d)\<lparr>order_id := newId (map order_id (orders s)),
                                 order_status := PAID, order_processedAt := Some now\<rparr>),
            Some ((d_orderData d)\<lparr>order_id := newId (map order_id (orders s)),
                                  order_status := PAID, order_processedAt := Some now\<rparr>),
            s2) \<and>
         orders s2 = orders s @ [(d_orderData d)\<lparr>order_id := newId (map order_id (orders s)),
                                                order_status := PAID, order_processedAt := Some now\<rparr>] \<and>
         activities s2 = activities s @
           [\<lparr>act_type = TICKET_CONFIRMED, act_CollectiveId = None, act_UserId = None,
             act_EventCollectiveId = Some (col_id (d_collective d)),
             act_dataUserId = Some (case remoteUser of Some ru \<Rightarrow> user_id ru | None \<Rightarrow> user_id u),
             act_order = Some (newId (map order_id (orders s))), act_subscription = None\<rparr>] \<and>
         \<lparr>mem_CollectiveId = col_id (d_collective d), mem_MemberCollectiveId = user_CollectiveId u,
           mem_CreatedByUserId = user_id u, mem_role = ATTENDEE\<rparr> \<in> set (members s2) \<and>
         executed s2 = executed s \<and> subscriptions s2 = subscriptions s \<and>
         paymentMethods s2 = paymentMethods s"
proof -
  let ?nid = "newId (map order_id (orders s))"
  let ?oc = "(d_orderData d)\<lparr>order_id := ?nid\<rparr>"
  let ?oc1 = "(d_orderData d)\<lparr>order_id := ?nid, order_status := PAID, order_processedAt := Some now\<rparr>"
  let ?att = "\<lparr>mem_CollectiveId = col_id (d_collective d), mem_MemberCollectiveId = user_CollectiveId u,
           mem_CreatedByUserId = user_id u, mem_role = ATTENDEE\<rparr>"
  let ?act = "\<lparr>act_type = TICKET_CONFIRMED, act_CollectiveId = None, act_UserId = None,
             act_EventCollectiveId = Some (col_id (d_collective d)),
             act_dataUserId = Some (case remoteUser of Some ru \<Rightarrow> user_id ru | None \<Rightarrow> user_id u),
             act_order = Some ?nid, act_subscription = None\<rparr>"
  let ?s3 = "s\<lparr>orders := orders s @ [?oc1], members := members s @ [?att],
               activities := activities s @ [?act]\<rparr>"
  let ?ref = "order_ReferralCollectiveId (d_orderData d)"
  let ?s4 = "(case ?ref of
               None \<Rightarrow> ?s3
             | Some r \<Rightarrow> if r = 0 then ?s3
                         else if r \<noteq> user_CollectiveId u
                              then addUserWithRole (d_collective d) (user_id u) r FUNDRAISER ?s3
                              else ?s3)"
  have fresh: "\<forall>x\<in>set (orders s). order_id x \<noteq> ?nid"
    using newId_not_in[of order_id "orders s"] by (force simp: image_iff)
  have upd: "map (\<lambda>x. if order_id x = ?nid then x\<lparr>order_status := PAID, order_processedAt := Some now\<rparr> else x)
               (orders s) = orders s"
    using fresh by (rule map_update_other)
  have fnd: "find (\<lambda>r. order_id r = ?nid) (orders s @ [?oc1]) = Some ?oc1"
    using find_fresh[of ?nid order_id "orders s"] newId_not_in[of order_id "orders s"]
    by (simp add: find_snoc_new)
  have notcol: "\<not> (truthy_str (oi_interval order) \<and> col_type (d_collective d) = COLLECTIVE)"
    using ev by simp
  have run: "createOrder_execute e now order remoteUser d s = (Inr ?oc1, Some ?oc1, ?s4)"
    unfolding createOrder_execute_def createOrder_process_def createOrder_finish_def Let_def
    using np notcol ev u upd fnd
    by (simp add: updateOrderFields_def addUserWithRole_def findOrder_def split: option.splits)
  have props: "orders ?s4 = orders s @ [?oc1] \<and> activities ?s4 = activities s @ [?act] \<and>
               ?att \<in> set (members ?s4) \<and> executed ?s4 = executed s \<and>
               subscriptions ?s4 = subscriptions s \<and> paymentMethods ?s4 = paymentMethods s"
    by (simp add: addUserWithRole_def split: option.splits)
  from run props show ?thesis by blast
qed

lemma createOrder_finish_persisted: "fst (snd (createOrder_finish d res)) \<noteq> None"
proof -
  obtain eo oc s' where res: "res = (eo, oc, s')" by (cases res)
  show ?thesis
  proof (cases eo)
    case (Some err)
    with res show ?thesis by (simp add: createOrder_finish_def)
  next
    case None
    show ?thesis
    proof (cases "findOrder s' (order_id oc)")
      case nf: None
      with None res show ?thesis by (simp add: createOrder_finish_def)
    next
      case (Some found)
      with None res show ?thesis
        by (cases "order_ReferralCollectiveId found"; cases "d_user d")
           (simp_all add: createOrder_finish_def)
    qed
  qed
qed

text \<open>
  \<^verbatim>\<open>orderCreated\<close> is set exactly when validation has succeeded and the row has been
  created.
\<close>

lemma createOrder_try_persisted:
  assumes "createOrder_try e now order remoteUser reqIp rr s = (r, oc, s')"
  shows "(oc \<noteq> None) = (\<exists>d s1. createOrder_validate e now order remoteUser reqIp rr s = (Inr d, s1))"
proof -
  obtain v s1 where v: "createOrder_validate e now order remoteUser reqIp rr s = (v, s1)"
    by (cases "createOrder_validate e now order remoteUser reqIp rr s")
  show ?thesis
  proof (cases v)
    case (Inl err)
    with v assms show ?thesis by (simp add: createOrder_try_def)
  next
    case (Inr d)
    with v assms have "oc = fst (snd (createOrder_execute e now order remoteUser d s1))"
      by (simp add: createOrder_try_def)
    then have "oc \<noteq> None"
      using createOrder_finish_persisted by (simp add: createOrder_execute_def Let_def)
    with v Inr show ?thesis by simp
  qed
qed

text \<open>Without payment required, nothing is handed to \<^verbatim>\<open>executeOrder\<close>.\<close>

lemma finish_executed:
  "executed (snd (snd (createOrder_finish d res))) = executed (snd (snd res))"
proof -
  obtain eo oc s' where res: "res = (eo, oc, s')" by (cases res)
  show ?thesis
  proof (cases eo)
    case (Some err)
    with res show ?thesis by (simp add: createOrder_finish_def)
  next
    case None
    show ?thesis
    proof (cases "findOrder s' (order_id oc)")
      case nf: None
      with None res show ?thesis by (simp add: createOrder_finish_def)
    next
      case (Some found)
      with None res show ?thesis
        by (cases "order_ReferralCollectiveId found"; cases "d_user d")
           (simp_all add: createOrder_finish_def addUserWithRole_def)
    qed
  qed
qed

lemma process_not_required:
  assumes "\<not> d_paymentRequired d"
  shows "executed (snd (snd (createOrder_process e now order remoteUser d oc s0))) = executed s0"
proof (cases "truthy_str (oi_interval order) \<and> col_type (d_collective d) = COLLECTIVE")
  case True
  with assms show ?thesis
    by (simp add: createOrder_process_def Let_def updateOrderFields_def)
next
  case False
  show ?thesis
  proof (cases "col_type (d_collective d) = EVENT")
    case True
    with assms False show ?thesis
      by (cases "d_user d")
         (simp_all add: createOrder_process_def Let_def updateOrderFields_def addUserWithRole_def)
  next
    case ne: False
    with assms False show ?thesis by (simp add: createOrder_process_def Let_def updateOrderFields_def)
  qed
qed

lemma execute_not_required:
  "\<not> d_paymentRequired d \<Longrightarrow>
   executed (snd (snd (createOrder_execute e now order remoteUser d s))) = executed s"
  by (simp add: createOrder_execute_def Let_def finish_executed process_not_required)

lemma updateOrderFields_error:
  "r \<in> set (orders (updateOrderFields s i (\<lambda>x. x\<lparr>order_status := ERROR\<rparr>))) \<Longrightarrow>
   (order_id r = i \<longrightarrow> order_status r = ERROR) \<and> (order_id r \<noteq> i \<longrightarrow> r \<in> set (orders s))"
proof -
  assume "r \<in> set (orders (updateOrderFields s i (\<lambda>x. x\<lparr>order_status := ERROR\<rparr>)))"
  then obtain x where x: "x \<in> set (orders s)"
    and r: "r = (if order_id x = i then x\<lparr>order_status := ERROR\<rparr> else x)"
    unfolding updateOrderFields_def by fastforce
  show ?thesis
  proof (cases "order_id x = i")
    case True
    with r show ?thesis by simp
  next
    case False
    with r x show ?thesis by simp
  qed
qed

subsection \<open>createOrder on the concrete installation\<close>

lemma no_limit_keys:
  "oi_fromCollective order = None \<Longrightarrow> oi_user order = None \<Longrightarrow>
   checkOrdersLimit e order None c = (None, c)"
  by (simp add: checkOrdersLimit_def orderLimits_def anonymousLimits_def)

lemma alice_captcha:
  "oi_recaptchaToken order = None \<Longrightarrow> checkRecaptcha e order (Some alice) reqIp = Inr None"
  by (simp add: checkRecaptcha_def)

lemma freeRequest_limit: "checkOrdersLimit env0 freeRequest None (cache db0) = (None, cache db0)"
  by (simp add: checkOrdersLimit_def orderLimits_def anonymousLimits_def freeRequest_def emptyOrder_def
        toCollective_def env0_def)

lemma freeRequest_captcha: "checkRecaptcha env0 freeRequest (Some alice) None = Inr None"
  by (simp add: checkRecaptcha_def freeRequest_def emptyOrder_def env0_def)

lemma freeRequest_resolve:
  "createOrder_resolve env0 freeRequest (Some alice) db0 = (Inr (meetup, Some freeTicket), db0)"
  by (simp add: createOrder_resolve_def createOrder_resolveTarget_def checkPaymentMethodOnFile_def checkTarget_def resolveCollective_def resolveTier_def
        findCollective_def findTier_def truthy_int_def truthy_str_def
        freeRequest_def emptyOrder_def toCollective_def db0_def
        aliceProfile_def webpack_def meetup_def freeTicket_def paidTicket_def)

lemma freeRequest_validate:
  "createOrder_validate env0 7 freeRequest (Some alice) None None db0 = (Inr freeDraft, db0)"
  unfolding createOrder_validate_def createOrder_prepare_def freeRequest_resolve
  by (simp add: checkPaymentAndQuantity_def checkPaymentReference_def checkQuantity_def paymentRequired_def paymentRefMissing_def gt0_def num_gt_def
        resolveUser_def resolveFromCollective_def resolveMatchingFund_def buildOrderData_def
        orderData_def orderCurrency_def
        findCollective_def truthy_int_def truthy_str_def Let_def
        freeRequest_def emptyOrder_def toCollective_def db0_def env0_def alice_def
        aliceProfile_def webpack_def meetup_def freeTicket_def freeDraft_def freeOrderData_def)

lemma donation_fields:
  "oi_fromCollective (donation a) = None" "oi_user (donation a) = None"
  "oi_recaptchaToken (donation a) = None" "oi_paymentMethod (donation a) = Some tokenRef"
  "oi_totalAmount (donation a) = Some a"
  by (simp_all add: donation_def emptyOrder_def)

lemma paidRequest_fields:
  "oi_fromCollective paidRequest = None" "oi_user paidRequest = None"
  "oi_recaptchaToken paidRequest = None" "oi_paymentMethod paidRequest = None"
  "oi_quantity paidRequest = Some 3"
  by (simp_all add: paidRequest_def emptyOrder_def)

lemma donation_resolve:
  "createOrder_resolve env0 ((donation a)\<lparr>oi_paymentMethod := p\<rparr>) (Some alice) db0 =
     (Inr (webpack, None), db0)"
  by (simp add: createOrder_resolve_def createOrder_resolveTarget_def checkPaymentMethodOnFile_def checkTarget_def resolveCollective_def resolveTier_def
        findCollective_def truthy_int_def truthy_str_def
        donation_def emptyOrder_def toCollective_def db0_def
        aliceProfile_def webpack_def meetup_def)

lemma donation_resolve_plain:
  "createOrder_resolve env0 (donation a) (Some alice) db0 = (Inr (webpack, None), db0)"
  by (simp add: createOrder_resolve_def createOrder_resolveTarget_def checkPaymentMethodOnFile_def checkTarget_def resolveCollective_def resolveTier_def
        findCollective_def truthy_int_def truthy_str_def
        donation_def emptyOrder_def toCollective_def db0_def
        aliceProfile_def webpack_def meetup_def)

lemma paidRequest_resolve:
  "createOrder_resolve env0 (paidRequest\<lparr>oi_paymentMethod := p\<rparr>) (Some alice) db0 =
     (Inr (meetup, Some paidTicket), db0)"
  by (simp add: createOrder_resolve_def createOrder_resolveTarget_def checkPaymentMethodOnFile_def checkTarget_def resolveCollective_def resolveTier_def
        findCollective_def findTier_def truthy_int_def truthy_str_def
        paidRequest_def emptyOrder_def toCollective_def db0_def
        aliceProfile_def webpack_def meetup_def freeTicket_def paidTicket_def)

lemma paidRequest_resolve_plain:
  "createOrder_resolve env0 paidRequest (Some alice) db0 = (Inr (meetup, Some paidTicket), db0)"
  by (simp add: createOrder_resolve_def createOrder_resolveTarget_def checkPaymentMethodOnFile_def checkTarget_def resolveCollective_def resolveTier_def
        findCollective_def findTier_def truthy_int_def truthy_str_def
        paidRequest_def emptyOrder_def toCollective_def db0_def
        aliceProfile_def webpack_def meetup_def freeTicket_def paidTicket_def)

lemma donation_validate:
  "0 < a \<Longrightarrow>
   createOrder_validate env0 7 (donation a) (Some alice) None None db0 =
     (Inr \<lparr>d_collective = webpack, d_tier = None, d_user = Some alice,
           d_fromCollective = aliceProfile, d_paymentRequired = True,
           d_orderData = (donationRow a)\<lparr>order_id := 0\<rparr>\<rparr>, db0)"
  unfolding createOrder_validate_def createOrder_prepare_def donation_resolve_plain
  by (simp add: checkPaymentAndQuantity_def checkPaymentReference_def checkQuantity_def paymentRequired_def paymentRefMissing_def gt0_def num_gt_def
        resolveUser_def resolveFromCollective_def resolveMatchingFund_def buildOrderData_def
        orderData_def orderCurrency_def
        findCollective_def truthy_int_def truthy_str_def Let_def
        donation_def emptyOrder_def toCollective_def db0_def env0_def alice_def tokenRef_def
        aliceProfile_def webpack_def meetup_def donationRow_def)

lemma donation_try:
  "0 < a \<Longrightarrow>
   createOrder_try env0 7 (donation a) (Some alice) None None db0 =
   createOrder_execute env0 7 (donation a) (Some alice)
     \<lparr>d_collective = webpack, d_tier = None, d_user = Some alice,
      d_fromCollective = aliceProfile, d_paymentRequired = True,
      d_orderData = (donationRow a)\<lparr>order_id := 0\<rparr>\<rparr> db0"
  by (simp add: createOrder_try_def donation_validate)

lemma donation_declined:
  "createOrder_try env0 7 (donation 666) (Some alice) None None db0 =
     (Inl (Error ''Your card was declined.''), Some (donationRow 666),
      db0\<lparr>orders := [order1, donationRow 666], executed := [2]\<rparr>)"
  unfolding donation_try[of 666, simplified]
  by (simp add: createOrder_execute_def createOrder_process_def createOrder_finish_def
        call_executeOrder_def findOrder_def
        Let_def newId_def donation_fields tokenRef_def env0_def db0_def order1_def donationRow_def)

lemma donation_charged_then_failed:
  "createOrder_try env0 7 (donation 777) (Some alice) None None db0 =
     (Inl (Error ''The confirmation could not be sent''),
      Some ((donationRow 777)\<lparr>order_status := PAID, order_processedAt := Some 1\<rparr>),
      db0\<lparr>orders := [order1, (donationRow 777)\<lparr>order_status := PAID, order_processedAt := Some 1\<rparr>],
          executed := [2]\<rparr>)"
  unfolding donation_try[of 777, simplified]
  by (simp add: createOrder_execute_def createOrder_process_def createOrder_finish_def
        call_executeOrder_def updateOrderFields_def findOrder_def
        Let_def newId_def donation_fields tokenRef_def env0_def db0_def order1_def donationRow_def)

lemma num_str_2: "num_str 2 = ''2''"
  by code_simp

lemma freeRequest_run:
  "fst (createOrder env0 7 freeRequest (Some alice) None db0) =
     Inr (freeOrderData\<lparr>order_id := 2, order_status := PAID\<rparr>)"
proof -
  have np: "\<not> d_paymentRequired freeDraft" and ev: "col_type (d_collective freeDraft) = EVENT"
    and u: "d_user freeDraft = Some alice"
    by (simp_all add: freeDraft_def meetup_def)
  from execute_free_event[OF np ev u, of env0 7 freeRequest "Some alice" db0]
  obtain s2 where run: "createOrder_execute env0 7 freeRequest (Some alice) freeDraft db0 =
           (Inr ((d_orderData freeDraft)\<lparr>order_id := newId (map order_id (orders db0)),
                                 order_status := PAID, order_processedAt := Some 7\<rparr>),
            Some ((d_orderData freeDraft)\<lparr>order_id := newId (map order_id (orders db0)),
                                  order_status := PAID, order_processedAt := Some 7\<rparr>),
            s2)"
    by blast
  have row: "(d_orderData freeDraft)\<lparr>order_id := newId (map order_id (orders db0)),
                                 order_status := PAID, order_processedAt := Some 7\<rparr> =
             freeOrderData\<lparr>order_id := 2, order_status := PAID\<rparr>"
    by (simp add: freeDraft_def freeOrderData_def newId_def db0_def order1_def)
  show ?thesis
    unfolding createOrder_run[OF freeRequest_limit freeRequest_captcha]
    by (simp add: createOrder_try_def freeRequest_validate run createOrder_catch_def row)
qed

lemma paidRequest_no_method:
  "fst (createOrder env0 7 paidRequest (Some alice) None db0) =
     Inl (Error ''This order requires a payment method'')"
proof -
  have l: "checkOrdersLimit env0 paidRequest None (cache db0) = (None, cache db0)"
    by (simp add: no_limit_keys paidRequest_fields)
  have c: "checkRecaptcha env0 paidRequest (Some alice) None = Inr None"
    by (simp add: alice_captcha paidRequest_fields)
  have r: "createOrder_resolve env0 paidRequest (Some alice) (db0\<lparr>cache := cache db0\<rparr>) =
           (Inr (meetup, Some paidTicket), db0)"
    by (simp add: paidRequest_resolve_plain)
  have chk: "checkPaymentAndQuantity env0 paidRequest (Some paidTicket) meetup db0 =
             Some (Error ''This order requires a payment method'')"
    by (simp add: checkPaymentAndQuantity_def checkPaymentReference_def checkQuantity_def paymentRequired_def gt0_def paymentRefMissing_def
          paidTicket_def meetup_def paidRequest_fields)
  from createOrder_rejected[OF l c r chk, of 7] show ?thesis by simp
qed

subsection \<open>createOrder: pledges to GitHub handles\<close>

text \<open>
  What the check of lines 140-170 does give: \<open>ValidationFailed\<close> for a repository that
  cannot be verified or has fewer than 100 stars, and for an organization that cannot be
  verified or whose listed repositories all have fewer than 100 stars.
\<close>

lemma checkGithubHandle_repository:
  "CHR ''/'' \<in> set h \<Longrightarrow>
   getRepo e h = None \<or> (\<exists>r. getRepo e h = Some r \<and> stargazers_count r < 100) \<Longrightarrow>
   \<exists>msg. checkGithubHandle e h = Some (ValidationFailed msg)"
  by (auto simp: checkGithubHandle_def)

lemma checkGithubHandle_organization:
  assumes org: "CHR ''/'' \<notin> set h"
    and bad: "\<not> getOrg e h \<or> (\<exists>rs. getAllOrganizationPublicRepos e h = Some rs \<and>
                         (\<forall>r\<in>set rs. stargazers_count r < 100))"
  shows "\<exists>msg. checkGithubHandle e h = Some (ValidationFailed msg)"
proof (cases "getOrg e h")
  case False
  with org show ?thesis by (simp add: checkGithubHandle_def)
next
  case True
  with bad obtain rs where rs: "getAllOrganizationPublicRepos e h = Some rs"
    and small: "\<forall>r\<in>set rs. stargazers_count r < 100" by blast
  have "find (\<lambda>repo. 100 \<le> stargazers_count repo) rs = None"
  proof (cases "find (\<lambda>repo. 100 \<le> stargazers_count repo) rs")
    case None
    then show ?thesis .
  next
    case (Some x)
    from find_Some_mem[OF this] have "x \<in> set rs" "100 \<le> stargazers_count x" by simp_all
    with small have "stargazers_count x < 100" by blast
    with \<open>100 \<le> stargazers_count x\<close> show ?thesis by simp
  qed
  with org True rs show ?thesis by (simp add: checkGithubHandle_def)
qed

lemma checkGithubHandle_listing_unavailable:
  "CHR ''/'' \<notin> set h \<Longrightarrow> getOrg e h \<Longrightarrow> getAllOrganizationPublicRepos e h = None \<Longrightarrow>
   checkGithubHandle e h = Some (TypeError ''Cannot read property 'find' of null'')"
  by (simp add: checkGithubHandle_def)

text \<open>
  C8. For an organization handle that is verified but whose list of public repositories
  cannot be fetched, the call fails with a \<open>TypeError\<close> (\<^verbatim>\<open>allRepos.find\<close> on \<^verbatim>\<open>null\<close>),
  not with \<open>ValidationFailed\<close>; the repository branch tests its \<^verbatim>\<open>null\<close>.
\<close>

theorem createOrder_organization_listing_unavailable:
  "getOrg env0 ''flaky'' \<and> getAllOrganizationPublicRepos env0 ''flaky'' = None
   \<and> checkGithubHandle env0 ''flaky'' = Some (TypeError ''Cannot read property 'find' of null'')
   \<and> createOrder env0 7 (pledgeRequest ''flaky'') (Some alice) None db0 =
       (Inl (TypeError ''Cannot read property 'find' of null''), db0)"
proof -
  have o: "getOrg env0 ''flaky''" and a: "getAllOrganizationPublicRepos env0 ''flaky'' = None"
    by (simp_all add: env0_def)
  have g: "checkGithubHandle env0 ''flaky'' = Some (TypeError ''Cannot read property 'find' of null'')"
    using o a by (simp add: checkGithubHandle_listing_unavailable)
  have cf: "checkPaymentMethodOnFile (pledgeRequest ''flaky'') (Some alice) = None"
    by (simp add: checkPaymentMethodOnFile_def)
  have cr: "checkTarget env0 (pledgeRequest ''flaky'') (Some alice) =
            Some (TypeError ''Cannot read property 'find' of null'')"
    by (simp add: checkTarget_def pledgeRequest_def emptyOrder_def truthy_int_def truthy_str_def g)
  have l: "checkOrdersLimit env0 (pledgeRequest ''flaky'') None (cache db0) = (None, cache db0)"
    by (simp add: no_limit_keys pledgeRequest_def emptyOrder_def)
  have c: "checkRecaptcha env0 (pledgeRequest ''flaky'') (Some alice) None = Inr None"
    by (simp add: alice_captcha pledgeRequest_def emptyOrder_def)
  have "createOrder env0 7 (pledgeRequest ''flaky'') (Some alice) None db0 =
       (Inl (TypeError ''Cannot read property 'find' of null''), db0)"
    unfolding createOrder_run[OF l c]
    by (simp add: createOrder_try_def createOrder_validate_def createOrder_resolve_def
          createOrder_resolveTarget_def cf cr createOrder_catch_def)
  with o a g show ?thesis by simp
qed

subsection \<open>createOrder: payment method and quantity\<close>

text \<open>
  C5. Payment is required exactly when the total amount or the amount of the resolved
  tier is positive and the collective is active. A call that reaches that point (the
  limiter, the recaptcha check and lines 123-216 passed) with payment required and a
  payment reference that is absent, or has neither a uuid nor a token nor the type
  \<open>manual\<close>, fails with \<open>This order requires a payment method\<close>; no order row is
  created and nothing is handed to \<^verbatim>\<open>executeOrder\<close>. (By \<open>validate_draft\<close> and
  \<open>execute_not_required\<close>, an order for which payment is not required is never
  handed to it either.)
\<close>

theorem createOrder_payment_method_required:
  "(paymentRequired order tier collective \<longleftrightarrow>
      (gt0 (oi_totalAmount order) \<or> (\<exists>t. tier = Some t \<and> gt0 (tier_amount t))) \<and> col_isActive collective)
   \<and> (checkOrdersLimit e order reqIp (cache s) = (None, c) \<and>
      checkRecaptcha e order remoteUser reqIp = Inr rr \<and>
      createOrder_resolve e order remoteUser (s\<lparr>cache := c\<rparr>) = (Inr (collective, tier), s1) \<and>
      paymentRequired order tier collective \<and>
      (oi_paymentMethod order = None \<or>
       (\<exists>pm. oi_paymentMethod order = Some pm \<and> \<not> truthy_str (pm_uuid pm) \<and>
             \<not> truthy_str (pm_token pm) \<and> pm_type pm \<noteq> Some ''manual''))
      \<longrightarrow> createOrder e now order remoteUser reqIp s =
            (Inl (Error ''This order requires a payment method''), s1) \<and>
          orders s1 = orders s \<and> executed s1 = executed s)"
proof (rule conjI)
  show "paymentRequired order tier collective \<longleftrightarrow>
      (gt0 (oi_totalAmount order) \<or> (\<exists>t. tier = Some t \<and> gt0 (tier_amount t))) \<and> col_isActive collective"
    by (auto simp: paymentRequired_def split: option.splits)
next
  show "checkOrdersLimit e order reqIp (cache s) = (None, c) \<and>
      checkRecaptcha e order remoteUser reqIp = Inr rr \<and>
      createOrder_resolve e order remoteUser (s\<lparr>cache := c\<rparr>) = (Inr (collective, tier), s1) \<and>
      paymentRequired order tier collective \<and>
      (oi_paymentMethod order = None \<or>
       (\<exists>pm. oi_paymentMethod order = Some pm \<and> \<not> truthy_str (pm_uuid pm) \<and>
             \<not> truthy_str (pm_token pm) \<and> pm_type pm \<noteq> Some ''manual''))
      \<longrightarrow> createOrder e now order remoteUser reqIp s =
            (Inl (Error ''This order requires a payment method''), s1) \<and>
          orders s1 = orders s \<and> executed s1 = executed s"
  proof (rule impI)
    assume a: "checkOrdersLimit e order reqIp (cache s) = (None, c) \<and>
      checkRecaptcha e order remoteUser reqIp = Inr rr \<and>
      createOrder_resolve e order remoteUser (s\<lparr>cache := c\<rparr>) = (Inr (collective, tier), s1) \<and>
      paymentRequired order tier collective \<and>
      (oi_paymentMethod order = None \<or>
       (\<exists>pm. oi_paymentMethod order = Some pm \<and> \<not> truthy_str (pm_uuid pm) \<and>
             \<not> truthy_str (pm_token pm) \<and> pm_type pm \<noteq> Some ''manual''))"
    then have miss: "paymentRefMissing (oi_paymentMethod order)"
      by (auto simp: paymentRefMissing_def)
    with a have chk: "checkPaymentAndQuantity e order tier collective s1 =
                    Some (Error ''This order requires a payment method'')"
      by (simp add: checkPaymentAndQuantity_def checkPaymentReference_def checkQuantity_def)
    from a createOrder_rejected[OF _ _ _ chk, of reqIp s c remoteUser rr now]
    show "createOrder e now order remoteUser reqIp s =
            (Inl (Error ''This order requires a payment method''), s1) \<and>
          orders s1 = orders s \<and> executed s1 = executed s"
      by simp
  qed
qed

theorem createOrder_payment_method_required_witness:
  "createOrder_resolve env0 ((donation 500)\<lparr>oi_paymentMethod := None\<rparr>) (Some alice) db0 =
     (Inr (webpack, None), db0)
   \<and> paymentRequired ((donation 500)\<lparr>oi_paymentMethod := None\<rparr>) None webpack
   \<and> createOrder env0 7 ((donation 500)\<lparr>oi_paymentMethod := None\<rparr>) (Some alice) None db0 =
       (Inl (Error ''This order requires a payment method''), db0)
   \<and> createOrder env0 7 ((donation 500)\<lparr>oi_paymentMethod := Some (tokenRef\<lparr>pm_token := None\<rparr>)\<rparr>)
       (Some alice) None db0 =
       (Inl (Error ''This order requires a payment method''), db0)"
proof -
  have l: "\<And>p. checkOrdersLimit env0 ((donation 500)\<lparr>oi_paymentMethod := p\<rparr>) None (cache db0) =
                (None, cache db0)"
    by (simp add: no_limit_keys donation_fields)
  have c: "\<And>p. checkRecaptcha env0 ((donation 500)\<lparr>oi_paymentMethod := p\<rparr>) (Some alice) None = Inr None"
    by (simp add: alice_captcha donation_fields)
  have r: "\<And>p. createOrder_resolve env0 ((donation 500)\<lparr>oi_paymentMethod := p\<rparr>) (Some alice)
                  (db0\<lparr>cache := cache db0\<rparr>) = (Inr (webpack, None), db0)"
    by (simp add: donation_resolve)
  have pr: "\<And>p. paymentRequired ((donation 500)\<lparr>oi_paymentMethod := p\<rparr>) None webpack"
    by (simp add: paymentRequired_def gt0_def donation_fields webpack_def)
  have m: "\<not> truthy_str (pm_uuid (tokenRef\<lparr>pm_token := None\<rparr>))"
    "\<not> truthy_str (pm_token (tokenRef\<lparr>pm_token := None\<rparr>))"
    "pm_type (tokenRef\<lparr>pm_token := None\<rparr>) \<noteq> Some ''manual''"
    by (simp_all add: tokenRef_def truthy_str_def)
  from createOrder_payment_method_required[of "(donation 500)\<lparr>oi_paymentMethod := None\<rparr>"
         None webpack env0 None db0 "cache db0" "Some alice" None db0 7] l c r pr
  have a: "createOrder env0 7 ((donation 500)\<lparr>oi_paymentMethod := None\<rparr>) (Some alice) None db0 =
       (Inl (Error ''This order requires a payment method''), db0)"
    by simp
  from createOrder_payment_method_required[of
         "(donation 500)\<lparr>oi_paymentMethod := Some (tokenRef\<lparr>pm_token := None\<rparr>)\<rparr>"
         None webpack env0 None db0 "cache db0" "Some alice" None db0 7] l c r pr m
  have b: "createOrder env0 7 ((donation 500)\<lparr>oi_paymentMethod := Some (tokenRef\<lparr>pm_token := None\<rparr>)\<rparr>)
       (Some alice) None db0 =
       (Inl (Error ''This order requires a payment method''), db0)"
    by simp
  from donation_resolve pr a b show ?thesis by simp
qed

text \<open>
  C6, as stated, does not hold. The limit per user is enforced only when it is positive:
  three tickets of a tier whose \<open>maxQuantityPerUser\<close> is 0 are sold. And the payment
  reference is checked first: three tickets of a paid tier that allows two, requested
  without a payment method, are refused for the missing payment method, not for the
  quantity.
\<close>

theorem createOrder_quantity_limit_counterexample:
  "findTier db0 1 = Some freeTicket \<and> oi_tier freeRequest = Some \<lparr>tr_id = Given 1\<rparr>
   \<and> num_gt (oi_quantity freeRequest) (tier_maxQuantityPerUser freeTicket)
   \<and> fst (createOrder env0 7 freeRequest (Some alice) None db0) =
       Inr (freeOrderData\<lparr>order_id := 2, order_status := PAID\<rparr>)
   \<and> findTier db0 2 = Some paidTicket \<and> oi_tier paidRequest = Some \<lparr>tr_id = Given 2\<rparr>
   \<and> num_gt (oi_quantity paidRequest) (tier_maxQuantityPerUser paidTicket)
   \<and> fst (createOrder env0 7 paidRequest (Some alice) None db0) =
       Inl (Error ''This order requires a payment method'')
   \<and> Error ''This order requires a payment method'' \<noteq> quantityError env0 paidTicket"
proof -
  have t: "findTier db0 1 = Some freeTicket" "findTier db0 2 = Some paidTicket"
    by (simp_all add: findTier_def db0_def freeTicket_def paidTicket_def)
  have o: "oi_tier freeRequest = Some \<lparr>tr_id = Given 1\<rparr>" "oi_tier paidRequest = Some \<lparr>tr_id = Given 2\<rparr>"
    by (simp_all add: freeRequest_def paidRequest_def emptyOrder_def)
  have q: "num_gt (oi_quantity freeRequest) (tier_maxQuantityPerUser freeTicket)"
    "num_gt (oi_quantity paidRequest) (tier_maxQuantityPerUser paidTicket)"
    by (simp_all add: num_gt_def freeRequest_def paidRequest_def emptyOrder_def freeTicket_def paidTicket_def)
  have d: "Error ''This order requires a payment method'' \<noteq> quantityError env0 paidTicket"
    by (simp add: quantityError_def paidTicket_def)
  from t o q d freeRequest_run paidRequest_no_method show ?thesis by simp
qed

text \<open>
  C6, amended. A call that resolves a tier whose \<open>maxQuantityPerUser\<close> is positive,
  that asks for a larger quantity, and that has passed the payment reference check
  (payment not required, or a uuid, a token or the type \<open>manual\<close> supplied) fails with the
  quantity error \<open>You can buy up to m ... per person\<close>, whatever the payment method is
  worth: no order row is created and nothing is handed to \<^verbatim>\<open>executeOrder\<close>.
\<close>

theorem createOrder_quantity_limit:
  assumes limit: "checkOrdersLimit e order reqIp (cache s) = (None, c)"
    and captcha: "checkRecaptcha e order remoteUser reqIp = Inr rr"
    and resolve: "createOrder_resolve e order remoteUser (s\<lparr>cache := c\<rparr>) = (Inr (collective, Some t), s1)"
    and pm: "\<not> (paymentRequired order (Some t) collective \<and> paymentRefMissing (oi_paymentMethod order))"
    and cap: "tier_maxQuantityPerUser t = Some m" "0 < m"
    and q: "oi_quantity order = Some n" "m < n"
  shows "createOrder e now order remoteUser reqIp s = (Inl (quantityError e t), s1) \<and>
         quantityError e t =
           Error (''You can buy up to '' @ num_str m @ '' '' @ pluralize e ''ticket'' m @ '' per person'') \<and>
         orders s1 = orders s \<and> executed s1 = executed s"
proof -
  have chk: "checkPaymentAndQuantity e order (Some t) collective s1 = Some (quantityError e t)"
    using pm cap q by (auto simp: checkPaymentAndQuantity_def checkPaymentReference_def checkQuantity_def gt0_def num_gt_def)
  from createOrder_rejected[OF limit captcha resolve chk, of now] cap
  show ?thesis by (simp add: quantityError_def)
qed

theorem createOrder_quantity_limit_witness:
  "createOrder_resolve env0 (paidRequest\<lparr>oi_paymentMethod := Some tokenRef\<rparr>) (Some alice) db0 =
     (Inr (meetup, Some paidTicket), db0)
   \<and> tier_maxQuantityPerUser paidTicket = Some 2
   \<and> oi_quantity (paidRequest\<lparr>oi_paymentMethod := Some tokenRef\<rparr>) = Some 3
   \<and> createOrder env0 7 (paidRequest\<lparr>oi_paymentMethod := Some tokenRef\<rparr>) (Some alice) None db0 =
       (Inl (Error ''You can buy up to 2 tickets per person''), db0)"
proof -
  have l: "checkOrdersLimit env0 (paidRequest\<lparr>oi_paymentMethod := Some tokenRef\<rparr>) None (cache db0) =
           (None, cache db0)"
    by (simp add: no_limit_keys paidRequest_fields)
  have c: "checkRecaptcha env0 (paidRequest\<lparr>oi_paymentMethod := Some tokenRef\<rparr>) (Some alice) None = Inr None"
    by (simp add: alice_captcha paidRequest_fields)
  have r: "createOrder_resolve env0 (paidRequest\<lparr>oi_paymentMethod := Some tokenRef\<rparr>) (Some alice)
             (db0\<lparr>cache := cache db0\<rparr>) = (Inr (meetup, Some paidTicket), db0)"
    by (simp add: paidRequest_resolve)
  have pm: "\<not> (paymentRequired (paidRequest\<lparr>oi_paymentMethod := Some tokenRef\<rparr>) (Some paidTicket) meetup \<and>
               paymentRefMissing (oi_paymentMethod (paidRequest\<lparr>oi_paymentMethod := Some tokenRef\<rparr>)))"
    by (simp add: paymentRefMissing_def tokenRef_def truthy_str_def)
  have cap: "tier_maxQuantityPerUser paidTicket = Some 2" "(0::int) < 2"
    by (simp_all add: paidTicket_def)
  have q: "oi_quantity (paidRequest\<lparr>oi_paymentMethod := Some tokenRef\<rparr>) = Some 3" "(2::int) < 3"
    by (simp_all add: paidRequest_fields)
  have msg: "''You can buy up to '' @ num_str 2 @ '' '' @ pluralize env0 ''ticket'' 2 @ '' per person'' =
             ''You can buy up to 2 tickets per person''"
    by (simp add: num_str_2 env0_def)
  from createOrder_quantity_limit[OF l c r pm cap q, of 7] msg
  have "createOrder env0 7 (paidRequest\<lparr>oi_paymentMethod := Some tokenRef\<rparr>) (Some alice) None db0 =
       (Inl (Error ''You can buy up to 2 tickets per person''), db0)"
    by simp
  with paidRequest_resolve cap(1) q(1) show ?thesis by simp
qed

subsection \<open>createOrder: free tickets and errors after the order is stored\<close>

lemma prepare_draft:
  assumes "createOrder_prepare e now order remoteUser reqIp rr collective tier s = (Inr d, s1)"
  shows "d_collective d = collective \<and> d_tier d = tier"
  using assms unfolding createOrder_prepare_def
  by (auto split: sum.splits prod.splits)

lemma freeRequest_resolveTarget:
  "createOrder_resolveTarget env0 freeRequest (Some alice) db0 = (Inr (meetup, Some freeTicket), db0)"
  by (simp add: createOrder_resolveTarget_def checkTarget_def resolveCollective_def resolveTier_def
        findCollective_def findTier_def truthy_int_def truthy_str_def
        freeRequest_def emptyOrder_def toCollective_def db0_def
        aliceProfile_def webpack_def meetup_def freeTicket_def paidTicket_def)

lemma freeRequest_quantity: "checkQuantity env0 freeRequest (Some freeTicket) db0 = None"
  by (simp add: checkQuantity_def gt0_def num_gt_def freeTicket_def env0_def)

lemma freeRequest_prepare:
  "createOrder_prepare env0 7 freeRequest (Some alice) None None meetup (Some freeTicket) db0 =
     (Inr freeDraft, db0)"
  unfolding createOrder_prepare_def
  by (simp add: paymentRequired_def gt0_def
        resolveUser_def resolveFromCollective_def resolveMatchingFund_def buildOrderData_def
        orderData_def orderCurrency_def
        findCollective_def truthy_int_def truthy_str_def Let_def
        freeRequest_def emptyOrder_def toCollective_def db0_def env0_def alice_def
        aliceProfile_def webpack_def meetup_def freeTicket_def freeDraft_def freeOrderData_def)

text \<open>
  C4. A request with \<open>totalAmount = 0\<close> that passes the limiter and the recaptcha check,
  carries no payment method (or comes from a logged-in user), resolves to a collective of
  type \<open>EVENT\<close> and to no tier or a tier whose amount is not above zero (lines 127-216),
  passes the quantity checks (lines 228-239) and for which the user, the account and the
  values of the row are settled (lines 241-366). Then payment is not required, the two
  checks on the payment method (lines 123-125 and 220-226) pass although none is
  supplied, and the call succeeds: the order returned is the stored row, with status
  \<open>PAID\<close> and \<open>processedAt\<close> set to the time of the call; the acting user has an
  \<open>ATTENDEE\<close> member row on the collective; a \<open>TICKET_CONFIRMED\<close> activity for the order
  and the event is recorded; nothing is handed to \<^verbatim>\<open>executeOrder\<close> and no payment method
  is stored.
\<close>

theorem createOrder_free_event:
  assumes limit: "checkOrdersLimit e order reqIp (cache s) = (None, c)"
    and captcha: "checkRecaptcha e order remoteUser reqIp = Inr rr"
    and nopm: "oi_paymentMethod order = None \<or> remoteUser \<noteq> None"
    and target: "createOrder_resolveTarget e order remoteUser (s\<lparr>cache := c\<rparr>) =
                   (Inr (collective, tier), s1)"
    and quantity: "checkQuantity e order tier s1 = None"
    and prepare: "createOrder_prepare e now order remoteUser reqIp rr collective tier s1 = (Inr d, s2)"
    and zero: "oi_totalAmount order = Some 0"
    and free: "tier = None \<or> (\<exists>t. tier = Some t \<and> \<not> gt0 (tier_amount t))"
    and event: "col_type collective = EVENT"
  shows "\<not> paymentRequired order tier collective \<and>
         checkPaymentMethodOnFile order remoteUser = None \<and>
         checkPaymentReference order tier collective = None \<and>
         (\<exists>r u s3. createOrder e now order remoteUser reqIp s = (Inr r, s3) \<and>
            order_status r = PAID \<and> order_processedAt r = Some now \<and>
            findOrder s3 (order_id r) = Some r \<and>
            d_user d = Some u \<and>
            \<lparr>mem_CollectiveId = col_id collective, mem_MemberCollectiveId = user_CollectiveId u,
              mem_CreatedByUserId = user_id u, mem_role = ATTENDEE\<rparr> \<in> set (members s3) \<and>
            (\<exists>a\<in>set (activities s3). act_type a = TICKET_CONFIRMED \<and>
               act_EventCollectiveId a = Some (col_id collective) \<and>
               act_order a = Some (order_id r)) \<and>
            executed s3 = executed s2 \<and> paymentMethods s3 = paymentMethods s2)"
proof -
  from zero free have npr: "\<not> paymentRequired order tier collective"
    by (auto simp: paymentRequired_def gt0_def)
  from nopm have onfile: "checkPaymentMethodOnFile order remoteUser = None"
    by (auto simp: checkPaymentMethodOnFile_def)
  from npr have ref: "checkPaymentReference order tier collective = None"
    by (simp add: checkPaymentReference_def)
  have valid: "createOrder_validate e now order remoteUser reqIp rr (s\<lparr>cache := c\<rparr>) = (Inr d, s2)"
    by (simp add: createOrder_validate_def createOrder_resolve_def onfile target
          checkPaymentAndQuantity_def ref quantity prepare)
  from prepare_draft[OF prepare] have dc: "d_collective d = collective" and dt: "d_tier d = tier"
    by simp_all
  from validate_draft[OF valid]
  have pr: "d_paymentRequired d = paymentRequired order (d_tier d) (d_collective d)"
    and usr: "d_user d \<noteq> None" by simp_all
  from pr npr dc dt have np: "\<not> d_paymentRequired d" by simp
  from event dc have ev: "col_type (d_collective d) = EVENT" by simp
  from usr obtain u where u: "d_user d = Some u" by blast
  let ?nid = "newId (map order_id (orders s2))"
  let ?r = "(d_orderData d)\<lparr>order_id := ?nid, order_status := PAID, order_processedAt := Some now\<rparr>"
  from execute_free_event[OF np ev u, of e now order remoteUser s2]
  obtain s3 where run: "createOrder_execute e now order remoteUser d s2 = (Inr ?r, Some ?r, s3)"
    and ords: "orders s3 = orders s2 @ [?r]"
    and acts: "activities s3 = activities s2 @
           [\<lparr>act_type = TICKET_CONFIRMED, act_CollectiveId = None, act_UserId = None,
             act_EventCollectiveId = Some (col_id (d_collective d)),
             act_dataUserId = Some (case remoteUser of Some ru \<Rightarrow> user_id ru | None \<Rightarrow> user_id u),
             act_order = Some ?nid, act_subscription = None\<rparr>]"
    and mem: "\<lparr>mem_CollectiveId = col_id (d_collective d), mem_MemberCollectiveId = user_CollectiveId u,
           mem_CreatedByUserId = user_id u, mem_role = ATTENDEE\<rparr> \<in> set (members s3)"
    and ex: "executed s3 = executed s2" "paymentMethods s3 = paymentMethods s2"
    by blast
  have res: "createOrder e now order remoteUser reqIp s = (Inr ?r, s3)"
    unfolding createOrder_run[OF limit captcha]
    by (simp add: createOrder_try_def valid run createOrder_catch_def)
  have fnd: "findOrder s3 (order_id ?r) = Some ?r"
    using find_fresh[of ?nid order_id "orders s2"] newId_not_in[of order_id "orders s2"]
    by (simp add: findOrder_def ords find_snoc_new)
  have act: "\<exists>a\<in>set (activities s3). act_type a = TICKET_CONFIRMED \<and>
              act_EventCollectiveId a = Some (col_id collective) \<and>
              act_order a = Some (order_id ?r)"
    by (simp add: acts dc)
  from mem dc
  have mem': "\<lparr>mem_CollectiveId = col_id collective, mem_MemberCollectiveId = user_CollectiveId u,
           mem_CreatedByUserId = user_id u, mem_role = ATTENDEE\<rparr> \<in> set (members s3)"
    by simp
  from res fnd act mem' ex u
  have "\<exists>r u s3. createOrder e now order remoteUser reqIp s = (Inr r, s3) \<and>
            order_status r = PAID \<and> order_processedAt r = Some now \<and>
            findOrder s3 (order_id r) = Some r \<and>
            d_user d = Some u \<and>
            \<lparr>mem_CollectiveId = col_id collective, mem_MemberCollectiveId = user_CollectiveId u,
              mem_CreatedByUserId = user_id u, mem_role = ATTENDEE\<rparr> \<in> set (members s3) \<and>
            (\<exists>a\<in>set (activities s3). act_type a = TICKET_CONFIRMED \<and>
               act_EventCollectiveId a = Some (col_id collective) \<and>
               act_order a = Some (order_id r)) \<and>
            executed s3 = executed s2 \<and> paymentMethods s3 = paymentMethods s2"
    by simp
  with npr onfile ref show ?thesis by simp
qed

theorem createOrder_free_event_witness:
  "checkOrdersLimit env0 freeRequest None (cache db0) = (None, cache db0)
   \<and> checkRecaptcha env0 freeRequest (Some alice) None = Inr None
   \<and> oi_paymentMethod freeRequest = None
   \<and> createOrder_resolveTarget env0 freeRequest (Some alice) db0 = (Inr (meetup, Some freeTicket), db0)
   \<and> checkQuantity env0 freeRequest (Some freeTicket) db0 = None
   \<and> createOrder_prepare env0 7 freeRequest (Some alice) None None meetup (Some freeTicket) db0 =
       (Inr freeDraft, db0)
   \<and> oi_totalAmount freeRequest = Some 0
   \<and> \<not> gt0 (tier_amount freeTicket)
   \<and> col_type meetup = EVENT
   \<and> checkPaymentReference freeRequest (Some freeTicket) meetup = None
   \<and> (\<exists>r s2. createOrder env0 7 freeRequest (Some alice) None db0 = (Inr r, s2) \<and>
         order_status r = PAID \<and> order_processedAt r = Some 7 \<and>
         \<lparr>mem_CollectiveId = 30, mem_MemberCollectiveId = 10, mem_CreatedByUserId = 1,
           mem_role = ATTENDEE\<rparr> \<in> set (members s2) \<and>
         (\<exists>a\<in>set (activities s2). act_type a = TICKET_CONFIRMED \<and>
            act_EventCollectiveId a = Some 30 \<and> act_order a = Some (order_id r)) \<and>
         executed s2 = [] \<and> paymentMethods s2 = paymentMethods db0)"
proof -
  have t: "createOrder_resolveTarget env0 freeRequest (Some alice) (db0\<lparr>cache := cache db0\<rparr>) =
           (Inr (meetup, Some freeTicket), db0)"
    by (simp add: freeRequest_resolveTarget)
  have z: "oi_totalAmount freeRequest = Some 0" "oi_paymentMethod freeRequest = None"
    by (simp_all add: freeRequest_def emptyOrder_def)
  have n: "oi_paymentMethod freeRequest = None \<or> Some alice \<noteq> None" using z by simp
  have g: "\<not> gt0 (tier_amount freeTicket)" by (simp add: freeTicket_def gt0_def)
  have f: "Some freeTicket = None \<or> (\<exists>t. Some freeTicket = Some t \<and> \<not> gt0 (tier_amount t))"
    using g by simp
  have ev: "col_type meetup = EVENT" by (simp add: meetup_def)
  have ids: "col_id meetup = 30" "d_user freeDraft = Some alice"
    "user_CollectiveId alice = 10" "user_id alice = 1" "executed db0 = []"
    by (simp_all add: freeDraft_def meetup_def alice_def db0_def)
  note r = createOrder_free_event[OF freeRequest_limit freeRequest_captcha n t freeRequest_quantity
             freeRequest_prepare z(1) f ev]
  from r have ref: "checkPaymentReference freeRequest (Some freeTicket) meetup = None" by simp
  from r ids
  have run: "\<exists>r s2. createOrder env0 7 freeRequest (Some alice) None db0 = (Inr r, s2) \<and>
         order_status r = PAID \<and> order_processedAt r = Some 7 \<and>
         \<lparr>mem_CollectiveId = 30, mem_MemberCollectiveId = 10, mem_CreatedByUserId = 1,
           mem_role = ATTENDEE\<rparr> \<in> set (members s2) \<and>
         (\<exists>a\<in>set (activities s2). act_type a = TICKET_CONFIRMED \<and>
            act_EventCollectiveId a = Some 30 \<and> act_order a = Some (order_id r)) \<and>
         executed s2 = [] \<and> paymentMethods s2 = paymentMethods db0"
    by simp blast
  from freeRequest_limit freeRequest_captcha z freeRequest_resolveTarget freeRequest_quantity
    freeRequest_prepare g ev ref run
  show ?thesis by simp
qed

text \<open>
  C1. When the order row has been created, so that \<open>orderCreated\<close> is set, and the
  \<^verbatim>\<open>try\<close> block then ends in an error: the caller gets that same error; if
  \<open>processedAt\<close> of the instance is not set, every row of that id gets status \<open>ERROR\<close>
  and the other rows are as the \<^verbatim>\<open>try\<close> block left them; if \<open>processedAt\<close> is set, the
  database is exactly as the \<^verbatim>\<open>try\<close> block left it, so the status is unchanged.
  By \<open>createOrder_try_persisted\<close>, \<open>orderCreated\<close> is set exactly when the row has
  been created.
\<close>

theorem createOrder_error_after_persist:
  assumes limit: "checkOrdersLimit e order reqIp (cache s) = (None, c)"
    and captcha: "checkRecaptcha e order remoteUser reqIp = Inr rr"
    and body: "createOrder_try e now order remoteUser reqIp rr (s\<lparr>cache := c\<rparr>) =
               (Inl err, Some orderCreated, s')"
  shows "fst (createOrder e now order remoteUser reqIp s) = Inl err
       \<and> (order_processedAt orderCreated = None \<longrightarrow>
            snd (createOrder e now order remoteUser reqIp s) =
              updateOrderFields s' (order_id orderCreated) (\<lambda>r. r\<lparr>order_status := ERROR\<rparr>) \<and>
            (\<forall>r\<in>set (orders (snd (createOrder e now order remoteUser reqIp s))).
               order_id r = order_id orderCreated \<longrightarrow> order_status r = ERROR) \<and>
            (\<forall>r\<in>set (orders (snd (createOrder e now order remoteUser reqIp s))).
               order_id r \<noteq> order_id orderCreated \<longrightarrow> r \<in> set (orders s')))
       \<and> (order_processedAt orderCreated \<noteq> None \<longrightarrow>
            snd (createOrder e now order remoteUser reqIp s) = s')"
proof -
  have run: "createOrder e now order remoteUser reqIp s =
             (Inl err, if order_processedAt orderCreated = None
                       then updateOrderFields s' (order_id orderCreated) (\<lambda>r. r\<lparr>order_status := ERROR\<rparr>)
                       else s')"
    unfolding createOrder_run[OF limit captcha] body
    by (simp add: createOrder_catch_def)
  show ?thesis
    unfolding run using updateOrderFields_error[of _ s' "order_id orderCreated"]
    by simp
qed

theorem createOrder_error_after_persist_witness:
  "createOrder_try env0 7 (donation 666) (Some alice) None None db0 =
     (Inl (Error ''Your card was declined.''), Some (donationRow 666),
      db0\<lparr>orders := [order1, donationRow 666], executed := [2]\<rparr>)
   \<and> order_processedAt (donationRow 666) = None
   \<and> fst (createOrder env0 7 (donation 666) (Some alice) None db0) = Inl (Error ''Your card was declined.'')
   \<and> map order_status (orders (snd (createOrder env0 7 (donation 666) (Some alice) None db0))) =
       [ACTIVE, ERROR]
   \<and> createOrder_try env0 7 (donation 777) (Some alice) None None db0 =
     (Inl (Error ''The confirmation could not be sent''),
      Some ((donationRow 777)\<lparr>order_status := PAID, order_processedAt := Some 1\<rparr>),
      db0\<lparr>orders := [order1, (donationRow 777)\<lparr>order_status := PAID, order_processedAt := Some 1\<rparr>],
          executed := [2]\<rparr>)
   \<and> fst (createOrder env0 7 (donation 777) (Some alice) None db0) =
       Inl (Error ''The confirmation could not be sent'')
   \<and> map order_status (orders (snd (createOrder env0 7 (donation 777) (Some alice) None db0))) =
       [ACTIVE, PAID]"
proof -
  have l: "\<And>a. checkOrdersLimit env0 (donation a) None (cache db0) = (None, cache db0)"
    by (simp add: no_limit_keys donation_fields)
  have c: "\<And>a. checkRecaptcha env0 (donation a) (Some alice) None = Inr None"
    by (simp add: alice_captcha donation_fields)
  have b1: "createOrder_try env0 7 (donation 666) (Some alice) None None (db0\<lparr>cache := cache db0\<rparr>) =
     (Inl (Error ''Your card was declined.''), Some (donationRow 666),
      db0\<lparr>orders := [order1, donationRow 666], executed := [2]\<rparr>)"
    by (simp add: donation_declined)
  have b2: "createOrder_try env0 7 (donation 777) (Some alice) None None (db0\<lparr>cache := cache db0\<rparr>) =
     (Inl (Error ''The confirmation could not be sent''),
      Some ((donationRow 777)\<lparr>order_status := PAID, order_processedAt := Some 1\<rparr>),
      db0\<lparr>orders := [order1, (donationRow 777)\<lparr>order_status := PAID, order_processedAt := Some 1\<rparr>],
          executed := [2]\<rparr>)"
    by (simp add: donation_charged_then_failed)
  have p1: "order_processedAt (donationRow 666) = None" by (simp add: donationRow_def)
  have p2: "order_processedAt ((donationRow 777)\<lparr>order_status := PAID, order_processedAt := Some 1\<rparr>) \<noteq> None"
    by simp
  have ids: "order_id order1 = 1" "order_id (donationRow 666) = 2" "order_status order1 = ACTIVE"
    by (simp_all add: order1_def donationRow_def)
  from createOrder_error_after_persist[OF l c b1] p1
  have r1: "fst (createOrder env0 7 (donation 666) (Some alice) None db0) = Inl (Error ''Your card was declined.'')"
    and s1: "snd (createOrder env0 7 (donation 666) (Some alice) None db0) =
             updateOrderFields (db0\<lparr>orders := [order1, donationRow 666], executed := [2]\<rparr>)
               (order_id (donationRow 666)) (\<lambda>r. r\<lparr>order_status := ERROR\<rparr>)"
    by simp_all
  from createOrder_error_after_persist[OF l c b2] p2
  have r2: "fst (createOrder env0 7 (donation 777) (Some alice) None db0) =
              Inl (Error ''The confirmation could not be sent'')"
    and s2: "snd (createOrder env0 7 (donation 777) (Some alice) None db0) =
             db0\<lparr>orders := [order1, (donationRow 777)\<lparr>order_status := PAID, order_processedAt := Some 1\<rparr>],
                 executed := [2]\<rparr>"
    by simp_all
  have m1: "map order_status (orders (snd (createOrder env0 7 (donation 666) (Some alice) None db0))) =
       [ACTIVE, ERROR]"
    unfolding s1 by (simp add: updateOrderFields_def ids)
  have m2: "map order_status (orders (snd (createOrder env0 7 (donation 777) (Some alice) None db0))) =
       [ACTIVE, PAID]"
    unfolding s2 by (simp add: ids)
  from donation_declined p1 r1 m1 donation_charged_then_failed r2 m2 show ?thesis by simp
qed

subsection \<open>updateOrder\<close>

text \<open>
  C10. When the submitted total amount is not positive, \<^verbatim>\<open>updateOrder\<close> leaves the
  database as it was. For a logged-in requester and an existing order, when the amount
  is not positive or the order's collective is inactive, the stored row is returned and
  the database is unchanged: nothing is handed to \<^verbatim>\<open>executeOrder\<close>, no payment method
  is bound, no row is modified.
\<close>

theorem updateOrder_payment_not_required:
  "(\<not> gt0 (oi_totalAmount order) \<longrightarrow> snd (updateOrder e remoteUser order s) = s)
   \<and> (\<forall>ru i existingOrder.
        remoteUser = Some ru \<and> oi_id order = Some i \<and> findOrder s i = Some existingOrder \<and>
        (\<not> gt0 (oi_totalAmount order) \<or>
         (\<exists>c. findCollective s (order_CollectiveId existingOrder) = Some c \<and> \<not> col_isActive c))
        \<longrightarrow> updateOrder e remoteUser order s = (Inr existingOrder, s) \<and>
            executed (snd (updateOrder e remoteUser order s)) = executed s \<and>
            orders (snd (updateOrder e remoteUser order s)) = orders s \<and>
            paymentMethods (snd (updateOrder e remoteUser order s)) = paymentMethods s)"
proof (intro conjI allI impI)
  assume "\<not> gt0 (oi_totalAmount order)"
  then show "snd (updateOrder e remoteUser order s) = s"
    by (auto simp: updateOrder_def split: option.splits)
next
  fix ru i existingOrder
  assume a: "remoteUser = Some ru \<and> oi_id order = Some i \<and> findOrder s i = Some existingOrder \<and>
        (\<not> gt0 (oi_totalAmount order) \<or>
         (\<exists>c. findCollective s (order_CollectiveId existingOrder) = Some c \<and> \<not> col_isActive c))"
  then have "order_id existingOrder = i" by (auto dest: findOrder_id)
  with a have r: "updateOrder e remoteUser order s = (Inr existingOrder, s)"
    by (auto simp: updateOrder_def)
  show "updateOrder e remoteUser order s = (Inr existingOrder, s)" by (rule r)
  show "executed (snd (updateOrder e remoteUser order s)) = executed s" by (simp add: r)
  show "orders (snd (updateOrder e remoteUser order s)) = orders s" by (simp add: r)
  show "paymentMethods (snd (updateOrder e remoteUser order s)) = paymentMethods s" by (simp add: r)
qed

theorem updateOrder_payment_not_required_witness:
  "findOrder db0 1 = Some order1
   \<and> updateOrder env0 (Some alice)
       (emptyOrder\<lparr>oi_id := Some 1, oi_totalAmount := Some 0, oi_paymentMethod := Some tokenRef\<rparr>) db0 =
       (Inr order1, db0)
   \<and> findCollective (db0\<lparr>collectives := [webpack\<lparr>col_isActive := False\<rparr>]\<rparr>) 20 =
       Some (webpack\<lparr>col_isActive := False\<rparr>)
   \<and> updateOrder env0 (Some alice)
       (emptyOrder\<lparr>oi_id := Some 1, oi_totalAmount := Some 5000, oi_paymentMethod := Some tokenRef\<rparr>)
       (db0\<lparr>collectives := [webpack\<lparr>col_isActive := False\<rparr>]\<rparr>) =
       (Inr order1, db0\<lparr>collectives := [webpack\<lparr>col_isActive := False\<rparr>]\<rparr>)"
proof -
  have f: "findOrder db0 1 = Some order1" by (simp add: findOrder_def db0_def order1_def)
  have f': "findOrder (db0\<lparr>collectives := [webpack\<lparr>col_isActive := False\<rparr>]\<rparr>) 1 = Some order1"
    by (simp add: findOrder_def db0_def order1_def)
  have c: "findCollective (db0\<lparr>collectives := [webpack\<lparr>col_isActive := False\<rparr>]\<rparr>) 20 =
       Some (webpack\<lparr>col_isActive := False\<rparr>)"
    by (simp add: findCollective_def webpack_def)
  have cid: "order_CollectiveId order1 = 20" by (simp add: order1_def)
  have z: "\<not> gt0 (oi_totalAmount (emptyOrder\<lparr>oi_id := Some 1, oi_totalAmount := Some 0,
                                    oi_paymentMethod := Some tokenRef\<rparr>))"
    by (simp add: gt0_def)
  from updateOrder_payment_not_required[of
         "emptyOrder\<lparr>oi_id := Some 1, oi_totalAmount := Some 0, oi_paymentMethod := Some tokenRef\<rparr>"
         env0 "Some alice" db0] f z
  have r1: "updateOrder env0 (Some alice)
       (emptyOrder\<lparr>oi_id := Some 1, oi_totalAmount := Some 0, oi_paymentMethod := Some tokenRef\<rparr>) db0 =
       (Inr order1, db0)"
    by simp
  from updateOrder_payment_not_required[of
         "emptyOrder\<lparr>oi_id := Some 1, oi_totalAmount := Some 5000, oi_paymentMethod := Some tokenRef\<rparr>"
         env0 "Some alice" "db0\<lparr>collectives := [webpack\<lparr>col_isActive := False\<rparr>]\<rparr>"] f' c cid
  have r2: "updateOrder env0 (Some alice)
       (emptyOrder\<lparr>oi_id := Some 1, oi_totalAmount := Some 5000, oi_paymentMethod := Some tokenRef\<rparr>)
       (db0\<lparr>collectives := [webpack\<lparr>col_isActive := False\<rparr>]\<rparr>) =
       (Inr order1, db0\<lparr>collectives := [webpack\<lparr>col_isActive := False\<rparr>]\<rparr>)"
    by simp
  from f r1 c r2 show ?thesis by simp
qed

subsection \<open>cancelSubscription\<close>

lemma cancel_unauthorized:
  assumes "findOneOrder s orderId = Some (order, osub)"
    and "remoteUser = None \<or> (\<exists>ru. remoteUser = Some ru \<and> \<not> isAdmin e ru (Some (order_FromCollectiveId order)))"
  shows "\<exists>msg. cancelSubscription e now remoteUser orderId s = (Inl (Unauthorized msg), s)"
  using assms by (auto simp: cancelSubscription_def)

lemma cancel_already:
  assumes "findOneOrder s orderId = Some (order, Some sub)"
    and "\<not> sub_isActive sub" and "order_status order = CANCELLED"
  shows "\<exists>err. cancelSubscription e now remoteUser orderId s = (Inl err, s)"
  using assms by (auto simp: cancelSubscription_def split: option.splits)

lemma cancel_accept:
  assumes f: "findOneOrder s orderId = Some (order, Some sub)"
    and adm: "isAdmin e ru (Some (order_FromCollectiveId order))"
    and nc: "sub_isActive sub \<or> order_status order \<noteq> CANCELLED"
  shows "\<exists>s' a. cancelSubscription e now (Some ru) orderId s =
            (Inr (Some (order\<lparr>order_status := CANCELLED\<rparr>, Some (deactivate now sub))), s') \<and>
          findOneOrder s' orderId = Some (order\<lparr>order_status := CANCELLED\<rparr>, Some (deactivate now sub)) \<and>
          activities s' = activities s @ [a] \<and> act_type a = SUBSCRIPTION_CANCELED \<and>
          act_subscription a = Some (sub_id sub)"
proof -
  from findOneOrder_sub[OF f] have fo: "findOrder s orderId = Some order"
    and sid: "order_SubscriptionId order = Some (sub_id sub)"
    and fs: "findSubscription s (sub_id sub) = Some sub" by auto
  have oid: "order_id order = orderId" using fo by (rule findOrder_id)
  let ?o = "order\<lparr>order_status := CANCELLED\<rparr>"
  let ?s1 = "saveOrder s ?o"
  let ?s2 = "saveSubscription ?s1 (deactivate now sub)"
  have fo1: "findOrder ?s1 orderId = Some ?o" using fo oid by (simp add: findOrder_saveOrder)
  have fs1: "findSubscription ?s1 (sub_id sub) = Some sub"
    using fs by (simp add: findSubscription_def saveOrder_def)
  have fs2: "findSubscription ?s2 (sub_id sub) = Some (deactivate now sub)"
    using fs1 by (simp add: findSubscription_saveSubscription deactivate_def)
  have fo2: "findOrder ?s2 orderId = Some ?o"
    using fo1 by (simp add: findOrder_def saveSubscription_def)
  have f3: "\<And>a. findOneOrder (?s2\<lparr>activities := a\<rparr>) orderId = Some (?o, Some (deactivate now sub))"
    using fo2 fs2 sid by (simp add: findOneOrder_def findOrder_def findSubscription_def)
  show ?thesis
    using f adm nc f3
    by (auto simp: cancelSubscription_def Let_def saveOrder_def saveSubscription_def)
qed

text \<open>
  C7. For an order that exists: a requester who is not logged in, or is not an admin of
  the order's source account (\<open>FromCollectiveId\<close>), gets \<open>Unauthorized\<close> and nothing
  is written. An order that is already cancelled (subscription inactive and status
  \<open>CANCELLED\<close>, the state a cancellation leaves) is rejected for every requester, and no
  activity is added. Otherwise, for an admin, the subscription is deactivated, the order
  becomes \<open>CANCELLED\<close>, exactly one \<open>SUBSCRIPTION_CANCELED\<close> activity is appended, and
  every later cancellation of the same order is rejected without a further activity.
\<close>

theorem cancelSubscription_contract:
  assumes found: "findOneOrder s orderId = Some (order, osub)"
  shows "(remoteUser = None \<or>
            (\<exists>ru. remoteUser = Some ru \<and> \<not> isAdmin e ru (Some (order_FromCollectiveId order)))
          \<longrightarrow> (\<exists>msg. cancelSubscription e now remoteUser orderId s = (Inl (Unauthorized msg), s)))
       \<and> (\<forall>sub. osub = Some sub \<and> \<not> sub_isActive sub \<and> order_status order = CANCELLED
          \<longrightarrow> (\<exists>err. cancelSubscription e now remoteUser orderId s = (Inl err, s)))
       \<and> (\<forall>ru sub. remoteUser = Some ru \<and> isAdmin e ru (Some (order_FromCollectiveId order)) \<and>
                   osub = Some sub \<and> (sub_isActive sub \<or> order_status order \<noteq> CANCELLED)
          \<longrightarrow> (\<exists>s' a. cancelSubscription e now remoteUser orderId s =
                         (Inr (Some (order\<lparr>order_status := CANCELLED\<rparr>, Some (deactivate now sub))), s') \<and>
                       findOneOrder s' orderId =
                         Some (order\<lparr>order_status := CANCELLED\<rparr>, Some (deactivate now sub)) \<and>
                       \<not> sub_isActive (deactivate now sub) \<and>
                       activities s' = activities s @ [a] \<and> act_type a = SUBSCRIPTION_CANCELED \<and>
                       (\<forall>now' again. \<exists>err. cancelSubscription e now' again orderId s' = (Inl err, s'))))"
proof (intro conjI allI impI)
  assume "remoteUser = None \<or>
            (\<exists>ru. remoteUser = Some ru \<and> \<not> isAdmin e ru (Some (order_FromCollectiveId order)))"
  with found show "\<exists>msg. cancelSubscription e now remoteUser orderId s = (Inl (Unauthorized msg), s)"
    by (rule cancel_unauthorized)
next
  fix sub
  assume "osub = Some sub \<and> \<not> sub_isActive sub \<and> order_status order = CANCELLED"
  with found show "\<exists>err. cancelSubscription e now remoteUser orderId s = (Inl err, s)"
    by (auto intro: cancel_already)
next
  fix ru sub
  assume a: "remoteUser = Some ru \<and> isAdmin e ru (Some (order_FromCollectiveId order)) \<and>
             osub = Some sub \<and> (sub_isActive sub \<or> order_status order \<noteq> CANCELLED)"
  with found have f: "findOneOrder s orderId = Some (order, Some sub)" by simp
  from cancel_accept[OF f, of e ru now] a
  obtain s' act where r: "cancelSubscription e now (Some ru) orderId s =
            (Inr (Some (order\<lparr>order_status := CANCELLED\<rparr>, Some (deactivate now sub))), s')"
    and f': "findOneOrder s' orderId = Some (order\<lparr>order_status := CANCELLED\<rparr>, Some (deactivate now sub))"
    and acts: "activities s' = activities s @ [act]" "act_type act = SUBSCRIPTION_CANCELED"
    by blast
  have again: "\<forall>now' again. \<exists>err. cancelSubscription e now' again orderId s' = (Inl err, s')"
    using cancel_already[OF f'] by (simp add: deactivate_def)
  show "\<exists>s' a. cancelSubscription e now remoteUser orderId s =
                         (Inr (Some (order\<lparr>order_status := CANCELLED\<rparr>, Some (deactivate now sub))), s') \<and>
                       findOneOrder s' orderId =
                         Some (order\<lparr>order_status := CANCELLED\<rparr>, Some (deactivate now sub)) \<and>
                       \<not> sub_isActive (deactivate now sub) \<and>
                       activities s' = activities s @ [a] \<and> act_type a = SUBSCRIPTION_CANCELED \<and>
                       (\<forall>now' again. \<exists>err. cancelSubscription e now' again orderId s' = (Inl err, s'))"
    using r f' acts again a by (auto simp: deactivate_def)
qed

theorem cancelSubscription_contract_witness:
  "findOneOrder db0 1 = Some (order1, Some sub5)
   \<and> (\<exists>msg. cancelSubscription env0 9 None 1 db0 = (Inl (Unauthorized msg), db0))
   \<and> (\<exists>s' a. cancelSubscription env0 9 (Some alice) 1 db0 =
                (Inr (Some (order1\<lparr>order_status := CANCELLED\<rparr>, Some (deactivate 9 sub5))), s') \<and>
              activities s' = activities db0 @ [a] \<and> act_type a = SUBSCRIPTION_CANCELED \<and>
              (\<forall>now' again. \<exists>err. cancelSubscription env0 now' again 1 s' = (Inl err, s')))
   \<and> findOneOrder dbCancelled 1 =
       Some (order1\<lparr>order_status := CANCELLED\<rparr>, Some (sub5\<lparr>sub_isActive := False, sub_deactivatedAt := Some 8\<rparr>))
   \<and> (\<exists>err. cancelSubscription env0 9 (Some alice) 1 dbCancelled = (Inl err, dbCancelled))"
proof -
  have h: "findOneOrder db0 1 = Some (order1, Some sub5)"
    by (simp add: findOneOrder_def findOrder_def findSubscription_def db0_def order1_def sub5_def)
  have hc: "findOneOrder dbCancelled 1 =
       Some (order1\<lparr>order_status := CANCELLED\<rparr>, Some (sub5\<lparr>sub_isActive := False, sub_deactivatedAt := Some 8\<rparr>))"
    by (simp add: findOneOrder_def findOrder_def findSubscription_def dbCancelled_def db0_def order1_def sub5_def)
  have adm: "isAdmin env0 alice (Some (order_FromCollectiveId order1))"
    by (simp add: env0_def alice_def order1_def)
  have act: "sub_isActive sub5" by (simp add: sub5_def)
  show ?thesis
    using h hc adm act
      cancelSubscription_contract[OF h, of None env0 9]
      cancelSubscription_contract[OF h, of "Some alice" env0 9]
      cancelSubscription_contract[OF hc, of "Some alice" env0 9]
    by auto
qed

subsection \<open>updateSubscription\<close>

lemma load_found:
  assumes "updateSubscription_load e remoteUser i s = Inr (order, sub)"
  shows "findOrder s (order_id order) = Some order \<and> findSubscription s (sub_id sub) = Some sub \<and>
         sub_isActive sub \<and> order_id order = i"
proof -
  from assms have "findOneOrder s i = Some (order, Some sub) \<and> sub_isActive sub"
    by (auto simp: updateSubscription_load_def split: option.splits if_splits)
  then show ?thesis using findOneOrder_sub[of s i order sub] findOrder_id[of s i order] by auto
qed

lemma paymentMethod_found:
  assumes fo: "findOrder s (order_id order) = Some order"
    and fs: "findSubscription s (sub_id sub) = Some sub"
    and r: "updateSubscription_paymentMethod e p (order, sub) s = (Inr (order', sub'), s1)"
  shows "findOrder s1 (order_id order') = Some order' \<and> findSubscription s1 (sub_id sub') = Some sub'"
proof -
  from r obtain newPm sA where
    o': "order' = order\<lparr>order_PaymentMethodId := Some (pmr_id newPm)\<rparr>" and
    sub': "sub' = (if 0 < sub_chargeRetryCount sub then
                     sub\<lparr>sub_nextChargeDate := getNextChargeDate e ''updated'' order sub,
                         sub_chargeRetryCount := getChargeRetryCount e ''updated'' order sub\<rparr>
                   else sub)" and
    s1: "s1 = saveOrder (if 0 < sub_chargeRetryCount sub then saveSubscription sA sub' else sA) order'" and
    sA: "sA = s \<or> sA = s\<lparr>paymentMethods := paymentMethods s @ [newPm]\<rparr>"
    unfolding updateSubscription_paymentMethod_def Let_def
    by (auto split: if_splits option.splits sum.splits prod.splits)
  have foA: "findOrder sA (order_id order) = Some order" using sA fo by auto
  have fsA: "findSubscription sA (sub_id sub) = Some sub" using sA fs by auto
  have id': "order_id order' = order_id order" "sub_id sub' = sub_id sub"
    using o' sub' by auto
  have "findOrder s1 (order_id order) = Some order'"
    unfolding s1 using foA id' by (auto intro: findOrder_saveOrder)
  moreover have "findSubscription s1 (sub_id sub) = Some sub'"
    unfolding s1 using fsA id' sub' by (auto intro: findSubscription_saveSubscription)
  ultimately show ?thesis using id' by simp
qed

lemma amount_reject:
  "Some amount = sub_amount sub \<or> amount < 100 \<or> amount mod 100 \<noteq> 0 \<Longrightarrow>
   \<exists>err. updateSubscription_amount now amount (order, sub) s = (Inl err, s)"
  by (auto simp: updateSubscription_amount_def)

lemma amount_accept:
  assumes fo: "findOrder s (order_id order) = Some order"
    and fs: "findSubscription s (sub_id sub) = Some sub"
    and ok: "\<not> (Some amount = sub_amount sub \<or> amount < 100 \<or> amount mod 100 \<noteq> 0)"
  shows "\<exists>newOrder newSub s'.
           updateSubscription_amount now amount (order, sub) s = (Inr newOrder, s') \<and>
           orders s' = orders (saveOrder s (order\<lparr>order_status := CANCELLED\<rparr>)) @ [newOrder] \<and>
           subscriptions s' = subscriptions (saveSubscription s (deactivate now sub)) @ [newSub] \<and>
           findSubscription s' (sub_id sub) = Some (deactivate now sub) \<and>
           findOrder s' (order_id order) = Some (order\<lparr>order_status := CANCELLED\<rparr>) \<and>
           findSubscription s' (sub_id newSub) = Some newSub \<and>
           findOrder s' (order_id newOrder) = Some newOrder \<and>
           sub_id newSub \<notin> sub_id ` set (subscriptions s) \<and>
           order_id newOrder \<notin> order_id ` set (orders s) \<and>
           sub_isActive newSub \<and> sub_amount newSub = Some amount \<and>
           order_status newOrder = PENDING \<and> order_totalAmount newOrder = Some amount \<and>
           order_SubscriptionId newOrder = Some (sub_id newSub)"
proof -
  let ?sub1 = "deactivate now sub"
  let ?o1 = "order\<lparr>order_status := CANCELLED\<rparr>"
  let ?subs = "subscriptions (saveSubscription s ?sub1)"
  let ?ords = "orders (saveOrder s ?o1)"
  let ?nsid = "newId (map sub_id ?subs)"
  let ?noid = "newId (map order_id ?ords)"
  let ?newSub = "?sub1\<lparr>sub_id := ?nsid, sub_deactivatedAt := None, sub_amount := Some amount,
                     sub_updatedAt := Some now, sub_activatedAt := Some now, sub_isActive := True\<rparr>"
  let ?newOrder = "?o1\<lparr>order_id := ?noid, order_totalAmount := Some amount,
                       order_SubscriptionId := Some ?nsid, order_updatedAt := Some now,
                       order_status := PENDING\<rparr>"
  let ?s' = "s\<lparr>subscriptions := ?subs @ [?newSub], orders := ?ords @ [?newOrder]\<rparr>"
  have res: "updateSubscription_amount now amount (order, sub) s = (Inr ?newOrder, ?s')"
    using ok by (simp add: updateSubscription_amount_def Let_def saveOrder_def saveSubscription_def)
  have sid1: "sub_id ?sub1 = sub_id sub" by (simp add: deactivate_def)
  have fs1: "find (\<lambda>r. sub_id r = sub_id sub) ?subs = Some ?sub1"
    using findSubscription_saveSubscription[OF fs sid1] by (simp add: findSubscription_def)
  have fo1: "find (\<lambda>r. order_id r = order_id order) ?ords = Some ?o1"
    using findOrder_saveOrder[OF fo, of ?o1] by (simp add: findOrder_def)
  have ids_s: "map sub_id ?subs = map sub_id (subscriptions s)"
    using map_replace_ids[of sub_id ?sub1 "sub_id sub" "subscriptions s"]
    by (simp add: saveSubscription_def deactivate_def)
  have ids_o: "map order_id ?ords = map order_id (orders s)"
    using map_replace_ids[of order_id ?o1 "order_id order" "orders s"]
    by (simp add: saveOrder_def)
  have fresh_s: "?nsid \<notin> sub_id ` set ?subs" by (rule newId_not_in)
  have fresh_o: "?noid \<notin> order_id ` set ?ords" by (rule newId_not_in)
  have fresh_s0: "?nsid \<notin> sub_id ` set (subscriptions s)"
    using fresh_s ids_s by (metis list.set_map)
  have fresh_o0: "?noid \<notin> order_id ` set (orders s)"
    using fresh_o ids_o by (metis list.set_map)
  have c1: "findSubscription ?s' (sub_id sub) = Some ?sub1"
    using fs1 by (simp add: findSubscription_def find_snoc_old)
  have c2: "findOrder ?s' (order_id order) = Some ?o1"
    using fo1 by (simp add: findOrder_def find_snoc_old)
  have c3: "findSubscription ?s' ?nsid = Some ?newSub"
    using find_fresh[OF fresh_s] by (simp add: findSubscription_def find_snoc_new)
  have c4: "findOrder ?s' ?noid = Some ?newOrder"
    using find_fresh[OF fresh_o] by (simp add: findOrder_def find_snoc_new)
  have "updateSubscription_amount now amount (order, sub) s = (Inr ?newOrder, ?s') \<and>
           orders ?s' = ?ords @ [?newOrder] \<and>
           subscriptions ?s' = ?subs @ [?newSub] \<and>
           findSubscription ?s' (sub_id sub) = Some ?sub1 \<and>
           findOrder ?s' (order_id order) = Some ?o1 \<and>
           findSubscription ?s' (sub_id ?newSub) = Some ?newSub \<and>
           findOrder ?s' (order_id ?newOrder) = Some ?newOrder \<and>
           sub_id ?newSub \<notin> sub_id ` set (subscriptions s) \<and>
           order_id ?newOrder \<notin> order_id ` set (orders s) \<and>
           sub_isActive ?newSub \<and> sub_amount ?newSub = Some amount \<and>
           order_status ?newOrder = PENDING \<and> order_totalAmount ?newOrder = Some amount \<and>
           order_SubscriptionId ?newOrder = Some (sub_id ?newSub)"
    using res c1 c2 c3 c4 fresh_s0 fresh_o0 by simp
  then show ?thesis by blast
qed

text \<open>
  C9. When the subscription of the order is not active, every call of
  \<^verbatim>\<open>updateSubscription\<close> ends in an error and leaves the database as it was, whatever
  payment method or amount it carries; for a requester who is an admin of the order's
  source account the error is \<open>Subscription must be active to be updated\<close>.
\<close>

theorem updateSubscription_inactive_rejected:
  assumes "findOneOrder s (arg_id args) = Some (order, Some sub)"
    and "\<not> sub_isActive sub"
  shows "(\<exists>err. updateSubscription e now remoteUser args s = (Inl err, s))
       \<and> (\<forall>ru. remoteUser = Some ru \<and> isAdmin e ru (Some (order_FromCollectiveId order)) \<longrightarrow>
             updateSubscription e now remoteUser args s =
               (Inl (Error ''Subscription must be active to be updated''), s))"
  using assms
  by (auto simp: updateSubscription_def updateSubscription_load_def split: option.splits)

theorem updateSubscription_inactive_rejected_witness:
  "findOneOrder dbCancelled 1 =
     Some (order1\<lparr>order_status := CANCELLED\<rparr>, Some (sub5\<lparr>sub_isActive := False, sub_deactivatedAt := Some 8\<rparr>))
   \<and> updateSubscription env0 9 (Some alice)
       \<lparr>arg_id = 1, arg_paymentMethod = Given tokenRef, arg_amount = Given 2000\<rparr> dbCancelled =
       (Inl (Error ''Subscription must be active to be updated''), dbCancelled)"
proof -
  have hc: "findOneOrder dbCancelled
              (arg_id \<lparr>arg_id = 1, arg_paymentMethod = Given tokenRef, arg_amount = Given 2000\<rparr>) =
       Some (order1\<lparr>order_status := CANCELLED\<rparr>, Some (sub5\<lparr>sub_isActive := False, sub_deactivatedAt := Some 8\<rparr>))"
    by (simp add: findOneOrder_def findOrder_def findSubscription_def dbCancelled_def db0_def order1_def sub5_def)
  have ina: "\<not> sub_isActive (sub5\<lparr>sub_isActive := False, sub_deactivatedAt := Some 8\<rparr>)" by simp
  have adm: "isAdmin env0 alice (Some (order_FromCollectiveId (order1\<lparr>order_status := CANCELLED\<rparr>)))"
    by (simp add: env0_def alice_def order1_def)
  from updateSubscription_inactive_rejected[OF hc ina, of env0 9 "Some alice"] adm hc
  show ?thesis by simp
qed

lemma paymentMethod_frame:
  assumes r: "updateSubscription_paymentMethod e p (order, sub) s = (r, s1)"
  shows "map order_id (orders s1) = map order_id (orders s) \<and>
         map sub_id (subscriptions s1) = map sub_id (subscriptions s) \<and>
         activities s1 = activities s \<and> members s1 = members s \<and> executed s1 = executed s \<and>
         (\<forall>err. r = Inl err \<longrightarrow> s1 = s) \<and>
         (\<forall>order' sub'. r = Inr (order', sub') \<longrightarrow> sub_amount sub' = sub_amount sub)"
proof (cases r)
  case (Inl err)
  with r have "s1 = s"
    unfolding updateSubscription_paymentMethod_def Let_def
    by (auto split: if_splits option.splits sum.splits prod.splits)
  with Inl show ?thesis by simp
next
  case (Inr os')
  obtain order' sub' where os': "os' = (order', sub')" by (cases os')
  from r Inr os' obtain newPm sA where
    o': "order' = order\<lparr>order_PaymentMethodId := Some (pmr_id newPm)\<rparr>" and
    sub': "sub' = (if 0 < sub_chargeRetryCount sub then
                     sub\<lparr>sub_nextChargeDate := getNextChargeDate e ''updated'' order sub,
                         sub_chargeRetryCount := getChargeRetryCount e ''updated'' order sub\<rparr>
                   else sub)" and
    s1: "s1 = saveOrder (if 0 < sub_chargeRetryCount sub then saveSubscription sA sub' else sA) order'" and
    sA: "sA = s \<or> sA = s\<lparr>paymentMethods := paymentMethods s @ [newPm]\<rparr>"
    unfolding updateSubscription_paymentMethod_def Let_def
    by (auto split: if_splits option.splits sum.splits prod.splits)
  have a: "sub_amount sub' = sub_amount sub" using sub' by simp
  have o: "map order_id (orders s1) = map order_id (orders s)"
    unfolding s1 using sA map_replace_ids[of order_id order' "order_id order'"]
    by (auto simp: saveOrder_def saveSubscription_def)
  have su: "map sub_id (subscriptions s1) = map sub_id (subscriptions s)"
    unfolding s1 using sA map_replace_ids[of sub_id sub' "sub_id sub'"]
    by (auto simp: saveOrder_def saveSubscription_def)
  have rest: "activities s1 = activities s \<and> members s1 = members s \<and> executed s1 = executed s"
    unfolding s1 using sA by (auto simp: saveOrder_def saveSubscription_def)
  from a o su rest Inr os' show ?thesis by simp
qed


text \<open>
  C3, as stated, does not hold: a refused amount does not mean that no row is created.
  Alice sends a new card token together with the amount 150. The amount is refused, yet
  the payment method made from the token has been stored (id 5 beside id 4) and the
  order now points to it.
\<close>

theorem updateSubscription_amount_contract_counterexample:
  "fst (updateSubscription env0 9 (Some alice)
          \<lparr>arg_id = 1, arg_paymentMethod = Given tokenRef, arg_amount = Given 150\<rparr> db0) =
     Inl (Error ''Invalid amount'')
   \<and> map pmr_id (paymentMethods db0) = [4]
   \<and> map pmr_id (paymentMethods (snd (updateSubscription env0 9 (Some alice)
          \<lparr>arg_id = 1, arg_paymentMethod = Given tokenRef, arg_amount = Given 150\<rparr> db0))) = [4, 5]
   \<and> map order_PaymentMethodId (orders db0) = [Some 4]
   \<and> map order_PaymentMethodId (orders (snd (updateSubscription env0 9 (Some alice)
          \<lparr>arg_id = 1, arg_paymentMethod = Given tokenRef, arg_amount = Given 150\<rparr> db0))) = [Some 5]"
proof -
  have l: "updateSubscription_load env0 (Some alice) 1 db0 = Inr (order1, sub5)"
    by (simp add: updateSubscription_load_def findOneOrder_def findOrder_def findSubscription_def
          db0_def order1_def sub5_def env0_def alice_def)
  have c: "createFromStripeSourceToken env0
             (tokenRef\<lparr>pm_CollectiveId := Some (order_FromCollectiveId order1)\<rparr>) db0 =
           Inr \<lparr>pmr_id = 5, pmr_uuid = None, pmr_CollectiveId = Some 10\<rparr>"
    by (simp add: env0_def db0_def newId_def order1_def)
  have p: "updateSubscription_paymentMethod env0 tokenRef (order1, sub5) db0 =
           (Inr (order1\<lparr>order_PaymentMethodId := Some 5\<rparr>, sub5),
            saveOrder (db0\<lparr>paymentMethods := paymentMethods db0 @
                                [\<lparr>pmr_id = 5, pmr_uuid = None, pmr_CollectiveId = Some 10\<rparr>]\<rparr>)
                      (order1\<lparr>order_PaymentMethodId := Some 5\<rparr>))"
  proof -
    have u: "pm_uuid tokenRef = None" by (simp add: tokenRef_def)
    have rc: "sub_chargeRetryCount sub5 = 0" by (simp add: sub5_def)
    show ?thesis
      unfolding updateSubscription_paymentMethod_def
      by (simp add: c u rc Let_def)
  qed
  have a: "updateSubscription_amount 9 150 (order1\<lparr>order_PaymentMethodId := Some 5\<rparr>, sub5) s =
           (Inl (Error ''Invalid amount''), s)" for s
    by (simp add: updateSubscription_amount_def sub5_def)
  have r: "updateSubscription env0 9 (Some alice)
             \<lparr>arg_id = 1, arg_paymentMethod = Given tokenRef, arg_amount = Given 150\<rparr> db0 =
           (Inl (Error ''Invalid amount''),
            saveOrder (db0\<lparr>paymentMethods := paymentMethods db0 @
                                [\<lparr>pmr_id = 5, pmr_uuid = None, pmr_CollectiveId = Some 10\<rparr>]\<rparr>)
                      (order1\<lparr>order_PaymentMethodId := Some 5\<rparr>))"
    by (simp add: updateSubscription_def l p a)
  show ?thesis unfolding r by (simp add: saveOrder_def db0_def order1_def)
qed

text \<open>
  C3, amended. A call that supplies an amount. When the amount is below 100, is not a multiple of
  100, or equals the amount of the subscription of the order, the call ends in an error
  and no order row and no subscription row is created; the database is untouched when no
  payment method comes with the call. A payment method that comes with the call is
  handled first (lines 572-606), so it stays created and bound to the order when the
  amount is refused afterwards. When requester, order and active subscription are
  accepted (lines 543-570) and the payment method, if any, is bound, leaving the database
  \<open>s1\<close>: a refused amount ends in an error with the database \<open>s1\<close>; any other amount
  deactivates the old subscription, makes the old order \<open>CANCELLED\<close>, and appends one
  subscription row and one order row with fresh ids, the new subscription active and
  carrying the amount, the new order, which is returned, \<open>PENDING\<close>, carrying the amount
  and referencing the new subscription.
\<close>

theorem updateSubscription_amount_contract:
  assumes amt: "arg_amount args = Given amount"
  shows "(amount < 100 \<or> amount mod 100 \<noteq> 0 \<or>
          (\<exists>o0 sub0. findOneOrder s (arg_id args) = Some (o0, Some sub0) \<and>
                      sub_amount sub0 = Some amount) \<longrightarrow>
            (\<exists>err s'. updateSubscription e now remoteUser args s = (Inl err, s') \<and>
               map order_id (orders s') = map order_id (orders s) \<and>
               map sub_id (subscriptions s') = map sub_id (subscriptions s) \<and>
               ((\<forall>p. arg_paymentMethod args \<noteq> Given p) \<longrightarrow> s' = s)))
       \<and> (updateSubscription_load e remoteUser (arg_id args) s = Inr os \<and>
          (case arg_paymentMethod args of
             Undefined \<Rightarrow> (Inr os, s)
           | Null \<Rightarrow> (Inl (TypeError ''Cannot read property 'uuid' of null''), s)
           | Given p \<Rightarrow> updateSubscription_paymentMethod e p os s) = (Inr (order, sub), s1) \<longrightarrow>
          (Some amount = sub_amount sub \<or> amount < 100 \<or> amount mod 100 \<noteq> 0 \<longrightarrow>
            (\<exists>err. updateSubscription e now remoteUser args s = (Inl err, s1)) \<and>
            (arg_paymentMethod args = Undefined \<longrightarrow> s1 = s))
          \<and> (\<not> (Some amount = sub_amount sub \<or> amount < 100 \<or> amount mod 100 \<noteq> 0) \<longrightarrow>
            (\<exists>newOrder newSub s'.
               updateSubscription e now remoteUser args s = (Inr newOrder, s') \<and>
               orders s' = orders (saveOrder s1 (order\<lparr>order_status := CANCELLED\<rparr>)) @ [newOrder] \<and>
               subscriptions s' = subscriptions (saveSubscription s1 (deactivate now sub)) @ [newSub] \<and>
               findSubscription s' (sub_id sub) = Some (deactivate now sub) \<and>
               \<not> sub_isActive (deactivate now sub) \<and>
               findOrder s' (order_id order) = Some (order\<lparr>order_status := CANCELLED\<rparr>) \<and>
               findSubscription s' (sub_id newSub) = Some newSub \<and>
               findOrder s' (order_id newOrder) = Some newOrder \<and>
               sub_id newSub \<notin> sub_id ` set (subscriptions s1) \<and>
               order_id newOrder \<notin> order_id ` set (orders s1) \<and>
               sub_isActive newSub \<and> sub_amount newSub = Some amount \<and>
               order_status newOrder = PENDING \<and> order_totalAmount newOrder = Some amount \<and>
               order_SubscriptionId newOrder = Some (sub_id newSub))))"
proof -
  have A: "(amount < 100 \<or> amount mod 100 \<noteq> 0 \<or>
          (\<exists>o0 sub0. findOneOrder s (arg_id args) = Some (o0, Some sub0) \<and>
                      sub_amount sub0 = Some amount) \<longrightarrow>
            (\<exists>err s'. updateSubscription e now remoteUser args s = (Inl err, s') \<and>
               map order_id (orders s') = map order_id (orders s) \<and>
               map sub_id (subscriptions s') = map sub_id (subscriptions s) \<and>
               ((\<forall>p. arg_paymentMethod args \<noteq> Given p) \<longrightarrow> s' = s)))"
  proof
    assume bad: "amount < 100 \<or> amount mod 100 \<noteq> 0 \<or>
          (\<exists>o0 sub0. findOneOrder s (arg_id args) = Some (o0, Some sub0) \<and>
                      sub_amount sub0 = Some amount)"
    show "\<exists>err s'. updateSubscription e now remoteUser args s = (Inl err, s') \<and>
               map order_id (orders s') = map order_id (orders s) \<and>
               map sub_id (subscriptions s') = map sub_id (subscriptions s) \<and>
               ((\<forall>p. arg_paymentMethod args \<noteq> Given p) \<longrightarrow> s' = s)"
    proof (cases "updateSubscription_load e remoteUser (arg_id args) s")
      case (Inl err)
      then have "updateSubscription e now remoteUser args s = (Inl err, s)"
        by (simp add: updateSubscription_def)
      then show ?thesis by simp
    next
      case (Inr os0)
      obtain o0 sub0 where os0: "os0 = (o0, sub0)" by (cases os0)
      note ld = Inr[unfolded os0]
      from ld have fo: "findOneOrder s (arg_id args) = Some (o0, Some sub0)"
        by (auto simp: updateSubscription_load_def split: option.splits if_splits)
      with bad have bad0: "Some amount = sub_amount sub0 \<or> amount < 100 \<or> amount mod 100 \<noteq> 0"
        by auto
      show ?thesis
      proof (cases "arg_paymentMethod args")
        case Undefined
        from amount_reject[OF bad0, of now o0 s] obtain err where
          "updateSubscription_amount now amount (o0, sub0) s = (Inl err, s)" ..
        then have "updateSubscription e now remoteUser args s = (Inl err, s)"
          by (simp add: updateSubscription_def ld Undefined amt)
        then show ?thesis by simp
      next
        case Null
        have "updateSubscription e now remoteUser args s =
                (Inl (TypeError ''Cannot read property 'uuid' of null''), s)"
          by (simp add: updateSubscription_def ld Null)
        then show ?thesis by simp
      next
        case (Given p)
        obtain r sP where pm: "updateSubscription_paymentMethod e p (o0, sub0) s = (r, sP)"
          by (cases "updateSubscription_paymentMethod e p (o0, sub0) s")
        note fr = paymentMethod_frame[OF pm]
        show ?thesis
        proof (cases r)
          case (Inl err)
          then have "updateSubscription e now remoteUser args s = (Inl err, sP)"
            by (simp add: updateSubscription_def ld Given pm)
          with fr Given show ?thesis by simp
        next
          case (Inr os1)
          obtain o1 sub1 where os1: "os1 = (o1, sub1)" by (cases os1)
          from fr Inr os1 have "sub_amount sub1 = sub_amount sub0" by simp
          with bad0 have bad1: "Some amount = sub_amount sub1 \<or> amount < 100 \<or> amount mod 100 \<noteq> 0"
            by simp
          from amount_reject[OF bad1, of now o1 sP] obtain err where
            "updateSubscription_amount now amount (o1, sub1) sP = (Inl err, sP)" ..
          then have "updateSubscription e now remoteUser args s = (Inl err, sP)"
            by (simp add: updateSubscription_def ld Given pm Inr os1 amt)
          with fr Given show ?thesis by simp
        qed
      qed
    qed
  qed
  have B: "(Some amount = sub_amount sub \<or> amount < 100 \<or> amount mod 100 \<noteq> 0 \<longrightarrow>
            (\<exists>err. updateSubscription e now remoteUser args s = (Inl err, s1)) \<and>
            (arg_paymentMethod args = Undefined \<longrightarrow> s1 = s))
          \<and> (\<not> (Some amount = sub_amount sub \<or> amount < 100 \<or> amount mod 100 \<noteq> 0) \<longrightarrow>
            (\<exists>newOrder newSub s'.
               updateSubscription e now remoteUser args s = (Inr newOrder, s') \<and>
               orders s' = orders (saveOrder s1 (order\<lparr>order_status := CANCELLED\<rparr>)) @ [newOrder] \<and>
               subscriptions s' = subscriptions (saveSubscription s1 (deactivate now sub)) @ [newSub] \<and>
               findSubscription s' (sub_id sub) = Some (deactivate now sub) \<and>
               \<not> sub_isActive (deactivate now sub) \<and>
               findOrder s' (order_id order) = Some (order\<lparr>order_status := CANCELLED\<rparr>) \<and>
               findSubscription s' (sub_id newSub) = Some newSub \<and>
               findOrder s' (order_id newOrder) = Some newOrder \<and>
               sub_id newSub \<notin> sub_id ` set (subscriptions s1) \<and>
               order_id newOrder \<notin> order_id ` set (orders s1) \<and>
               sub_isActive newSub \<and> sub_amount newSub = Some amount \<and>
               order_status newOrder = PENDING \<and> order_totalAmount newOrder = Some amount \<and>
               order_SubscriptionId newOrder = Some (sub_id newSub)))"
    if load: "updateSubscription_load e remoteUser (arg_id args) s = Inr os"
      and pm: "(case arg_paymentMethod args of
             Undefined \<Rightarrow> (Inr os, s)
           | Null \<Rightarrow> (Inl (TypeError ''Cannot read property 'uuid' of null''), s)
           | Given p \<Rightarrow> updateSubscription_paymentMethod e p os s) = (Inr (order, sub), s1)"
  proof -
    have run: "updateSubscription e now remoteUser args s =
               updateSubscription_amount now amount (order, sub) s1"
      by (simp add: updateSubscription_def load pm amt)
    obtain o0 sub0 where os: "os = (o0, sub0)" by (cases os)
    from load_found[OF load[unfolded os]]
    have f0: "findOrder s (order_id o0) = Some o0" "findSubscription s (sub_id sub0) = Some sub0"
      by auto
    have f1: "findOrder s1 (order_id order) = Some order \<and> findSubscription s1 (sub_id sub) = Some sub"
    proof (cases "arg_paymentMethod args")
      case Undefined
      with pm os f0 show ?thesis by simp
    next
      case Null
      with pm show ?thesis by simp
    next
      case (Given p)
      with pm os have "updateSubscription_paymentMethod e p (o0, sub0) s = (Inr (order, sub), s1)"
        by simp
      from paymentMethod_found[OF f0 this] show ?thesis .
    qed
    have same: "arg_paymentMethod args = Undefined \<longrightarrow> s1 = s"
      using pm by (auto split: argument.splits)
    show ?thesis
    proof (intro conjI impI)
      assume "Some amount = sub_amount sub \<or> amount < 100 \<or> amount mod 100 \<noteq> 0"
      from amount_reject[OF this, of now order s1]
      show "\<exists>err. updateSubscription e now remoteUser args s = (Inl err, s1)"
        unfolding run .
    next
      assume "arg_paymentMethod args = Undefined"
      with same show "s1 = s" by simp
    next
      assume ok: "\<not> (Some amount = sub_amount sub \<or> amount < 100 \<or> amount mod 100 \<noteq> 0)"
      from amount_accept[OF conjunct1[OF f1] conjunct2[OF f1] ok, of now]
      show "\<exists>newOrder newSub s'.
               updateSubscription e now remoteUser args s = (Inr newOrder, s') \<and>
               orders s' = orders (saveOrder s1 (order\<lparr>order_status := CANCELLED\<rparr>)) @ [newOrder] \<and>
               subscriptions s' = subscriptions (saveSubscription s1 (deactivate now sub)) @ [newSub] \<and>
               findSubscription s' (sub_id sub) = Some (deactivate now sub) \<and>
               \<not> sub_isActive (deactivate now sub) \<and>
               findOrder s' (order_id order) = Some (order\<lparr>order_status := CANCELLED\<rparr>) \<and>
               findSubscription s' (sub_id newSub) = Some newSub \<and>
               findOrder s' (order_id newOrder) = Some newOrder \<and>
               sub_id newSub \<notin> sub_id ` set (subscriptions s1) \<and>
               order_id newOrder \<notin> order_id ` set (orders s1) \<and>
               sub_isActive newSub \<and> sub_amount newSub = Some amount \<and>
               order_status newOrder = PENDING \<and> order_totalAmount newOrder = Some amount \<and>
               order_SubscriptionId newOrder = Some (sub_id newSub)"
        unfolding run by (simp add: deactivate_def)
    qed
  qed
  show ?thesis
    apply (rule conjI)
     apply (rule A)
    apply (rule impI)
    apply (erule conjE)
    apply (rule B)
     apply assumption+
    done
qed

theorem updateSubscription_amount_contract_witness:
  "updateSubscription_load env0 (Some alice) 1 db0 = Inr (order1, sub5)
   \<and> (\<exists>err s'. updateSubscription env0 9 (Some alice)
               \<lparr>arg_id = 1, arg_paymentMethod = Given tokenRef, arg_amount = Given 150\<rparr> db0 = (Inl err, s') \<and>
          map order_id (orders s') = [1] \<and> map sub_id (subscriptions s') = [5])
   \<and> (\<exists>err. updateSubscription env0 9 (Some alice)
               \<lparr>arg_id = 1, arg_paymentMethod = Undefined, arg_amount = Given 150\<rparr> db0 = (Inl err, db0))
   \<and> (\<exists>newOrder newSub s'.
         updateSubscription env0 9 (Some alice)
           \<lparr>arg_id = 1, arg_paymentMethod = Undefined, arg_amount = Given 2000\<rparr> db0 = (Inr newOrder, s') \<and>
         findSubscription s' 5 = Some (deactivate 9 sub5) \<and>
         findOrder s' 1 = Some (order1\<lparr>order_status := CANCELLED\<rparr>) \<and>
         findSubscription s' (sub_id newSub) = Some newSub \<and>
         findOrder s' (order_id newOrder) = Some newOrder \<and>
         sub_isActive newSub \<and> sub_amount newSub = Some 2000 \<and>
         order_status newOrder = PENDING \<and> order_totalAmount newOrder = Some 2000 \<and>
         order_SubscriptionId newOrder = Some (sub_id newSub))"
proof -
  let ?a0 = "\<lparr>arg_id = 1, arg_paymentMethod = Given tokenRef, arg_amount = Given 150\<rparr>"
  let ?a1 = "\<lparr>arg_id = 1, arg_paymentMethod = Undefined, arg_amount = Given 150\<rparr>"
  let ?a2 = "\<lparr>arg_id = 1, arg_paymentMethod = Undefined, arg_amount = Given 2000\<rparr>"
  have l: "updateSubscription_load env0 (Some alice) 1 db0 = Inr (order1, sub5)"
    by (simp add: updateSubscription_load_def findOneOrder_def findOrder_def findSubscription_def
          db0_def order1_def sub5_def env0_def alice_def)
  have l1: "updateSubscription_load env0 (Some alice) (arg_id ?a1) db0 = Inr (order1, sub5)"
    using l by simp
  have l2: "updateSubscription_load env0 (Some alice) (arg_id ?a2) db0 = Inr (order1, sub5)"
    using l by simp
  have p1: "(case arg_paymentMethod ?a1 of
               Undefined \<Rightarrow> (Inr (order1, sub5), db0)
             | Null \<Rightarrow> (Inl (TypeError ''Cannot read property 'uuid' of null''), db0)
             | Given p \<Rightarrow> updateSubscription_paymentMethod env0 p (order1, sub5) db0) =
            (Inr (order1, sub5), db0)"
    by simp
  have p2: "(case arg_paymentMethod ?a2 of
               Undefined \<Rightarrow> (Inr (order1, sub5), db0)
             | Null \<Rightarrow> (Inl (TypeError ''Cannot read property 'uuid' of null''), db0)
             | Given p \<Rightarrow> updateSubscription_paymentMethod env0 p (order1, sub5) db0) =
            (Inr (order1, sub5), db0)"
    by simp
  have a0: "arg_amount ?a0 = Given 150" by simp
  have a1: "arg_amount ?a1 = Given 150" by simp
  have a2: "arg_amount ?a2 = Given 2000" by simp
  have ids: "sub_id sub5 = 5" "order_id order1 = 1" "sub_amount sub5 = Some 1000"
    by (simp_all add: sub5_def order1_def)
  have d0: "map order_id (orders db0) = [1]" "map sub_id (subscriptions db0) = [5]"
    by (simp_all add: db0_def sub5_def order1_def)
  from conjunct1[OF updateSubscription_amount_contract[OF a0, of db0 env0 9 "Some alice"]]
  have r0: "\<exists>err s'. updateSubscription env0 9 (Some alice) ?a0 db0 = (Inl err, s') \<and>
          map order_id (orders s') = [1] \<and> map sub_id (subscriptions s') = [5]"
    unfolding d0 by simp
  from conjunct2[OF updateSubscription_amount_contract[OF a1, of db0 env0 9 "Some alice"
         "(order1, sub5)" order1 sub5 db0]] l1 p1
  have r1: "\<exists>err. updateSubscription env0 9 (Some alice) ?a1 db0 = (Inl err, db0)"
    by simp
  from conjunct2[OF updateSubscription_amount_contract[OF a2, of db0 env0 9 "Some alice"
         "(order1, sub5)" order1 sub5 db0]] l2 p2
  have r2: "\<exists>newOrder newSub s'.
         updateSubscription env0 9 (Some alice) ?a2 db0 = (Inr newOrder, s') \<and>
         findSubscription s' 5 = Some (deactivate 9 sub5) \<and>
         findOrder s' 1 = Some (order1\<lparr>order_status := CANCELLED\<rparr>) \<and>
         findSubscription s' (sub_id newSub) = Some newSub \<and>
         findOrder s' (order_id newOrder) = Some newOrder \<and>
         sub_isActive newSub \<and> sub_amount newSub = Some 2000 \<and>
         order_status newOrder = PENDING \<and> order_totalAmount newOrder = Some 2000 \<and>
         order_SubscriptionId newOrder = Some (sub_id newSub)"
    unfolding ids by simp blast
  from l r0 r1 r2 show ?thesis by blast
qed

end
